theory Spec2Isabelle
  imports Main
begin

section \<open>The shared game contract (playground/types.ts)\<close>

datatype Player = P1 | P2

text \<open>\<^verbatim>\<open>GameStatus = 'in_progress' | 'win' | 'draw' | 'lose'\<close>\<close>

datatype GameStatus = InProgress | Win | Draw | Lose

datatype GameMode = Singleplayer | Multiplayer

text \<open>
  \<^verbatim>\<open>interface GameState<BoardType>\<close>. The optional \<^verbatim>\<open>mode\<close> is an option; every
  game state of the repository extends this record, as the interfaces of the source do.
\<close>

record 'b GameState =
  board :: 'b
  currentPlayer :: Player
  status :: GameStatus
  winner :: "Player option"
  mode :: "GameMode option"

text \<open>
  The only exception the engines can raise is \<open>TypeError\<close>: reading or writing a property
  of \<^verbatim>\<open>undefined\<close>, which happens when an array is indexed outside its range and the
  result is indexed or dereferenced again. \<open>SparseWrite\<close> is not an exception: it marks
  the one place (Battleship's removal of a ship from its old cells) where a write can fall
  outside an existing row, which in JavaScript grows the array or adds a property to it; an
  array of cells as modelled here cannot hold that, and the model stops there. It needs a
  recorded position with a cell off the grid; \<^verbatim>\<open>placeShip\<close> records a position only
  after \<^verbatim>\<open>canPlaceShip\<close> has read every cell of the ship as \<^verbatim>\<open>'empty'\<close>.
\<close>

datatype js_error = TypeError | SparseWrite

text \<open>
  \<^verbatim>\<open>xs[i]\<close> on a JavaScript array: the element, or \<^verbatim>\<open>undefined\<close> (here \<open>None\<close>)
  when \<open>i\<close> is not an index of the array. Indices and counters are modelled as integers;
  the increments of \<^verbatim>\<open>attempts\<close> and \<^verbatim>\<open>movesCount\<close> round as a double does (see
  the next section).
\<close>

definition at :: "'a list \<Rightarrow> int \<Rightarrow> 'a option" where
  "at xs i = (if 0 \<le> i \<and> i < int (length xs) then Some (xs ! nat i) else None)"

text \<open>
  \<^verbatim>\<open>g[r][c]\<close> on an array of arrays: a missing row makes the second indexing throw,
  a missing column in an existing row reads \<^verbatim>\<open>undefined\<close>.
\<close>

definition at2 :: "'a list list \<Rightarrow> int \<Rightarrow> int \<Rightarrow> js_error + 'a option" where
  "at2 g r c = (case at g r of None \<Rightarrow> Inl TypeError | Some rw \<Rightarrow> Inr (at rw c))"

section \<open>JavaScript numbers\<close>

text \<open>
  A \<^verbatim>\<open>number\<close> is an IEEE double: a finite value \<open>m * 2^e\<close> with integers \<open>m\<close> and
  \<open>e\<close>, one of the two infinities, or \<^verbatim>\<open>NaN\<close>. \<open>Num m e\<close> stands for the value
  \<open>m * 2^e\<close>; every finite double is of this form (the type also has values no double
  holds, and several forms of one value, which the comparisons treat alike; the two zeros
  are one value, and \<^verbatim>\<open>===\<close> does not tell them apart). \<open>ofInt n\<close> is the integer \<open>n\<close>.
\<close>

datatype jsnum = Num int int | PosInfinity | NegInfinity | NaN

definition ofInt :: "int \<Rightarrow> jsnum" where
  "ofInt n = Num n 0"

text \<open>The mantissa of \<open>m * 2^e\<close> when it is written with the exponent \<open>k \<le> e\<close>.\<close>

definition scaled :: "int \<Rightarrow> int \<Rightarrow> int \<Rightarrow> int" where
  "scaled m e k = m * 2 ^ nat (e - k)"

text \<open>
  \<^verbatim>\<open>a === b\<close> and \<^verbatim>\<open>a < b\<close> on numbers: both are false as soon as one side is
  \<^verbatim>\<open>NaN\<close>; two finite values are compared exactly, at their smaller exponent.
\<close>

fun js_eq :: "jsnum \<Rightarrow> jsnum \<Rightarrow> bool" where
  "js_eq (Num m1 e1) (Num m2 e2) = (scaled m1 e1 (min e1 e2) = scaled m2 e2 (min e1 e2))"
| "js_eq PosInfinity PosInfinity = True"
| "js_eq NegInfinity NegInfinity = True"
| "js_eq a b = False"

fun js_lt :: "jsnum \<Rightarrow> jsnum \<Rightarrow> bool" where
  "js_lt (Num m1 e1) (Num m2 e2) = (scaled m1 e1 (min e1 e2) < scaled m2 e2 (min e1 e2))"
| "js_lt NaN b = False"
| "js_lt a NaN = False"
| "js_lt PosInfinity b = False"
| "js_lt a NegInfinity = False"
| "js_lt NegInfinity b = True"
| "js_lt a PosInfinity = True"

text \<open>
  A counter (\<^verbatim>\<open>attempts\<close>, \<^verbatim>\<open>movesCount\<close>) is a double with an integer value, here an
  \<open>int\<close>. \<^verbatim>\<open>n + 1\<close> is the double nearest to the exact sum, ties going to the even
  mantissa: every integer up to \<open>2^53\<close> in absolute value is a double; beyond, an integer
  of \<open>b\<close> bits is rounded to a multiple of \<open>2^(b - 53)\<close>. From a double \<open>n\<close> the sum does
  not overflow.
\<close>

function bitLength :: "int \<Rightarrow> nat" where
  "bitLength m = (if m \<le> 0 then 0 else Suc (bitLength (m div 2)))"
  by pat_completeness auto
termination
  by (relation "measure nat") auto

definition roundToDouble :: "int \<Rightarrow> int" where
  "roundToDouble m =
     (if \<bar>m\<bar> \<le> 2 ^ 53 then m
      else
        let u = 2 ^ (bitLength \<bar>m\<bar> - 53);
            q = m div u;
            r = m mod u
        in if 2 * r < u then q * u
           else if 2 * r > u then (q + 1) * u
           else if even q then q * u
           else (q + 1) * u)"

definition js_plus1 :: "int \<Rightarrow> int" where
  "js_plus1 n = roundToDouble (n + 1)"

section \<open>WordleClone (turkishwordle/logic.ts)\<close>

text \<open>
  A JavaScript string is a sequence of UTF-16 code units; \<^verbatim>\<open>split('')\<close> and
  \<^verbatim>\<open>length\<close> work on code units. \<open>utf16\<close> writes an ASCII literal as such a sequence.
\<close>

type_synonym jsstring = "nat list"

definition utf16 :: "string \<Rightarrow> jsstring" where
  "utf16 s = map of_char s"

datatype LetterFeedback = Correct | Present | Absent | Empty

record WordleLetter =
  char :: nat
  feedback :: LetterFeedback

text \<open>
  A \<^verbatim>\<open>GuessRow\<close> under construction: \<^verbatim>\<open>Array(wordLength).fill(null)\<close>, whose
  entries are \<^verbatim>\<open>null\<close> (here \<open>None\<close>) until a pass writes them.
\<close>

type_synonym GuessRow = "WordleLetter option list"

text \<open>
  \<^verbatim>\<open>row[i] = v\<close> for \<open>i \<ge> 0\<close>: inside the array the entry is replaced, beyond its end
  the array grows and the gap reads as empty. \<^verbatim>\<open>row[i]\<close> reads \<^verbatim>\<open>undefined\<close>
  beyond the end; both \<^verbatim>\<open>null\<close> and \<^verbatim>\<open>undefined\<close> are falsy in
  \<^verbatim>\<open>if (row[i]) return\<close>.
\<close>

definition row_set :: "GuessRow \<Rightarrow> nat \<Rightarrow> WordleLetter \<Rightarrow> GuessRow" where
  "row_set rw i v =
     (if i < length rw then rw[i := Some v]
      else rw @ replicate (i - length rw) None @ [Some v])"

definition row_get :: "GuessRow \<Rightarrow> nat \<Rightarrow> WordleLetter option" where
  "row_get rw i = (if i < length rw then rw ! i else None)"

text \<open>\<^verbatim>\<open>availableTargetLetters.indexOf(char)\<close>: the first index holding the value.\<close>

fun indexOf :: "'a list \<Rightarrow> 'a \<Rightarrow> nat option" where
  "indexOf [] x = None"
| "indexOf (y # ys) x = (if y = x then Some 0 else map_option Suc (indexOf ys x))"

text \<open>
  The body of the first \<^verbatim>\<open>forEach\<close> at index \<open>i\<close>. \<^verbatim>\<open>targetLetters[i]\<close> is
  \<^verbatim>\<open>undefined\<close> beyond the target, and no letter is equal to it.
\<close>

definition markCorrect ::
  "jsstring \<Rightarrow> jsstring \<Rightarrow> GuessRow \<times> nat option list \<Rightarrow> nat \<Rightarrow> GuessRow \<times> nat option list" where
  "markCorrect guessLetters targetLetters st i =
     (let ch = guessLetters ! i in
      if i < length targetLetters \<and> ch = targetLetters ! i
      then (row_set (fst st) i \<lparr>char = ch, feedback = Correct\<rparr>, (snd st)[i := None])
      else st)"

text \<open>The body of the second \<^verbatim>\<open>forEach\<close> at index \<open>i\<close>.\<close>

definition markPresent ::
  "jsstring \<Rightarrow> GuessRow \<times> nat option list \<Rightarrow> nat \<Rightarrow> GuessRow \<times> nat option list" where
  "markPresent guessLetters st i =
     (let ch = guessLetters ! i in
      if row_get (fst st) i \<noteq> None then st
      else (case indexOf (snd st) (Some ch) of
              Some targetIndex \<Rightarrow>
                (row_set (fst st) i \<lparr>char = ch, feedback = Present\<rparr>, (snd st)[targetIndex := None])
            | None \<Rightarrow> (row_set (fst st) i \<lparr>char = ch, feedback = Absent\<rparr>, snd st)))"

text \<open>
  \<^verbatim>\<open>evaluateTurkishWordleGuess\<close>. The runtime's
  \<^verbatim>\<open>toLocaleUpperCase('tr-TR')\<close> is the parameter \<open>up\<close>; \<^verbatim>\<open>wordLength\<close> is the
  length of the target before it is put in upper case, as in the source.
\<close>

definition evaluateTurkishWordleGuess ::
  "(jsstring \<Rightarrow> jsstring) \<Rightarrow> jsstring \<Rightarrow> jsstring \<Rightarrow> GuessRow" where
  "evaluateTurkishWordleGuess up targetWord guess =
     (let wordLength = length targetWord;
          targetLetters = up targetWord;
          guessLetters = up guess;
          row0 = replicate wordLength None;
          availableTargetLetters = map Some targetLetters;
          st1 = foldl (markCorrect guessLetters targetLetters)
                  (row0, availableTargetLetters) [0..<length guessLetters];
          st2 = foldl (markPresent guessLetters) st1 [0..<length guessLetters]
      in fst st2)"

text \<open>
  The number of \<^verbatim>\<open>correct\<close> and \<^verbatim>\<open>present\<close> marks a row gives to the letter \<open>c\<close>.
\<close>

definition isMark :: "nat \<Rightarrow> WordleLetter option \<Rightarrow> bool" where
  "isMark c e = (e = Some \<lparr>char = c, feedback = Correct\<rparr> \<or> e = Some \<lparr>char = c, feedback = Present\<rparr>)"

definition marks :: "nat \<Rightarrow> GuessRow \<Rightarrow> nat" where
  "marks c rw = length (filter (isMark c) rw)"

text \<open>
  The part of \<^verbatim>\<open>toLocaleUpperCase('tr-TR')\<close> on the letters that
  \<^verbatim>\<open>updateCurrentGuess\<close> lets through (the dotted and dotless i of Turkish included);
  it serves as a concrete instance of the parameter \<open>up\<close>.
\<close>

definition trUpperUnit :: "nat \<Rightarrow> nat" where
  "trUpperUnit u =
     (if u = 105 then 304
      else if u = 305 then 73
      else if 97 \<le> u \<and> u \<le> 122 then u - 32
      else if u = 231 then 199
      else if u = 287 then 286
      else if u = 246 then 214
      else if u = 351 then 350
      else if u = 252 then 220
      else u)"

definition trUpper :: "jsstring \<Rightarrow> jsstring" where
  "trUpper w = map trUpperUnit w"

section \<open>TicTacToe (tictactoe/logic.ts)\<close>

text \<open>\<^verbatim>\<open>CellValue = Player | null\<close>; the board is an array of nine cells.\<close>

type_synonym CellValue = "Player option"

type_synonym TicTacToeState = "CellValue list GameState"

definition WINNING_COMBINATIONS :: "(int \<times> int \<times> int) list" where
  "WINNING_COMBINATIONS =
     [(0, 1, 2), (3, 4, 5), (6, 7, 8),
      (0, 3, 6), (1, 4, 7), (2, 5, 8),
      (0, 4, 8), (2, 4, 6)]"

text \<open>
  The loop of \<^verbatim>\<open>checkWinner\<close> over the combinations: a cell read outside the board
  is \<^verbatim>\<open>undefined\<close>, which is falsy and equal to no player.
\<close>

fun ttt_scan :: "(int \<times> int \<times> int) list \<Rightarrow> CellValue list \<Rightarrow> Player option" where
  "ttt_scan [] brd = None"
| "ttt_scan ((a, b, c) # rest) brd =
     (case at brd a of
        Some (Some p) \<Rightarrow>
          if at brd b = Some (Some p) \<and> at brd c = Some (Some p) then Some p
          else ttt_scan rest brd
      | _ \<Rightarrow> ttt_scan rest brd)"

definition ttt_checkWinner :: "CellValue list \<Rightarrow> Player option" where
  "ttt_checkWinner brd = ttt_scan WINNING_COMBINATIONS brd"

definition ttt_checkDraw :: "CellValue list \<Rightarrow> bool" where
  "ttt_checkDraw brd = list_all (\<lambda>cell. cell \<noteq> None) brd"

text \<open>\<^verbatim>\<open>state.currentPlayer === 'P1' ? 'P2' : 'P1'\<close>\<close>

definition otherPlayer :: "Player \<Rightarrow> Player" where
  "otherPlayer p = (if p = P1 then P2 else P1)"

text \<open>
  \<^verbatim>\<open>makeMove\<close> of TicTacToe. \<^verbatim>\<open>state.board[index] !== null\<close> also holds when the
  index is outside the board (the read is \<^verbatim>\<open>undefined\<close>), so such a move is rejected.
  The object returned after a move has the four fields of the literal and no \<^verbatim>\<open>mode\<close>.
\<close>

definition ttt_makeMove :: "TicTacToeState \<Rightarrow> int \<Rightarrow> TicTacToeState" where
  "ttt_makeMove state index =
     (if status state \<noteq> InProgress \<or> at (board state) index \<noteq> Some None then state
      else
        let newBoard = (board state)[nat index := Some (currentPlayer state)];
            winner' = ttt_checkWinner newBoard
        in if winner' \<noteq> None
           then \<lparr>board = newBoard, currentPlayer = currentPlayer state,
                 status = Win, winner = winner', mode = None\<rparr>
           else if ttt_checkDraw newBoard
           then \<lparr>board = newBoard, currentPlayer = currentPlayer state,
                 status = Draw, winner = winner', mode = None\<rparr>
           else \<lparr>board = newBoard, currentPlayer = otherPlayer (currentPlayer state),
                 status = InProgress, winner = winner', mode = None\<rparr>)"

section \<open>ConnectFour (fourinarow/logic.ts)\<close>

type_synonym FourInARowBoardState = "CellValue list list"

type_synonym FourInARowState = "FourInARowBoardState GameState"

definition ROWS :: nat where "ROWS = 6"

definition COLS :: nat where "COLS = 7"

text \<open>
  One test of \<^verbatim>\<open>checkWinner\<close>:
  \<^verbatim>\<open>board[r][c] && board[r][c] === board[r1][c1] && ...\<close>, evaluated left to right with
  short circuit. A cell is read with \<open>at2\<close>, which throws on a missing row.
\<close>

fun allEqual :: "FourInARowBoardState \<Rightarrow> Player \<Rightarrow> (int \<times> int) list \<Rightarrow> js_error + bool" where
  "allEqual brd p [] = Inr True"
| "allEqual brd p ((r, c) # rest) =
     (case at2 brd r c of
        Inl e \<Rightarrow> Inl e
      | Inr v \<Rightarrow> if v = Some (Some p) then allEqual brd p rest else Inr False)"

definition line4 ::
  "FourInARowBoardState \<Rightarrow> (int \<times> int) \<times> (int \<times> int) list \<Rightarrow> js_error + Player option" where
  "line4 brd l =
     (case at2 brd (fst (fst l)) (snd (fst l)) of
        Inl e \<Rightarrow> Inl e
      | Inr (Some (Some p)) \<Rightarrow>
          (case allEqual brd p (snd l) of
             Inl e \<Rightarrow> Inl e
           | Inr True \<Rightarrow> Inr (Some p)
           | Inr False \<Rightarrow> Inr None)
      | Inr _ \<Rightarrow> Inr None)"

fun c4_scan ::
  "FourInARowBoardState \<Rightarrow> ((int \<times> int) \<times> (int \<times> int) list) list \<Rightarrow> js_error + Player option" where
  "c4_scan brd [] = Inr None"
| "c4_scan brd (l # ls) =
     (case line4 brd l of
        Inl e \<Rightarrow> Inl e
      | Inr (Some p) \<Rightarrow> Inr (Some p)
      | Inr None \<Rightarrow> c4_scan brd ls)"

text \<open>The four pairs of nested loops of \<^verbatim>\<open>checkWinner\<close>, in their order.\<close>

definition horizontalLines :: "((int \<times> int) \<times> (int \<times> int) list) list" where
  "horizontalLines =
     concat (map (\<lambda>r. map (\<lambda>c. ((int r, int c), [(int r, int c + 1), (int r, int c + 2), (int r, int c + 3)]))
                          [0 ..< COLS - 3]) [0 ..< ROWS])"

definition verticalLines :: "((int \<times> int) \<times> (int \<times> int) list) list" where
  "verticalLines =
     concat (map (\<lambda>r. map (\<lambda>c. ((int r, int c), [(int r + 1, int c), (int r + 2, int c), (int r + 3, int c)]))
                          [0 ..< COLS]) [0 ..< ROWS - 3])"

definition downRightLines :: "((int \<times> int) \<times> (int \<times> int) list) list" where
  "downRightLines =
     concat (map (\<lambda>r. map (\<lambda>c. ((int r, int c), [(int r + 1, int c + 1), (int r + 2, int c + 2), (int r + 3, int c + 3)]))
                          [0 ..< COLS - 3]) [0 ..< ROWS - 3])"

definition upRightLines :: "((int \<times> int) \<times> (int \<times> int) list) list" where
  "upRightLines =
     concat (map (\<lambda>r. map (\<lambda>c. ((int r, int c), [(int r - 1, int c + 1), (int r - 2, int c + 2), (int r - 3, int c + 3)]))
                          [0 ..< COLS - 3]) [3 ..< ROWS])"

definition c4_checkWinner :: "FourInARowBoardState \<Rightarrow> js_error + Player option" where
  "c4_checkWinner brd =
     c4_scan brd (horizontalLines @ verticalLines @ downRightLines @ upRightLines)"

text \<open>\<^verbatim>\<open>board[0].every(cell => cell !== null)\<close>\<close>

definition c4_checkDraw :: "FourInARowBoardState \<Rightarrow> js_error + bool" where
  "c4_checkDraw brd =
     (case at brd 0 of
        None \<Rightarrow> Inl TypeError
      | Some topRow \<Rightarrow> Inr (list_all (\<lambda>cell. cell \<noteq> None) topRow))"

text \<open>
  The search loop of \<^verbatim>\<open>makeMove\<close>,
  \<^verbatim>\<open>for (let r = ROWS - 1; r >= 0; r--)\<close>: the counter of \<open>findRow\<close> is \<open>r + 1\<close>, and
  the result is the row found, or \<open>-1\<close>.
\<close>

fun findRow :: "FourInARowBoardState \<Rightarrow> int \<Rightarrow> nat \<Rightarrow> js_error + int" where
  "findRow brd colIndex 0 = Inr (- 1)"
| "findRow brd colIndex (Suc r) =
     (case at2 brd (int r) colIndex of
        Inl e \<Rightarrow> Inl e
      | Inr v \<Rightarrow> if v = Some None then Inr (int r) else findRow brd colIndex r)"

text \<open>\<^verbatim>\<open>g[r][c] = v\<close> at a cell that exists.\<close>

definition set2 :: "'a list list \<Rightarrow> int \<Rightarrow> int \<Rightarrow> 'a \<Rightarrow> 'a list list" where
  "set2 g r c v = g[nat r := (g ! nat r)[nat c := v]]"

definition c4_makeMove :: "FourInARowState \<Rightarrow> int \<Rightarrow> js_error + FourInARowState" where
  "c4_makeMove state colIndex =
     (if status state \<noteq> InProgress then Inr state
      else
        case findRow (board state) colIndex ROWS of
          Inl e \<Rightarrow> Inl e
        | Inr rowIndex \<Rightarrow>
            if rowIndex = - 1 then Inr state
            else
              let newBoard = set2 (board state) rowIndex colIndex (Some (currentPlayer state))
              in case c4_checkWinner newBoard of
                   Inl e \<Rightarrow> Inl e
                 | Inr winner' \<Rightarrow>
                     if winner' \<noteq> None
                     then Inr \<lparr>board = newBoard, currentPlayer = currentPlayer state,
                               status = Win, winner = winner', mode = None\<rparr>
                     else
                       (case c4_checkDraw newBoard of
                          Inl e \<Rightarrow> Inl e
                        | Inr d \<Rightarrow>
                            if d
                            then Inr \<lparr>board = newBoard, currentPlayer = currentPlayer state,
                                      status = Draw, winner = winner', mode = None\<rparr>
                            else Inr \<lparr>board = newBoard,
                                      currentPlayer = otherPlayer (currentPlayer state),
                                      status = InProgress, winner = winner', mode = None\<rparr>))"

section \<open>Rock-Paper-Scissors (rockpaperscissors/logic.ts)\<close>

datatype RPSMove = Rock | Paper | Scissors

text \<open>The result of a round, \<^verbatim>\<open>Player | 'draw'\<close>.\<close>

datatype RoundResult = RoundWon Player | RoundDraw

record RockPaperScissorsState = "unit GameState" +
  player1Move :: "RPSMove option"
  player2Move :: "RPSMove option"
  roundWinner :: "RoundResult option"

text \<open>
  \<^verbatim>\<open>determineWinner\<close>. The second branch of \<^verbatim>\<open>makeMove\<close> passes the stored
  \<^verbatim>\<open>player1Move\<close>, which may be \<^verbatim>\<open>null\<close>; then no comparison holds and the
  result is \<^verbatim>\<open>'P2'\<close>.
\<close>

definition determineWinner :: "RPSMove option \<Rightarrow> RPSMove \<Rightarrow> RoundResult" where
  "determineWinner m1 m2 =
     (if m1 = Some m2 then RoundDraw
      else if (m1 = Some Rock \<and> m2 = Scissors) \<or>
              (m1 = Some Paper \<and> m2 = Rock) \<or>
              (m1 = Some Scissors \<and> m2 = Paper)
      then RoundWon P1
      else RoundWon P2)"

text \<open>
  The state after a round is resolved: \<^verbatim>\<open>roundWinner\<close>, \<^verbatim>\<open>status\<close> and
  \<^verbatim>\<open>winner\<close> as both branches of \<^verbatim>\<open>makeMove\<close> set them.
\<close>

definition resolveRound :: "RockPaperScissorsState \<Rightarrow> RoundResult \<Rightarrow> RockPaperScissorsState" where
  "resolveRound st res =
     st\<lparr>roundWinner := Some res,
        status := (if res = RoundDraw then Draw else Win),
        winner := (case res of RoundDraw \<Rightarrow> None | RoundWon p \<Rightarrow> Some p)\<rparr>"

text \<open>
  \<^verbatim>\<open>makeMove\<close> of Rock-Paper-Scissors. \<open>randomMove\<close> is the value of
  \<^verbatim>\<open>moves[Math.floor(Math.random() * moves.length)]\<close>, one of the three moves.
\<close>

definition rps_makeMove ::
  "RockPaperScissorsState \<Rightarrow> RPSMove \<Rightarrow> RPSMove \<Rightarrow> RockPaperScissorsState" where
  "rps_makeMove state move randomMove =
     (if status state \<noteq> InProgress then state
      else if currentPlayer state = P1
      then
        (if mode state = Some Singleplayer
         then resolveRound (state\<lparr>player1Move := Some move, player2Move := Some randomMove\<rparr>)
                (determineWinner (Some move) randomMove)
         else state\<lparr>player1Move := Some move, currentPlayer := P2\<rparr>)
      else resolveRound (state\<lparr>player2Move := Some move\<rparr>)
             (determineWinner (player1Move state) move))"

section \<open>NumberDuel (numberguess/logic.ts)\<close>

datatype GuessFeedback = Higher | Lower | GuessedCorrect

record HistoryEntry =
  h_player :: Player
  h_guess :: jsnum
  h_result :: GuessFeedback

text \<open>
  \<^verbatim>\<open>NumberGuessState\<close>. The guess and the target are numbers as \<^verbatim>\<open>makeGuess\<close>
  compares them; \<^verbatim>\<open>attempts\<close> is a counter. \<^verbatim>\<open>minRange\<close> and \<^verbatim>\<open>maxRange\<close> are not
  read by the logic.
\<close>

record NumberGuessState = "unit GameState" +
  targetNumber :: jsnum
  minRange :: int
  maxRange :: int
  attempts :: int
  lastGuess :: "jsnum option"
  ng_feedback :: "GuessFeedback option"
  history :: "HistoryEntry list"

text \<open>
  \<^verbatim>\<open>makeGuess\<close> of NumberDuel. The last branch, \<^verbatim>\<open>'lower'\<close>, is taken whenever the
  guess is neither equal to the target nor less than it, so also when either is
  \<^verbatim>\<open>NaN\<close>.
\<close>

definition ng_makeGuess :: "NumberGuessState \<Rightarrow> jsnum \<Rightarrow> NumberGuessState" where
  "ng_makeGuess state guess =
     (if status state \<noteq> InProgress then state
      else
        let fb = (if js_eq guess (targetNumber state) then GuessedCorrect
                  else if js_lt guess (targetNumber state) then Higher
                  else Lower);
            status' = (if js_eq guess (targetNumber state) then Win else InProgress);
            winner' = (if js_eq guess (targetNumber state) then Some (currentPlayer state)
                       else None);
            newHistory = history state @
              [\<lparr>h_player = currentPlayer state, h_guess = guess, h_result = fb\<rparr>];
            nextPlayer = (if status' = InProgress \<and> mode state = Some Multiplayer
                          then otherPlayer (currentPlayer state)
                          else currentPlayer state)
        in state\<lparr>attempts := js_plus1 (attempts state),
                 lastGuess := Some guess,
                 ng_feedback := Some fb,
                 history := newHistory,
                 status := status',
                 winner := winner',
                 currentPlayer := nextPlayer\<rparr>)"

section \<open>GeoQuiz (tinygeoguess/logic.ts)\<close>

record Location =
  loc_id :: jsstring
  loc_name :: jsstring
  image :: jsstring
  options :: "jsstring list"

datatype QuizResult = QuizCorrect | QuizWrong

record TinyGeoGuessState = "unit GameState" +
  currentLocation :: Location
  score :: int
  gq_round :: int
  totalRounds :: int
  lastResult :: "QuizResult option"

text \<open>
  \<^verbatim>\<open>makeGuess\<close> of the quiz. \<open>nextLocation\<close> is the value of
  \<^verbatim>\<open>LOCATIONS[Math.floor(Math.random() * LOCATIONS.length)]\<close>, an entry of the table.
\<close>

definition gq_makeGuess :: "TinyGeoGuessState \<Rightarrow> jsstring \<Rightarrow> Location \<Rightarrow> TinyGeoGuessState" where
  "gq_makeGuess state guess nextLocation =
     (if status state \<noteq> InProgress then state
      else
        let isCorrect = (guess = loc_name (currentLocation state));
            newScore = (if isCorrect then score state + 1 else score state);
            nextRound = gq_round state + 1;
            finished = (nextRound > totalRounds state)
        in state\<lparr>score := newScore,
                 gq_round := nextRound,
                 lastResult := Some (if isCorrect then QuizCorrect else QuizWrong),
                 status := (if finished then Win else InProgress),
                 winner := (if finished then Some P1 else None),
                 currentLocation := nextLocation\<rparr>)"

section \<open>HangmanWordGuess (wordguess/logic.ts)\<close>

record WordGuessState = "jsstring list GameState" +
  wg_targetWord :: jsstring
  guessedLetters :: "jsstring list"
  remainingAttempts :: int
  wg_maxAttempts :: int

text \<open>\<^verbatim>\<open>s.includes(t)\<close> on strings: \<open>t\<close> occurs in \<open>s\<close> as a contiguous piece.\<close>

fun startsWith :: "'a list \<Rightarrow> 'a list \<Rightarrow> bool" where
  "startsWith s [] = True"
| "startsWith [] (y # ys) = False"
| "startsWith (x # xs) (y # ys) = (x = y \<and> startsWith xs ys)"

fun str_includes :: "'a list \<Rightarrow> 'a list \<Rightarrow> bool" where
  "str_includes [] t = (t = [])"
| "str_includes (x # xs) t = (startsWith (x # xs) t \<or> str_includes xs t)"

text \<open>
  \<^verbatim>\<open>makeGuess\<close> of the word guesser. The runtime's \<^verbatim>\<open>toUpperCase()\<close> is the
  parameter \<open>toUpperCase\<close>. \<^verbatim>\<open>status\<close> is \<^verbatim>\<open>'lose'\<close> when the attempts are used up,
  also when the word is complete, since the second \<^verbatim>\<open>if\<close> overwrites the first.
\<close>

definition wg_makeGuess ::
  "(jsstring \<Rightarrow> jsstring) \<Rightarrow> WordGuessState \<Rightarrow> jsstring \<Rightarrow> WordGuessState" where
  "wg_makeGuess toUpperCase state letter =
     (if status state \<noteq> InProgress then state
      else
        let upperLetter = toUpperCase letter in
        if upperLetter \<in> set (guessedLetters state) then state
        else
          let newGuessedLetters = guessedLetters state @ [upperLetter];
              newRemainingAttempts =
                (if \<not> str_includes (wg_targetWord state) upperLetter
                 then remainingAttempts state - 1 else remainingAttempts state);
              isWin = list_all (\<lambda>ch. [ch] \<in> set newGuessedLetters) (wg_targetWord state);
              isLoss = (newRemainingAttempts \<le> 0)
          in state\<lparr>guessedLetters := newGuessedLetters,
                   remainingAttempts := newRemainingAttempts,
                   status := (if isLoss then Lose else if isWin then Win else InProgress),
                   winner := (if isWin then Some P1 else None)\<rparr>)"

section \<open>WordleClone: the state and its transitions (turkishwordle/logic.ts)\<close>

text \<open>
  \<^verbatim>\<open>TurkishWordleState\<close>. Its \<^verbatim>\<open>status\<close> is declared as
  \<^verbatim>\<open>'in_progress' | 'win' | 'lose'\<close>, a part of \<^verbatim>\<open>GameStatus\<close>.
\<close>

record TurkishWordleState = "unit GameState" +
  targetWord :: jsstring
  guesses :: "GuessRow list"
  maxAttempts :: int
  currentAttemptIndex :: int
  wordLength :: int
  currentGuess :: jsstring
  errorMessage :: "jsstring option"

text \<open>
  \<^verbatim>\<open>isValidTurkishWord\<close>. The table \<^verbatim>\<open>ALLOWED_WORDS_TR\<close> of \<^verbatim>\<open>./words\<close> is the
  parameter \<open>allowed\<close>.
\<close>

definition isValidTurkishWord :: "jsstring list \<Rightarrow> jsstring \<Rightarrow> int \<Rightarrow> bool" where
  "isValidTurkishWord allowed word wl =
     (if int (length word) \<noteq> wl then False else word \<in> set allowed)"

text \<open>
  The two messages of \<^verbatim>\<open>submitGuess\<close> ("the word is too short", "invalid word"), as
  code units: 231 is the c with cedilla, 305 the dotless i.
\<close>

definition msgTooShort :: jsstring where
  "msgTooShort = utf16 ''Kelime '' @ [231] @ utf16 ''ok k'' @ [305] @ utf16 ''sa''"

definition msgInvalidWord :: jsstring where
  "msgInvalidWord = utf16 ''Ge'' @ [231] @ utf16 ''ersiz kelime''"

definition submitGuess ::
  "(jsstring \<Rightarrow> jsstring) \<Rightarrow> jsstring list \<Rightarrow> TurkishWordleState \<Rightarrow> TurkishWordleState" where
  "submitGuess up allowed state =
     (if status state \<noteq> InProgress then state
      else
        let guess = up (currentGuess state) in
        if int (length guess) \<noteq> wordLength state
        then state\<lparr>errorMessage := Some msgTooShort\<rparr>
        else if \<not> isValidTurkishWord allowed guess (wordLength state)
        then state\<lparr>errorMessage := Some msgInvalidWord\<rparr>
        else
          let rw = evaluateTurkishWordleGuess up (targetWord state) guess;
              newGuesses = guesses state @ [rw];
              isWin = (guess = targetWord state);
              isLose = (\<not> isWin \<and> int (length newGuesses) \<ge> maxAttempts state)
          in state\<lparr>guesses := newGuesses,
                   currentAttemptIndex := currentAttemptIndex state + 1,
                   status := (if isWin then Win else if isLose then Lose else InProgress),
                   currentGuess := [],
                   errorMessage := None,
                   winner := (if isWin then Some P1 else None)\<rparr>)"

text \<open>
  The character class of \<^verbatim>\<open>updateCurrentGuess\<close>: the ASCII letters and the twelve further
  letters of the Turkish alphabet, each a single code unit.
\<close>

definition isTurkishLetter :: "nat \<Rightarrow> bool" where
  "isTurkishLetter u =
     ((65 \<le> u \<and> u \<le> 90) \<or> (97 \<le> u \<and> u \<le> 122) \<or>
      u \<in> {199, 231, 286, 287, 305, 304, 214, 246, 350, 351, 220, 252})"

definition updateCurrentGuess ::
  "(jsstring \<Rightarrow> jsstring) \<Rightarrow> TurkishWordleState \<Rightarrow> jsstring \<Rightarrow> TurkishWordleState" where
  "updateCurrentGuess up state input =
     (if status state \<noteq> InProgress then state
      else
        let cleaned = up (filter isTurkishLetter input) in
        if int (length cleaned) > wordLength state then state
        else state\<lparr>currentGuess := cleaned, errorMessage := None\<rparr>)"

section \<open>MemoryMatch (memorymatch/logic.ts)\<close>

record Card =
  card_id :: jsstring
  card_value :: jsstring
  isFlipped :: bool
  isMatched :: bool

record MemoryMatchState = "Card list GameState" +
  movesCount :: int
  flippedIndices :: "int list"

text \<open>
  \<^verbatim>\<open>flipCard\<close>. \<^verbatim>\<open>state.board[index].isFlipped\<close> reads a property of
  \<^verbatim>\<open>undefined\<close> when the index is outside the board, which throws.
\<close>

definition flipCard :: "MemoryMatchState \<Rightarrow> int \<Rightarrow> js_error + MemoryMatchState" where
  "flipCard state index =
     (if status state \<noteq> InProgress then Inr state
      else if length (flippedIndices state) \<ge> 2 then Inr state
      else
        case at (board state) index of
          None \<Rightarrow> Inl TypeError
        | Some crd \<Rightarrow>
            if isFlipped crd \<or> isMatched crd then Inr state
            else Inr (state\<lparr>board := (board state)[nat index := crd\<lparr>isFlipped := True\<rparr>],
                             flippedIndices := flippedIndices state @ [index]\<rparr>))"

text \<open>
  \<^verbatim>\<open>checkMatch\<close>. \<^verbatim>\<open>card1.value === card2.value\<close> throws when either index is
  outside the board. The second write uses the card read before the first write.
  \<^verbatim>\<open>movesCount\<close> is a counter, incremented as a double is.
\<close>

definition checkMatch :: "MemoryMatchState \<Rightarrow> js_error + MemoryMatchState" where
  "checkMatch state =
     (case flippedIndices state of
        [idx1, idx2] \<Rightarrow>
          (case (at (board state) idx1, at (board state) idx2) of
             (Some card1, Some card2) \<Rightarrow>
               let newBoard =
                     (if card_value card1 = card_value card2
                      then ((board state)[nat idx1 := card1\<lparr>isMatched := True\<rparr>])
                              [nat idx2 := card2\<lparr>isMatched := True\<rparr>]
                      else ((board state)[nat idx1 := card1\<lparr>isFlipped := False\<rparr>])
                              [nat idx2 := card2\<lparr>isFlipped := False\<rparr>]);
                   allMatched = list_all isMatched newBoard
               in Inr (state\<lparr>board := newBoard,
                               flippedIndices := [],
                               movesCount := js_plus1 (movesCount state),
                               status := (if allMatched then Win else InProgress),
                               winner := (if allMatched then Some P1 else None)\<rparr>)
           | _ \<Rightarrow> Inl TypeError)
      | _ \<Rightarrow> Inr state)"

section \<open>Battleship (battleship/types.ts, battleship/logic.ts)\<close>

definition GRID_SIZE :: int where "GRID_SIZE = 6"

datatype BattleshipPhase = SetupP1 | SetupP2 | PhaseInProgress | Finished

datatype Orientation = Horizontal | Vertical

datatype CellStatus = CellEmpty | CellShip | CellHit | CellMiss

record Position =
  pos_row :: int
  pos_col :: int
  pos_orientation :: Orientation

record Ship =
  ship_id :: jsstring
  ship_name :: jsstring
  ship_size :: int
  hits :: int
  placed :: bool
  position :: "Position option"

record PlayerBoardState =
  grid :: "CellStatus list list"
  ships :: "Ship list"
  shots :: "CellStatus list list"

record Setup =
  selectedShipId :: "jsstring option"
  orientation :: Orientation

text \<open>
  The texts of \<^verbatim>\<open>lastActionMessage\<close>, one constructor for each literal or template of
  the source, with the values the template interpolates: the acting player and the row and
  column of the cell label, or the owner and name of the sunk ship.
\<close>

datatype ActionMessage =
    PlaceShipsP1
  | PlaceShipsP2
  | InvalidPlacement
  | PlaceAllFirst
  | GameStarted
  | AlreadyShot
  | MissedAt Player int int
  | HitAt Player int int
  | SunkShip Player Player jsstring
  | WinsAll Player

record BattleshipState = "unit GameState" +
  phase :: BattleshipPhase
  p1 :: PlayerBoardState
  p2 :: PlayerBoardState
  lastActionMessage :: "ActionMessage option"
  bs_setup :: Setup

text \<open>The cells a ship of the given size covers from its origin, in the order of the loops.\<close>

definition shipCells :: "int \<Rightarrow> int \<Rightarrow> Orientation \<Rightarrow> int \<Rightarrow> (int \<times> int) list" where
  "shipCells r c ori sz =
     map (\<lambda>i. if ori = Horizontal then (r, c + int i) else (r + int i, c)) [0 ..< nat sz]"

text \<open>The loop of \<^verbatim>\<open>canPlaceShip\<close>: false at the first cell that is not \<^verbatim>\<open>'empty'\<close>.\<close>

fun allEmpty :: "CellStatus list list \<Rightarrow> (int \<times> int) list \<Rightarrow> js_error + bool" where
  "allEmpty g [] = Inr True"
| "allEmpty g ((r, c) # rest) =
     (case at2 g r c of
        Inl e \<Rightarrow> Inl e
      | Inr v \<Rightarrow> if v \<noteq> Some CellEmpty then Inr False else allEmpty g rest)"

definition canPlaceShip ::
  "CellStatus list list \<Rightarrow> int \<Rightarrow> int \<Rightarrow> int \<Rightarrow> Orientation \<Rightarrow> js_error + bool" where
  "canPlaceShip g shipSize row col ori =
     (if ori = Horizontal
      then (if col + shipSize > GRID_SIZE then Inr False
            else allEmpty g (shipCells row col Horizontal shipSize))
      else (if row + shipSize > GRID_SIZE then Inr False
            else allEmpty g (shipCells row col Vertical shipSize)))"

text \<open>
  The loops of \<^verbatim>\<open>placeShip\<close> that write one value to the cells of a ship. Writing to a
  missing row throws.
\<close>

fun writeCells ::
  "CellStatus list list \<Rightarrow> (int \<times> int) list \<Rightarrow> CellStatus \<Rightarrow> js_error + CellStatus list list" where
  "writeCells g [] v = Inr g"
| "writeCells g ((r, c) # rest) v =
     (case at g r of
        None \<Rightarrow> Inl TypeError
      | Some rw \<Rightarrow>
          if 0 \<le> c \<and> c < int (length rw) then writeCells (set2 g r c v) rest v
          else Inl SparseWrite)"

text \<open>\<^verbatim>\<open>ships.findIndex(s => s.id === selectedShipId)\<close>\<close>

fun findIndex :: "('a \<Rightarrow> bool) \<Rightarrow> 'a list \<Rightarrow> nat option" where
  "findIndex P [] = None"
| "findIndex P (x # xs) = (if P x then Some 0 else map_option Suc (findIndex P xs))"

text \<open>
  The first step of \<^verbatim>\<open>placeShip\<close>: when the ship is already placed and has a
  position, its old cells are set to \<^verbatim>\<open>'empty'\<close> in the copy of the grid.
\<close>

definition clearOldPosition :: "CellStatus list list \<Rightarrow> Ship \<Rightarrow> js_error + CellStatus list list" where
  "clearOldPosition g shp =
     (case position shp of
        Some pos \<Rightarrow>
          if placed shp
          then writeCells g
                 (shipCells (pos_row pos) (pos_col pos) (pos_orientation pos) (ship_size shp))
                 CellEmpty
          else Inr g
      | None \<Rightarrow> Inr g)"

text \<open>
  \<^verbatim>\<open>placeShip\<close>. \<^verbatim>\<open>!setup.selectedShipId\<close> holds for \<^verbatim>\<open>null\<close> and for the empty
  string. The message of an accepted placement is \<^verbatim>\<open>null\<close>. (The field
  \<^verbatim>\<open>setup\<close> of the state is \<open>bs_setup\<close> here.)
\<close>

definition placeShip :: "BattleshipState \<Rightarrow> int \<Rightarrow> int \<Rightarrow> js_error + BattleshipState" where
  "placeShip state row col =
     (if phase state \<noteq> SetupP1 \<and> phase state \<noteq> SetupP2 then Inr state
      else
        case selectedShipId (bs_setup state) of
          None \<Rightarrow> Inr state
        | Some sid \<Rightarrow>
            if sid = [] then Inr state
            else
              let isP1 = (phase state = SetupP1);
                  playerState = (if isP1 then p1 state else p2 state)
              in case findIndex (\<lambda>s. ship_id s = sid) (ships playerState) of
                   None \<Rightarrow> Inr state
                 | Some shipIndex \<Rightarrow>
                     let shp = ships playerState ! shipIndex
                     in case clearOldPosition (grid playerState) shp of
                          Inl e \<Rightarrow> Inl e
                        | Inr newGrid \<Rightarrow>
                            (case canPlaceShip newGrid (ship_size shp) row col
                                    (orientation (bs_setup state)) of
                               Inl e \<Rightarrow> Inl e
                             | Inr ok \<Rightarrow>
                                 if \<not> ok
                                 then Inr (state\<lparr>lastActionMessage := Some InvalidPlacement\<rparr>)
                                 else
                                   (case writeCells newGrid
                                           (shipCells row col (orientation (bs_setup state))
                                              (ship_size shp)) CellShip of
                                      Inl e \<Rightarrow> Inl e
                                    | Inr placedGrid \<Rightarrow>
                                        let newShips = (ships playerState)
                                              [shipIndex := shp\<lparr>placed := True,
                                                 position := Some \<lparr>pos_row = row, pos_col = col,
                                                   pos_orientation = orientation (bs_setup state)\<rparr>\<rparr>];
                                            newPlayer = playerState\<lparr>grid := placedGrid,
                                                                     ships := newShips\<rparr>
                                        in Inr (if isP1
                                                then state\<lparr>p1 := newPlayer,
                                                            lastActionMessage := None\<rparr>
                                                else state\<lparr>p2 := newPlayer,
                                                            lastActionMessage := None\<rparr>))))"

definition selectShip :: "BattleshipState \<Rightarrow> jsstring \<Rightarrow> BattleshipState" where
  "selectShip state shipId = state\<lparr>bs_setup := (bs_setup state)\<lparr>selectedShipId := Some shipId\<rparr>\<rparr>"

definition toggleOrientation :: "BattleshipState \<Rightarrow> BattleshipState" where
  "toggleOrientation state =
     state\<lparr>bs_setup := (bs_setup state)\<lparr>orientation :=
        (if orientation (bs_setup state) = Horizontal then Vertical else Horizontal)\<rparr>\<rparr>"

definition finishSetup :: "BattleshipState \<Rightarrow> BattleshipState" where
  "finishSetup state =
     (if phase state = SetupP1
      then (if list_ex (\<lambda>s. \<not> placed s) (ships (p1 state))
            then state\<lparr>lastActionMessage := Some PlaceAllFirst\<rparr>
            else state\<lparr>phase := SetupP2,
                       currentPlayer := P2,
                       lastActionMessage := Some PlaceShipsP2,
                       bs_setup := \<lparr>selectedShipId = None, orientation = Horizontal\<rparr>\<rparr>)
      else if phase state = SetupP2
      then (if list_ex (\<lambda>s. \<not> placed s) (ships (p2 state))
            then state\<lparr>lastActionMessage := Some PlaceAllFirst\<rparr>
            else state\<lparr>phase := PhaseInProgress,
                       currentPlayer := P1,
                       lastActionMessage := Some GameStarted\<rparr>)
      else state)"

text \<open>
  The test \<^verbatim>\<open>isThisShip\<close> of \<^verbatim>\<open>fireShot\<close>: the coordinate lies in the span of the
  ship's recorded origin, orientation and size. A ship without a position is left alone.
\<close>

definition isThisShip :: "Ship \<Rightarrow> int \<Rightarrow> int \<Rightarrow> bool" where
  "isThisShip shp row col =
     (case position shp of
        None \<Rightarrow> False
      | Some pos \<Rightarrow>
          if pos_orientation pos = Horizontal
          then row = pos_row pos \<and> col \<ge> pos_col pos \<and> col < pos_col pos + ship_size shp
          else col = pos_col pos \<and> row \<ge> pos_row pos \<and> row < pos_row pos + ship_size shp)"

definition hitShip :: "int \<Rightarrow> int \<Rightarrow> Ship \<Rightarrow> Ship" where
  "hitShip row col shp = (if isThisShip shp row col then shp\<lparr>hits := hits shp + 1\<rparr> else shp)"

text \<open>
  \<^verbatim>\<open>sunkShipName\<close> after the \<^verbatim>\<open>map\<close>: the name of the last ship in the list whose
  new hit count is its size, or \<^verbatim>\<open>null\<close>.
\<close>

definition sunkName :: "Ship list \<Rightarrow> int \<Rightarrow> int \<Rightarrow> jsstring option" where
  "sunkName shs row col =
     foldl (\<lambda>acc shp. if isThisShip shp row col \<and> hits shp + 1 = ship_size shp
                       then Some (ship_name shp) else acc) None shs"

text \<open>
  \<^verbatim>\<open>fireShot\<close>. The attacker's \<^verbatim>\<open>shots\<close> and the defender's \<^verbatim>\<open>grid\<close> are each
  read at \<^verbatim>\<open>[row][col]\<close>, which throws on a missing row. \<^verbatim>\<open>if (sunkShipName)\<close> is
  false for \<^verbatim>\<open>null\<close> and for an empty name. The \<^verbatim>\<open>status\<close> field is not assigned.
\<close>

definition fireShot :: "BattleshipState \<Rightarrow> int \<Rightarrow> int \<Rightarrow> js_error + BattleshipState" where
  "fireShot state row col =
     (if phase state \<noteq> PhaseInProgress then Inr state
      else
        let isP1 = (currentPlayer state = P1);
            shooter = (if isP1 then p1 state else p2 state);
            target = (if isP1 then p2 state else p1 state)
        in case at2 (shots shooter) row col of
             Inl e \<Rightarrow> Inl e
           | Inr shotCell \<Rightarrow>
               if shotCell \<noteq> Some CellEmpty
               then Inr (state\<lparr>lastActionMessage := Some AlreadyShot\<rparr>)
               else
                 (case at2 (grid target) row col of
                    Inl e \<Rightarrow> Inl e
                  | Inr targetCell \<Rightarrow>
                      let isHit = (targetCell = Some CellShip);
                          newShooterShots =
                            set2 (shots shooter) row col (if isHit then CellHit else CellMiss);
                          newTargetGrid =
                            (if isHit then set2 (grid target) row col CellHit else grid target);
                          newTargetShips =
                            (if isHit then map (hitShip row col) (ships target) else ships target);
                          sunkShipName = (if isHit then sunkName (ships target) row col else None);
                          message1 =
                            (if isHit
                             then (case sunkShipName of
                                     None \<Rightarrow> HitAt (currentPlayer state) row col
                                   | Some nm \<Rightarrow>
                                       if nm = [] then HitAt (currentPlayer state) row col
                                       else SunkShip (currentPlayer state)
                                              (if isP1 then P2 else P1) nm)
                             else MissedAt (currentPlayer state) row col);
                          allSunk = list_all (\<lambda>s. hits s = ship_size s) newTargetShips;
                          newShooter = shooter\<lparr>shots := newShooterShots\<rparr>;
                          newTarget = target\<lparr>grid := newTargetGrid, ships := newTargetShips\<rparr>
                      in Inr (state\<lparr>phase := (if allSunk then Finished else phase state),
                                      winner := (if allSunk then Some (currentPlayer state)
                                                 else winner state),
                                      lastActionMessage :=
                                        Some (if allSunk then WinsAll (currentPlayer state)
                                              else message1),
                                      currentPlayer := (if isP1 then P2 else P1),
                                      p1 := (if isP1 then newShooter else newTarget),
                                      p2 := (if isP1 then newTarget else newShooter)\<rparr>)))"

section \<open>Concrete states\<close>

text \<open>
  NumberDuel: \<^verbatim>\<open>INITIAL_STATE\<close> with the target that \<^verbatim>\<open>startNewGame\<close> draws set
  to 73, in multiplayer mode.
\<close>

definition ng_example :: NumberGuessState where
  "ng_example =
     \<lparr>board = (), currentPlayer = P1, status = InProgress, winner = None,
      mode = Some Multiplayer, targetNumber = ofInt 73, minRange = 1, maxRange = 100,
      attempts = 0, lastGuess = None, ng_feedback = None, history = []\<rparr>"

text \<open>
  WordleClone: a state as \<^verbatim>\<open>initTurkishWordleGame\<close> builds it, with the target ELMAS
  and a value of \<^verbatim>\<open>currentGuess\<close> as \<^verbatim>\<open>updateCurrentGuess\<close> stores it; and a small
  table standing for \<^verbatim>\<open>ALLOWED_WORDS_TR\<close>.
\<close>

definition tw_example :: "jsstring \<Rightarrow> TurkishWordleState" where
  "tw_example cg =
     \<lparr>board = (), currentPlayer = P1, status = InProgress, winner = None,
      mode = Some Singleplayer, targetWord = utf16 ''ELMAS'', guesses = [],
      maxAttempts = 6, currentAttemptIndex = 0, wordLength = 5,
      currentGuess = cg, errorMessage = None\<rparr>"

definition allowed_example :: "jsstring list" where
  "allowed_example = [utf16 ''ELMAS'', utf16 ''KALEM'', utf16 ''KITAP'']"

text \<open>
  MemoryMatch: \<^verbatim>\<open>INITIAL_STATE\<close> of the source, whose board is empty, and a board of two
  pairs with the cards at 0 and 2 face up.
\<close>

definition mm_INITIAL_STATE :: MemoryMatchState where
  "mm_INITIAL_STATE =
     \<lparr>board = [], currentPlayer = P1, status = InProgress, winner = None,
      mode = Some Singleplayer, movesCount = 0, flippedIndices = []\<rparr>"

definition mm_card :: "string \<Rightarrow> string \<Rightarrow> bool \<Rightarrow> Card" where
  "mm_card i v f = \<lparr>card_id = utf16 i, card_value = utf16 v, isFlipped = f, isMatched = False\<rparr>"

definition mm_example :: MemoryMatchState where
  "mm_example =
     \<lparr>board = [mm_card ''card-0-a'' ''dog'' True, mm_card ''card-1-a'' ''cat'' False,
               mm_card ''card-0-b'' ''dog'' True, mm_card ''card-1-b'' ''cat'' False],
      currentPlayer = P1, status = InProgress, winner = None,
      mode = Some Singleplayer, movesCount = 3, flippedIndices = [0, 2]\<rparr>"

text \<open>
  ConnectFour: \<^verbatim>\<open>INITIAL_STATE\<close> of the source, and a board whose column 0 is full.
\<close>

definition c4_INITIAL_STATE :: FourInARowState where
  "c4_INITIAL_STATE =
     \<lparr>board = replicate ROWS (replicate COLS None), currentPlayer = P1,
      status = InProgress, winner = None, mode = None\<rparr>"

definition c4_fullColumn :: FourInARowState where
  "c4_fullColumn =
     \<lparr>board = map (\<lambda>r. Some (if even r then P1 else P2) # replicate (COLS - 1) None) [0 ..< ROWS],
      currentPlayer = P1, status = InProgress, winner = None, mode = None\<rparr>"

section \<open>Terminal states and the sides of a Battleship game\<close>

text \<open>The terminal values of \<^verbatim>\<open>status\<close>: \<^verbatim>\<open>'win'\<close>, \<^verbatim>\<open>'draw'\<close>, \<^verbatim>\<open>'lose'\<close>.\<close>

definition terminal :: "GameStatus \<Rightarrow> bool" where
  "terminal st = (st = Win \<or> st = Draw \<or> st = Lose)"

text \<open>
  The record of a side: \<^verbatim>\<open>fireShot\<close> takes the attacker's from the current player and
  the defender's from the other one.
\<close>

definition boardOf :: "Player \<Rightarrow> BattleshipState \<Rightarrow> PlayerBoardState" where
  "boardOf pl st = (if pl = P1 then p1 st else p2 st)"

text \<open>
  A shot at \<open>(row, col)\<close> hits the last cell of the defender's only unsunk ship, the ship
  at index \<open>k\<close>: the attacker has not fired there, the defender's grid has a ship there,
  the cell lies in the span of ship \<open>k\<close>, which lacks one hit, and every other ship of the
  defender is sunk and does not cover the cell.
\<close>

definition lastCellOfLastShip :: "BattleshipState \<Rightarrow> int \<Rightarrow> int \<Rightarrow> nat \<Rightarrow> bool" where
  "lastCellOfLastShip st row col k =
     (let attacker = boardOf (currentPlayer st) st;
          defender = boardOf (otherPlayer (currentPlayer st)) st;
          shs = ships defender
      in at2 (shots attacker) row col = Inr (Some CellEmpty) \<and>
         at2 (grid defender) row col = Inr (Some CellShip) \<and>
         k < length shs \<and>
         isThisShip (shs ! k) row col \<and>
         hits (shs ! k) + 1 = ship_size (shs ! k) \<and>
         list_all (\<lambda>j. j = k \<or>
                        (hits (shs ! j) = ship_size (shs ! j) \<and> \<not> isThisShip (shs ! j) row col))
           [0 ..< length shs])"

text \<open>
  Battleship: the constants of the source, and a game between two fleets of one destroyer
  each, placed horizontally at (0, 0). In \<open>duelState\<close> player 1 has hit (0, 0), player 2
  has missed at (5, 5), and it is player 1's turn.
\<close>

definition createEmptyGrid :: "CellStatus list list" where
  "createEmptyGrid = replicate (nat GRID_SIZE) (replicate (nat GRID_SIZE) CellEmpty)"

definition newShip :: "string \<Rightarrow> string \<Rightarrow> int \<Rightarrow> Ship" where
  "newShip i n sz =
     \<lparr>ship_id = utf16 i, ship_name = utf16 n, ship_size = sz, hits = 0, placed = False,
      position = None\<rparr>"

definition INITIAL_SHIPS :: "Ship list" where
  "INITIAL_SHIPS =
     [newShip ''carrier'' ''Carrier'' 4,
      newShip ''battleship'' ''Battleship'' 3,
      newShip ''cruiser'' ''Cruiser'' 3,
      newShip ''destroyer'' ''Destroyer'' 2,
      newShip ''submarine'' ''Submarine'' 2]"

definition createInitialPlayerState :: PlayerBoardState where
  "createInitialPlayerState =
     \<lparr>grid = createEmptyGrid, ships = INITIAL_SHIPS, shots = createEmptyGrid\<rparr>"

definition bs_INITIAL_STATE :: BattleshipState where
  "bs_INITIAL_STATE =
     \<lparr>board = (), currentPlayer = P1, status = InProgress, winner = None,
      mode = Some Multiplayer, phase = SetupP1,
      p1 = createInitialPlayerState, p2 = createInitialPlayerState,
      lastActionMessage = Some PlaceShipsP1,
      bs_setup = \<lparr>selectedShipId = None, orientation = Horizontal\<rparr>\<rparr>"

definition destroyer :: "int \<Rightarrow> Ship" where
  "destroyer h =
     \<lparr>ship_id = utf16 ''destroyer'', ship_name = utf16 ''Destroyer'', ship_size = 2,
      hits = h, placed = True,
      position = Some \<lparr>pos_row = 0, pos_col = 0, pos_orientation = Horizontal\<rparr>\<rparr>"

definition gridWith :: "(int \<times> int \<times> CellStatus) list \<Rightarrow> CellStatus list list" where
  "gridWith ws = foldl (\<lambda>g w. set2 g (fst w) (fst (snd w)) (snd (snd w))) createEmptyGrid ws"

definition duelState :: BattleshipState where
  "duelState =
     \<lparr>board = (), currentPlayer = P1, status = InProgress, winner = None,
      mode = Some Multiplayer, phase = PhaseInProgress,
      p1 = \<lparr>grid = gridWith [(0, 0, CellShip), (0, 1, CellShip)],
            ships = [destroyer 0],
            shots = gridWith [(0, 0, CellHit)]\<rparr>,
      p2 = \<lparr>grid = gridWith [(0, 0, CellHit), (0, 1, CellShip)],
            ships = [destroyer 1],
            shots = gridWith [(5, 5, CellMiss)]\<rparr>,
      lastActionMessage = Some (MissedAt P2 5 5),
      bs_setup = \<lparr>selectedShipId = Some (utf16 ''destroyer''), orientation = Horizontal\<rparr>\<rparr>"

text \<open>
  The state of \<open>duelState\<close> after player 1 fires at (0, 1) and sinks the destroyer.
\<close>

definition duelFinished :: BattleshipState where
  "duelFinished = (case fireShot duelState 0 1 of Inr s' \<Rightarrow> s' | Inl e \<Rightarrow> duelState)"

text \<open>
  The initial states of the other games, as the source declares them, and states the
  transitions reach from them: TicTacToe after the moves 0, 4, 1, 5, 2; Rock-Paper-Scissors
  after rock against the opponent's scissors; NumberDuel after the right guess; WordleClone
  after the right word; the word guesser with the target ELMA.
\<close>

definition ttt_INITIAL_STATE :: TicTacToeState where
  "ttt_INITIAL_STATE =
     \<lparr>board = replicate 9 None, currentPlayer = P1, status = InProgress, winner = None,
      mode = None\<rparr>"

definition ttt_won :: TicTacToeState where
  "ttt_won = foldl ttt_makeMove ttt_INITIAL_STATE [0, 4, 1, 5, 2]"

definition rps_INITIAL_STATE :: RockPaperScissorsState where
  "rps_INITIAL_STATE =
     \<lparr>board = (), currentPlayer = P1, status = InProgress, winner = None,
      mode = Some Singleplayer, player1Move = None, player2Move = None, roundWinner = None\<rparr>"

definition rps_won :: RockPaperScissorsState where
  "rps_won = rps_makeMove rps_INITIAL_STATE Rock Scissors"

definition ng_won :: NumberGuessState where
  "ng_won = ng_makeGuess ng_example (ofInt 73)"

definition tw_won :: TurkishWordleState where
  "tw_won = submitGuess trUpper allowed_example (tw_example (utf16 ''ELMAS''))"

definition paris :: Location where
  "paris = \<lparr>loc_id = utf16 ''1'', loc_name = utf16 ''Paris'', image = utf16 ''paris.jpg'',
            options = [utf16 ''London'', utf16 ''Paris'', utf16 ''Berlin'', utf16 ''Madrid'']\<rparr>"

definition gq_INITIAL_STATE :: TinyGeoGuessState where
  "gq_INITIAL_STATE =
     \<lparr>board = (), currentPlayer = P1, status = InProgress, winner = None,
      mode = Some Singleplayer, currentLocation = paris, score = 0, gq_round = 1,
      totalRounds = 5, lastResult = None\<rparr>"

definition wg_example :: WordGuessState where
  "wg_example =
     \<lparr>board = [], currentPlayer = P1, status = InProgress, winner = None,
      mode = Some Singleplayer, wg_targetWord = utf16 ''ELMA'', guessedLetters = [utf16 ''E''],
      remainingAttempts = 6, wg_maxAttempts = 6\<rparr>"

text \<open>
  States one move before the end: TicTacToe after the moves 0, 4, 1, 5; ConnectFour with
  three pieces of player 1 in the bottom row; MemoryMatch with its last pair face up; the
  quiz in its last round; the word guesser with one letter missing.
\<close>

definition ttt_beforeWin :: TicTacToeState where
  "ttt_beforeWin = foldl ttt_makeMove ttt_INITIAL_STATE [0, 4, 1, 5]"

definition c4_threeInRow :: FourInARowState where
  "c4_threeInRow =
     \<lparr>board = replicate 4 (replicate COLS None) @
               [[Some P2, Some P2, Some P2, None, None, None, None],
                [Some P1, Some P1, Some P1, None, None, None, None]],
      currentPlayer = P1, status = InProgress, winner = None, mode = None\<rparr>"

definition mm_lastPair :: MemoryMatchState where
  "mm_lastPair =
     \<lparr>board = [mm_card ''card-0-a'' ''dog'' True, mm_card ''card-0-b'' ''dog'' True],
      currentPlayer = P1, status = InProgress, winner = None,
      mode = Some Singleplayer, movesCount = 0, flippedIndices = [0, 1]\<rparr>"

definition gq_lastRound :: TinyGeoGuessState where
  "gq_lastRound = gq_INITIAL_STATE\<lparr>gq_round := 5, score := 3\<rparr>"

definition wg_oneLeft :: WordGuessState where
  "wg_oneLeft = wg_example\<lparr>guessedLetters := [utf16 ''E'', utf16 ''L'', utf16 ''M'']\<rparr>"

section \<open>Applying a transition twice\<close>

text \<open>
  \<open>f(f(s, a), a)\<close> for a transition that can throw: the second call runs on the state the
  first one returned.
\<close>

definition twice :: "('s \<Rightarrow> js_error + 's) \<Rightarrow> 's \<Rightarrow> js_error + 's" where
  "twice f s = (case f s of Inl e \<Rightarrow> Inl e | Inr s' \<Rightarrow> f s')"

text \<open>The side that places its ships in the phase of the state, as \<^verbatim>\<open>placeShip\<close> picks it.\<close>

definition setupSide :: "BattleshipState \<Rightarrow> PlayerBoardState" where
  "setupSide st = (if phase st = SetupP1 then p1 st else p2 st)"

section \<open>The shape of a Battleship state\<close>

text \<open>
  A grid of \<^verbatim>\<open>GRID_SIZE\<close> rows of \<^verbatim>\<open>GRID_SIZE\<close> cells, as \<^verbatim>\<open>createEmptyGrid\<close> builds
  it; a coordinate on the grid; a ship whose recorded cells, when it is placed, are on the
  grid; a side and a state where all of this holds.
\<close>

definition gridShape :: "CellStatus list list \<Rightarrow> bool" where
  "gridShape g =
     (length g = nat GRID_SIZE \<and> list_all (\<lambda>rw. length rw = nat GRID_SIZE) g)"

definition inGrid :: "int \<times> int \<Rightarrow> bool" where
  "inGrid rc = (0 \<le> fst rc \<and> fst rc < GRID_SIZE \<and> 0 \<le> snd rc \<and> snd rc < GRID_SIZE)"

definition shipInGrid :: "Ship \<Rightarrow> bool" where
  "shipInGrid shp =
     (case position shp of
        None \<Rightarrow> True
      | Some pos \<Rightarrow>
          list_all inGrid
            (shipCells (pos_row pos) (pos_col pos) (pos_orientation pos) (ship_size shp)))"

definition wfSide :: "PlayerBoardState \<Rightarrow> bool" where
  "wfSide ps = (gridShape (grid ps) \<and> gridShape (shots ps) \<and> list_all shipInGrid (ships ps))"

definition bs_wf :: "BattleshipState \<Rightarrow> bool" where
  "bs_wf st = (wfSide (p1 st) \<and> wfSide (p2 st))"

section \<open>A whole game of Battleship\<close>

text \<open>
  The calls the screen makes on the state it holds, one for each action of a player, and
  a run of them that stops at the first exception.
\<close>

datatype BattleshipAction =
    SelectShip jsstring
  | ToggleOrientation
  | PlaceShip int int
  | FinishSetup
  | FireShot int int

fun bs_apply :: "BattleshipState \<Rightarrow> BattleshipAction \<Rightarrow> js_error + BattleshipState" where
  "bs_apply st (SelectShip sid) = Inr (selectShip st sid)"
| "bs_apply st ToggleOrientation = Inr (toggleOrientation st)"
| "bs_apply st (PlaceShip r c) = placeShip st r c"
| "bs_apply st FinishSetup = Inr (finishSetup st)"
| "bs_apply st (FireShot r c) = fireShot st r c"

fun bs_run :: "BattleshipState \<Rightarrow> BattleshipAction list \<Rightarrow> js_error + BattleshipState" where
  "bs_run st [] = Inr st"
| "bs_run st (a # rest) =
     (case bs_apply st a of Inl e \<Rightarrow> Inl e | Inr st' \<Rightarrow> bs_run st' rest)"

text \<open>
  A game from \<^verbatim>\<open>INITIAL_STATE\<close>: each player places the five ships horizontally in
  rows 0 to 4 from column 0 and finishes the setup; then player 1 fires at the fourteen
  cells of player 2's fleet, one after the other, while player 2 fires at thirteen cells
  of water. \<open>fullGameBeforeEnd\<close> is this run up to the last shot, which player 1 then
  fires at (4, 1).
\<close>

definition placeFleet :: "BattleshipAction list" where
  "placeFleet =
     [SelectShip (utf16 ''carrier''), PlaceShip 0 0,
      SelectShip (utf16 ''battleship''), PlaceShip 1 0,
      SelectShip (utf16 ''cruiser''), PlaceShip 2 0,
      SelectShip (utf16 ''destroyer''), PlaceShip 3 0,
      SelectShip (utf16 ''submarine''), PlaceShip 4 0,
      FinishSetup]"

definition fleetCells :: "(int \<times> int) list" where
  "fleetCells =
     [(0, 0), (0, 1), (0, 2), (0, 3), (1, 0), (1, 1), (1, 2),
      (2, 0), (2, 1), (2, 2), (3, 0), (3, 1), (4, 0)]"

definition waterCells :: "(int \<times> int) list" where
  "waterCells =
     [(5, 0), (5, 1), (5, 2), (5, 3), (5, 4), (5, 5), (4, 2),
      (4, 3), (4, 4), (4, 5), (3, 2), (3, 3), (3, 4)]"

definition fullGameBeforeEnd :: "BattleshipAction list" where
  "fullGameBeforeEnd =
     placeFleet @ placeFleet @
     concat (map (\<lambda>hw. [FireShot (fst (fst hw)) (snd (fst hw)),
                          FireShot (fst (snd hw)) (snd (snd hw))])
               (zip fleetCells waterCells))"

text \<open>
  The state that \<open>fullGameBeforeEnd\<close> reaches, written out: both fleets in place, thirteen
  cells of player 2's fleet hit (the submarine has one cell left, at (4, 1)), thirteen
  misses of player 2, and player 1 to move. \<open>gameOver\<close> is its successor by the shot at
  (4, 1).
\<close>

definition fleetGrid :: "(int \<times> int) list \<Rightarrow> CellStatus list list" where
  "fleetGrid hitCells =
     gridWith (map (\<lambda>rc. (fst rc, snd rc, CellShip)) (fleetCells @ [(4, 1)]) @
               map (\<lambda>rc. (fst rc, snd rc, CellHit)) hitCells)"

definition placedFleet :: "int list \<Rightarrow> Ship list" where
  "placedFleet hs =
     map (\<lambda>x. (fst x)\<lparr>hits := snd (snd x), placed := True,
                  position := Some \<lparr>pos_row = fst (snd x), pos_col = 0,
                                    pos_orientation = Horizontal\<rparr>\<rparr>)
       (zip INITIAL_SHIPS (zip [0, 1, 2, 3, 4] hs))"

definition beforeEnd :: BattleshipState where
  "beforeEnd =
     \<lparr>board = (), currentPlayer = P1, status = InProgress, winner = None,
      mode = Some Multiplayer, phase = PhaseInProgress,
      p1 = \<lparr>grid = fleetGrid [],
            ships = placedFleet [0, 0, 0, 0, 0],
            shots = gridWith (map (\<lambda>rc. (fst rc, snd rc, CellHit)) fleetCells)\<rparr>,
      p2 = \<lparr>grid = fleetGrid fleetCells,
            ships = placedFleet [4, 3, 3, 2, 1],
            shots = gridWith (map (\<lambda>rc. (fst rc, snd rc, CellMiss)) waterCells)\<rparr>,
      lastActionMessage = Some (MissedAt P2 3 4),
      bs_setup = \<lparr>selectedShipId = Some (utf16 ''submarine''), orientation = Horizontal\<rparr>\<rparr>"

definition gameOver :: BattleshipState where
  "gameOver = (case fireShot beforeEnd 4 1 of Inr s' \<Rightarrow> s' | Inl e \<Rightarrow> beforeEnd)"

section \<open>Reading and writing arrays\<close>

lemma at_in_range: "0 \<le> i \<Longrightarrow> i < int (length xs) \<Longrightarrow> at xs i = Some (xs ! nat i)"
  by (simp add: at_def)

lemma at_nat: "n < length xs \<Longrightarrow> at xs (int n) = Some (xs ! n)"
  by (simp add: at_def)

lemma at_Some_range: "at xs i = Some v \<Longrightarrow> 0 \<le> i \<and> i < int (length xs) \<and> xs ! nat i = v"
  by (auto simp: at_def split: if_splits)

lemma at2_row: "0 \<le> r \<Longrightarrow> r < int (length g) \<Longrightarrow> at2 g r c = Inr (at (g ! nat r) c)"
  by (simp add: at2_def at_def)

lemma at2_Inr_range: "at2 g r c = Inr v \<Longrightarrow> 0 \<le> r \<and> r < int (length g) \<and> v = at (g ! nat r) c"
  by (auto simp: at2_def at_def split: if_splits option.splits)

lemma length_set2: "length (set2 g r c v) = length g"
  by (simp add: set2_def)

section \<open>ConnectFour: the scans do not throw on a board of six rows\<close>

lemma allEqual_total:
  "(\<forall>rc \<in> set cells. 0 \<le> fst rc \<and> fst rc < int (length brd)) \<Longrightarrow>
   \<exists>b. allEqual brd p cells = Inr b"
proof (induction cells)
  case Nil
  show ?case by auto
next
  case (Cons rc cells)
  obtain r c where rc: "rc = (r, c)" by (cases rc)
  with Cons.prems have "at2 brd r c = Inr (at (brd ! nat r) c)"
    by (simp add: at2_row)
  with Cons rc show ?case by auto
qed

lemma line4_total:
  assumes "0 \<le> fst (fst l)" "fst (fst l) < int (length brd)"
    and "\<forall>rc \<in> set (snd l). 0 \<le> fst rc \<and> fst rc < int (length brd)"
  shows "\<exists>w. line4 brd l = Inr w"
proof -
  from assms(1,2) have a: "at2 brd (fst (fst l)) (snd (fst l)) = Inr (at (brd ! nat (fst (fst l))) (snd (fst l)))"
    by (simp add: at2_row)
  show ?thesis
  proof (cases "at (brd ! nat (fst (fst l))) (snd (fst l))")
    case None
    with a show ?thesis by (simp add: line4_def)
  next
    case (Some cell)
    show ?thesis
    proof (cases cell)
      case None
      with a Some show ?thesis by (simp add: line4_def)
    next
      case (Some p)
      from allEqual_total [OF assms(3), of p] obtain b where "allEqual brd p (snd l) = Inr b" ..
      with a \<open>at (brd ! nat (fst (fst l))) (snd (fst l)) = Some cell\<close> Some
      show ?thesis by (cases b) (simp_all add: line4_def)
    qed
  qed
qed

lemma c4_scan_total:
  "(\<forall>l \<in> set ls. 0 \<le> fst (fst l) \<and> fst (fst l) < int (length brd) \<and>
      (\<forall>rc \<in> set (snd l). 0 \<le> fst rc \<and> fst rc < int (length brd))) \<Longrightarrow>
   \<exists>w. c4_scan brd ls = Inr w"
proof (induction ls)
  case Nil
  show ?case by simp
next
  case (Cons l ls)
  then obtain w where w: "line4 brd l = Inr w"
    using line4_total [of l brd] by auto
  from Cons obtain w' where "c4_scan brd ls = Inr w'" by auto
  with w show ?case by (cases w) simp_all
qed

lemma lines_in_rows:
  assumes "l \<in> set (horizontalLines @ verticalLines @ downRightLines @ upRightLines)"
  shows "0 \<le> fst (fst l) \<and> fst (fst l) < int ROWS \<and>
         (\<forall>rc \<in> set (snd l). 0 \<le> fst rc \<and> fst rc < int ROWS)"
  using assms
  by (auto simp: horizontalLines_def verticalLines_def downRightLines_def upRightLines_def
      ROWS_def COLS_def)

lemma c4_checkWinner_total:
  assumes "length brd = ROWS"
  shows "\<exists>w. c4_checkWinner brd = Inr w"
  unfolding c4_checkWinner_def
  by (rule c4_scan_total) (use assms lines_in_rows in auto)

lemma c4_checkDraw_total:
  assumes "length brd = ROWS"
  shows "\<exists>d. c4_checkDraw brd = Inr d"
  using assms by (simp add: c4_checkDraw_def at_def ROWS_def)

section \<open>ConnectFour: the search for the lowest empty row\<close>

lemma findRow_full:
  "n \<le> length brd \<Longrightarrow> (\<forall>r<n. at (brd ! r) col \<noteq> Some None) \<Longrightarrow>
   findRow brd col n = Inr (- 1)"
proof (induction n)
  case 0
  show ?case by simp
next
  case (Suc n)
  then have "at2 brd (int n) col = Inr (at (brd ! n) col)"
    by (simp add: at2_row)
  with Suc show ?case by simp
qed

lemma findRow_found:
  "n \<le> length brd \<Longrightarrow> r0 < n \<Longrightarrow> at (brd ! r0) col = Some None \<Longrightarrow>
   (\<forall>r. r0 < r \<and> r < n \<longrightarrow> at (brd ! r) col \<noteq> Some None) \<Longrightarrow>
   findRow brd col n = Inr (int r0)"
proof (induction n)
  case 0
  then show ?case by simp
next
  case (Suc n)
  then have rd: "at2 brd (int n) col = Inr (at (brd ! n) col)"
    by (simp add: at2_row)
  show ?case
  proof (cases "r0 = n")
    case True
    with Suc.prems rd show ?thesis by simp
  next
    case False
    with Suc.prems have "r0 < n" and "at (brd ! n) col \<noteq> Some None" by auto
    with Suc rd show ?thesis by simp
  qed
qed

lemma c4_makeMove_placed:
  assumes "status s = InProgress" and "length (board s) = ROWS"
    and "findRow (board s) col ROWS = Inr (int r0)"
  shows "\<exists>s'. c4_makeMove s col = Inr s' \<and>
           board s' = set2 (board s) (int r0) col (Some (currentPlayer s))"
proof -
  let ?nb = "set2 (board s) (int r0) col (Some (currentPlayer s))"
  have len: "length ?nb = ROWS" using assms(2) by (simp add: length_set2)
  from c4_checkWinner_total [OF len] obtain w where w: "c4_checkWinner ?nb = Inr w" ..
  from c4_checkDraw_total [OF len] obtain d where d: "c4_checkDraw ?nb = Inr d" ..
  from assms(1,3) w d show ?thesis
    by (cases w; cases d) (simp_all add: c4_makeMove_def Let_def)
qed

section \<open>Terminal status\<close>

lemma terminal_iff: "terminal st \<longleftrightarrow> st \<noteq> InProgress"
  by (cases st) (simp_all add: terminal_def)

section \<open>Battleship: the outcomes of a shot and of a placement\<close>

lemma fireShot_not_in_progress: "phase b \<noteq> PhaseInProgress \<Longrightarrow> fireShot b row col = Inr b"
  by (simp add: fireShot_def)

lemma fireShot_throws_shots:
  "phase b = PhaseInProgress \<Longrightarrow> at2 (shots (boardOf (currentPlayer b) b)) row col = Inl e \<Longrightarrow>
   fireShot b row col = Inl e"
  by (simp add: fireShot_def Let_def boardOf_def)

lemma fireShot_already:
  "phase b = PhaseInProgress \<Longrightarrow> at2 (shots (boardOf (currentPlayer b) b)) row col = Inr v \<Longrightarrow>
   v \<noteq> Some CellEmpty \<Longrightarrow>
   fireShot b row col = Inr (b\<lparr>lastActionMessage := Some AlreadyShot\<rparr>)"
  by (simp add: fireShot_def Let_def boardOf_def)

lemma fireShot_throws_grid:
  "phase b = PhaseInProgress \<Longrightarrow>
   at2 (shots (boardOf (currentPlayer b) b)) row col = Inr (Some CellEmpty) \<Longrightarrow>
   at2 (grid (boardOf (otherPlayer (currentPlayer b)) b)) row col = Inl e \<Longrightarrow>
   fireShot b row col = Inl e"
  by (cases "currentPlayer b") (simp_all add: fireShot_def Let_def boardOf_def otherPlayer_def)

lemma fireShot_accepted:
  assumes "phase b = PhaseInProgress"
    and "at2 (shots (boardOf (currentPlayer b) b)) row col = Inr (Some CellEmpty)"
    and "at2 (grid (boardOf (otherPlayer (currentPlayer b)) b)) row col = Inr tc"
  shows "\<exists>b'. fireShot b row col = Inr b' \<and> status b' = status b \<and>
           currentPlayer b' = otherPlayer (currentPlayer b)"
proof (cases "currentPlayer b")
  case P1
  with assms show ?thesis
    by (simp add: fireShot_def Let_def boardOf_def otherPlayer_def)
next
  case P2
  with assms show ?thesis
    by (simp add: fireShot_def Let_def boardOf_def otherPlayer_def)
qed

lemma fireShot_cases:
  obtains (idle) "phase b \<noteq> PhaseInProgress" "fireShot b row col = Inr b"
  | (throws) e where "phase b = PhaseInProgress" "fireShot b row col = Inl e"
  | (already) v where "phase b = PhaseInProgress"
      "at2 (shots (boardOf (currentPlayer b) b)) row col = Inr v" "v \<noteq> Some CellEmpty"
      "fireShot b row col = Inr (b\<lparr>lastActionMessage := Some AlreadyShot\<rparr>)"
  | (accepted) b' where "phase b = PhaseInProgress"
      "at2 (shots (boardOf (currentPlayer b) b)) row col = Inr (Some CellEmpty)"
      "fireShot b row col = Inr b'" "status b' = status b"
      "currentPlayer b' = otherPlayer (currentPlayer b)"
proof (cases "phase b = PhaseInProgress")
  case False
  then show ?thesis using idle fireShot_not_in_progress by blast
next
  case True
  show ?thesis
  proof (cases "at2 (shots (boardOf (currentPlayer b) b)) row col")
    case (Inl e)
    with True show ?thesis using throws fireShot_throws_shots by blast
  next
    case (Inr v)
    note sh = this
    show ?thesis
    proof (cases "v = Some CellEmpty")
      case False
      with True sh show ?thesis using already fireShot_already by blast
    next
      case v: True
      show ?thesis
      proof (cases "at2 (grid (boardOf (otherPlayer (currentPlayer b)) b)) row col")
        case (Inl e)
        with True sh v show ?thesis using throws fireShot_throws_grid by blast
      next
        case (Inr tc)
        from sh v have sh': "at2 (shots (boardOf (currentPlayer b) b)) row col = Inr (Some CellEmpty)"
          by simp
        from fireShot_accepted [OF True sh' Inr]
        obtain b' where "fireShot b row col = Inr b'" "status b' = status b"
          "currentPlayer b' = otherPlayer (currentPlayer b)"
          by blast
        with True sh' show ?thesis using accepted by blast
      qed
    qed
  qed
qed

lemma placeShip_keeps:
  "placeShip b row col = Inr b' \<Longrightarrow> status b' = status b \<and> currentPlayer b' = currentPlayer b"
  by (auto simp: placeShip_def Let_def split: if_splits option.splits sum.splits)

lemma fireShot_status: "fireShot b row col = Inr b' \<Longrightarrow> status b' = status b"
  by (rule fireShot_cases [of b row col]) auto

lemma fireShot_turn:
  "phase b = PhaseInProgress \<Longrightarrow>
   at2 (shots (boardOf (currentPlayer b) b)) row col = Inr (Some CellEmpty) \<Longrightarrow>
   fireShot b row col = Inr b' \<Longrightarrow> currentPlayer b' = otherPlayer (currentPlayer b)"
  by (rule fireShot_cases [of b row col]) auto

section \<open>Transitions that do not throw on a board of the declared shape\<close>

lemma gridShape_rows:
  "gridShape g \<Longrightarrow> 0 \<le> r \<Longrightarrow> r < GRID_SIZE \<Longrightarrow>
   at g r = Some (g ! nat r) \<and> length (g ! nat r) = nat GRID_SIZE"
  by (auto simp: gridShape_def at_def list_all_length GRID_SIZE_def)

lemma gridShape_set2:
  assumes "gridShape g" "0 \<le> r" "r < GRID_SIZE"
  shows "gridShape (set2 g r c v)"
proof -
  from assms have r: "nat r < length g" and rl: "length (g ! nat r) = nat GRID_SIZE"
    by (auto simp: gridShape_def list_all_length GRID_SIZE_def)
  have "length (set2 g r c v ! j) = nat GRID_SIZE" if "j < length g" for j
    using that assms(1) rl by (cases "j = nat r") (auto simp: set2_def gridShape_def list_all_length)
  with assms(1) show ?thesis
    by (simp add: gridShape_def list_all_length set2_def)
qed

lemma writeCells_total:
  "gridShape g \<Longrightarrow> list_all inGrid cells \<Longrightarrow>
   \<exists>g'. writeCells g cells v = Inr g' \<and> gridShape g'"
proof (induction cells arbitrary: g)
  case Nil
  then show ?case by simp
next
  case (Cons rc cells)
  obtain r c where rc: "rc = (r, c)" by (cases rc)
  from Cons.prems(2) rc have here: "inGrid (r, c)" and rest: "list_all inGrid cells"
    by simp_all
  from here have in_r: "0 \<le> r" "r < GRID_SIZE" and in_c: "0 \<le> c" "c < GRID_SIZE"
    by (simp_all add: inGrid_def)
  from gridShape_rows [OF Cons.prems(1) in_r]
  have rw: "at g r = Some (g ! nat r)" and len: "length (g ! nat r) = nat GRID_SIZE"
    by simp_all
  from len in_c have c_ok: "c < int (length (g ! nat r))" by simp
  from Cons.IH [OF gridShape_set2 [OF Cons.prems(1) in_r] rest]
  obtain g' where "writeCells (set2 g r c v) cells v = Inr g'" "gridShape g'" by blast
  with rc rw in_c c_ok show ?case by simp
qed

lemma allEmpty_total:
  "length g = nat GRID_SIZE \<Longrightarrow>
   list_all (\<lambda>rc. 0 \<le> fst rc \<and> fst rc < GRID_SIZE) cells \<Longrightarrow>
   \<exists>ok. allEmpty g cells = Inr ok"
proof (induction cells)
  case Nil
  show ?case by auto
next
  case (Cons rc cells)
  obtain r c where rc: "rc = (r, c)" by (cases rc)
  with Cons.prems have "at2 g r c = Inr (at (g ! nat r) c)"
    by (simp add: at2_row)
  with Cons rc show ?case by auto
qed

lemma canPlaceShip_total:
  assumes "length g = nat GRID_SIZE" "0 \<le> row" "row < GRID_SIZE"
  shows "\<exists>ok. canPlaceShip g shipSize row col ori = Inr ok"
proof (cases ori)
  case Horizontal
  have "list_all (\<lambda>rc. 0 \<le> fst rc \<and> fst rc < GRID_SIZE) (shipCells row col Horizontal shipSize)"
    using assms(2,3) by (simp add: shipCells_def list_all_iff)
  from allEmpty_total [OF assms(1) this] Horizontal show ?thesis
    by (auto simp: canPlaceShip_def)
next
  case Vertical
  show ?thesis
  proof (cases "row + shipSize > GRID_SIZE")
    case True
    with Vertical show ?thesis by (auto simp: canPlaceShip_def)
  next
    case False
    then have "list_all (\<lambda>rc. 0 \<le> fst rc \<and> fst rc < GRID_SIZE) (shipCells row col Vertical shipSize)"
      using assms(2) by (auto simp: shipCells_def list_all_iff)
    from allEmpty_total [OF assms(1) this] Vertical False show ?thesis
      by (auto simp: canPlaceShip_def)
  qed
qed

lemma allEmpty_True_inGrid:
  "gridShape g \<Longrightarrow> allEmpty g cells = Inr True \<Longrightarrow> list_all inGrid cells"
proof (induction cells)
  case Nil
  show ?case by simp
next
  case (Cons rc cells)
  obtain r c where rc: "rc = (r, c)" by (cases rc)
  from Cons.prems(2) rc have rd: "at2 g r c = Inr (Some CellEmpty)" and rest: "allEmpty g cells = Inr True"
    by (auto split: sum.splits if_splits)
  from at2_Inr_range [OF rd] have r: "0 \<le> r" "r < int (length g)"
    and cell: "at (g ! nat r) c = Some CellEmpty"
    by simp_all
  from at_Some_range [OF cell] have c: "0 \<le> c" "c < int (length (g ! nat r))" by simp_all
  from Cons.prems(1) r have "r < GRID_SIZE" "length (g ! nat r) = nat GRID_SIZE"
    by (auto simp: gridShape_def list_all_length GRID_SIZE_def)
  with r c have "inGrid (r, c)" by (simp add: inGrid_def)
  with Cons.IH [OF Cons.prems(1) rest] rc show ?case by simp
qed

lemma canPlaceShip_True_inGrid:
  assumes "gridShape g" "canPlaceShip g shipSize row col ori = Inr True"
  shows "list_all inGrid (shipCells row col ori shipSize)"
  using assms
  by (cases ori) (auto simp: canPlaceShip_def split: if_splits intro: allEmpty_True_inGrid)

lemma clearOldPosition_total:
  assumes "gridShape g" "shipInGrid shp"
  shows "\<exists>g'. clearOldPosition g shp = Inr g' \<and> gridShape g'"
proof (cases "position shp")
  case None
  with assms(1) show ?thesis by (simp add: clearOldPosition_def)
next
  case (Some pos)
  show ?thesis
  proof (cases "placed shp")
    case False
    with Some assms(1) show ?thesis by (simp add: clearOldPosition_def)
  next
    case True
    from assms(2) Some have "list_all inGrid
        (shipCells (pos_row pos) (pos_col pos) (pos_orientation pos) (ship_size shp))"
      by (simp add: shipInGrid_def)
    from writeCells_total [OF assms(1) this, of CellEmpty] Some True show ?thesis
      by (simp add: clearOldPosition_def)
  qed
qed

lemma findIndex_Some: "findIndex P xs = Some k \<Longrightarrow> k < length xs \<and> P (xs ! k)"
proof (induction xs arbitrary: k)
  case Nil
  then show ?case by simp
next
  case (Cons x xs)
  then show ?case by (auto split: if_splits)
qed

lemma placeShip_total:
  assumes wf: "wfSide (setupSide b)" and row: "0 \<le> row" "row < GRID_SIZE"
  shows "\<exists>b'. placeShip b row col = Inr b'"
proof (cases "phase b \<noteq> SetupP1 \<and> phase b \<noteq> SetupP2")
  case True
  then show ?thesis by (simp add: placeShip_def)
next
  case insetup: False
  show ?thesis
  proof (cases "selectedShipId (bs_setup b)")
    case None
    then show ?thesis by (simp add: placeShip_def)
  next
    case (Some sid)
    show ?thesis
    proof (cases "sid = []")
      case True
      with Some show ?thesis by (simp add: placeShip_def)
    next
      case sid: False
      show ?thesis
      proof (cases "findIndex (\<lambda>s. ship_id s = sid) (ships (setupSide b))")
        case None
        with Some sid insetup show ?thesis
          by (auto simp: placeShip_def Let_def setupSide_def)
      next
        case (Some k)
        note idx = this
        from findIndex_Some [OF idx] have k: "k < length (ships (setupSide b))" by simp
        with wf have sig: "shipInGrid (ships (setupSide b) ! k)"
          by (simp add: wfSide_def list_all_length)
        from wf have gs: "gridShape (grid (setupSide b))" by (simp add: wfSide_def)
        from clearOldPosition_total [OF gs sig] obtain g where
          g: "clearOldPosition (grid (setupSide b)) (ships (setupSide b) ! k) = Inr g" "gridShape g"
          by blast
        from g(2) have "length g = nat GRID_SIZE" by (simp add: gridShape_def)
        from canPlaceShip_total [OF this row] obtain ok where
          ok: "canPlaceShip g (ship_size (ships (setupSide b) ! k)) row col (orientation (bs_setup b)) = Inr ok"
          by blast
        show ?thesis
        proof (cases ok)
          case False
          with insetup \<open>selectedShipId (bs_setup b) = Some sid\<close> sid idx g ok show ?thesis
            by (auto simp: placeShip_def Let_def setupSide_def)
        next
          case True
          with ok have "canPlaceShip g (ship_size (ships (setupSide b) ! k)) row col
                  (orientation (bs_setup b)) = Inr True"
            by simp
          from canPlaceShip_True_inGrid [OF g(2) this]
          have "list_all inGrid (shipCells row col (orientation (bs_setup b))
                  (ship_size (ships (setupSide b) ! k)))" .
          from writeCells_total [OF g(2) this, of CellShip] obtain g' where
            "writeCells g (shipCells row col (orientation (bs_setup b))
                  (ship_size (ships (setupSide b) ! k))) CellShip = Inr g'"
            by blast
          with True insetup \<open>selectedShipId (bs_setup b) = Some sid\<close> sid idx g ok show ?thesis
            by (auto simp: placeShip_def Let_def setupSide_def)
        qed
      qed
    qed
  qed
qed

lemma fireShot_total:
  assumes "length (shots (boardOf (currentPlayer b) b)) = nat GRID_SIZE"
    and "length (grid (boardOf (otherPlayer (currentPlayer b)) b)) = nat GRID_SIZE"
    and "0 \<le> row" "row < GRID_SIZE"
  shows "\<exists>b'. fireShot b row col = Inr b'"
proof (cases "phase b = PhaseInProgress")
  case False
  then show ?thesis by (simp add: fireShot_not_in_progress)
next
  case True
  from assms have sh: "at2 (shots (boardOf (currentPlayer b) b)) row col
      = Inr (at (shots (boardOf (currentPlayer b) b) ! nat row) col)"
    and gr: "at2 (grid (boardOf (otherPlayer (currentPlayer b)) b)) row col
      = Inr (at (grid (boardOf (otherPlayer (currentPlayer b)) b) ! nat row) col)"
    by (simp_all add: at2_row)
  show ?thesis
  proof (cases "at (shots (boardOf (currentPlayer b) b) ! nat row) col = Some CellEmpty")
    case False
    from fireShot_already [OF True sh False] show ?thesis by simp
  next
    case e: True
    with sh have "at2 (shots (boardOf (currentPlayer b) b)) row col = Inr (Some CellEmpty)"
      by simp
    from fireShot_accepted [OF True this gr] show ?thesis by blast
  qed
qed

lemma flipCard_total:
  "0 \<le> idx \<Longrightarrow> idx < int (length (board m)) \<Longrightarrow> \<exists>m'. flipCard m idx = Inr m'"
  by (simp add: flipCard_def at_def)

lemma checkMatch_total:
  "list_all (\<lambda>i. 0 \<le> i \<and> i < int (length (board m))) (flippedIndices m) \<Longrightarrow>
   \<exists>m'. checkMatch m = Inr m'"
  by (auto simp: checkMatch_def at_def Let_def split: list.splits)

lemma c4_makeMove_total:
  assumes "length (board c) = ROWS"
  shows "\<exists>c'. c4_makeMove c colIndex = Inr c'"
proof (cases "status c = InProgress")
  case False
  then show ?thesis by (simp add: c4_makeMove_def)
next
  case True
  show ?thesis
  proof (cases "\<forall>r<ROWS. at (board c ! r) colIndex \<noteq> Some None")
    case full: True
    with assms have "findRow (board c) colIndex ROWS = Inr (- 1)"
      by (intro findRow_full) auto
    with True show ?thesis by (simp add: c4_makeMove_def)
  next
    case False
    then obtain r where r: "r < ROWS" "at (board c ! r) colIndex = Some None" by auto
    define r0 where "r0 = Max {r. r < ROWS \<and> at (board c ! r) colIndex = Some None}"
    have fin: "finite {r. r < ROWS \<and> at (board c ! r) colIndex = Some None}" by simp
    from r have ne: "{r. r < ROWS \<and> at (board c ! r) colIndex = Some None} \<noteq> {}" by auto
    from Max_in [OF fin ne] have r0: "r0 < ROWS" "at (board c ! r0) colIndex = Some None"
      by (simp_all add: r0_def)
    have above: "\<forall>r. r0 < r \<and> r < ROWS \<longrightarrow> at (board c ! r) colIndex \<noteq> Some None"
    proof (intro allI impI)
      fix r' assume a: "r0 < r' \<and> r' < ROWS"
      show "at (board c ! r') colIndex \<noteq> Some None"
      proof
        assume "at (board c ! r') colIndex = Some None"
        with a have "r' \<in> {r. r < ROWS \<and> at (board c ! r) colIndex = Some None}" by simp
        from Max_ge [OF fin this] a show False by (simp add: r0_def)
      qed
    qed
    from assms r0 above have "findRow (board c) colIndex ROWS = Inr (int r0)"
      by (intro findRow_found) auto
    from c4_makeMove_placed [OF True assms this] show ?thesis by blast
  qed
qed

section \<open>Battleship: the game played from the initial state\<close>

lemma fullGameBeforeEnd_reaches: "bs_run bs_INITIAL_STATE fullGameBeforeEnd = Inr beforeEnd"
  by code_simp

section \<open>Comparing and incrementing numbers\<close>





section \<open>Where an index off the board makes a transition throw\<close>

lemma flipCard_throws:
  "status m = InProgress \<Longrightarrow> length (flippedIndices m) < 2 \<Longrightarrow>
   idx < 0 \<or> int (length (board m)) \<le> idx \<Longrightarrow> flipCard m idx = Inl TypeError"
  by (auto simp: flipCard_def at_def)

lemma flipCard_idle:
  "status m \<noteq> InProgress \<or> 2 \<le> length (flippedIndices m) \<Longrightarrow> flipCard m idx = Inr m"
  by (auto simp: flipCard_def)

lemma checkMatch_throws:
  assumes "length (flippedIndices k) = 2"
    and "list_ex (\<lambda>i. i < 0 \<or> int (length (board k)) \<le> i) (flippedIndices k)"
  shows "checkMatch k = Inl TypeError"
proof -
  from assms(1) obtain i1 i2 where f: "flippedIndices k = [i1, i2]"
    by (cases "flippedIndices k"; cases "tl (flippedIndices k)") auto
  with assms(2) have "at (board k) i1 = None \<or> at (board k) i2 = None"
    by (auto simp: at_def)
  with f show ?thesis
    by (auto simp: checkMatch_def split: option.splits)
qed

lemma shipCells_first:
  "1 \<le> sz \<Longrightarrow> \<exists>rest. shipCells r c ori sz = (r, c) # rest"
proof -
  assume "1 \<le> sz"
  then have "[0 ..< nat sz] = 0 # [1 ..< nat sz]"
    by (simp add: upt_conv_Cons)
  then show ?thesis
    by (simp add: shipCells_def)
qed

lemma shipCells_none: "sz \<le> 0 \<Longrightarrow> shipCells r c ori sz = []"
  by (simp add: shipCells_def)

lemma canPlaceShip_throws:
  assumes "1 \<le> sz" and "at g row = None"
    and "if ori = Horizontal then col + sz \<le> GRID_SIZE else row + sz \<le> GRID_SIZE"
  shows "canPlaceShip g sz row col ori = Inl TypeError"
proof -
  from shipCells_first [OF assms(1)] obtain rest where
    "shipCells row col ori sz = (row, col) # rest" by blast
  with assms(2) have "allEmpty g (shipCells row col ori sz) = Inl TypeError"
    by (simp add: at2_def)
  with assms(3) show ?thesis
    by (cases ori) (simp_all add: canPlaceShip_def)
qed

lemma canPlaceShip_returns:
  assumes "length g = nat GRID_SIZE"
    and "sz \<le> 0 \<or>
         (if ori = Horizontal then GRID_SIZE < col + sz \<or> (0 \<le> row \<and> row < GRID_SIZE)
          else GRID_SIZE < row + sz \<or> 0 \<le> row)"
  shows "\<exists>ok. canPlaceShip g sz row col ori = Inr ok"
proof (cases "sz \<le> 0")
  case True
  then show ?thesis
    by (cases ori) (auto simp: canPlaceShip_def shipCells_none)
next
  case pos: False
  show ?thesis
  proof (cases "if ori = Horizontal then GRID_SIZE < col + sz else GRID_SIZE < row + sz")
    case True
    then show ?thesis
      by (cases ori) (auto simp: canPlaceShip_def)
  next
    case False
    with pos assms(2) have "0 \<le> row \<and> row < GRID_SIZE"
      by (cases ori) (auto split: if_splits)
    with canPlaceShip_total [OF assms(1)] show ?thesis by blast
  qed
qed

lemma fireShot_throws_row:
  assumes "phase b = PhaseInProgress"
    and "frow < 0 \<or> int (length (shots (boardOf (currentPlayer b) b))) \<le> frow"
  shows "fireShot b frow fcol = Inl TypeError"
proof -
  from assms(2) have "at2 (shots (boardOf (currentPlayer b) b)) frow fcol = Inl TypeError"
    by (auto simp: at2_def at_def)
  from fireShot_throws_shots [OF assms(1) this] show ?thesis .
qed

lemma c4_makeMove_off_board:
  assumes "length (board c) = ROWS"
    and "colIndex < 0 \<or> list_all (\<lambda>rw. int (length rw) \<le> colIndex) (board c)"
  shows "c4_makeMove c colIndex = Inr c"
proof -
  have "\<forall>r<ROWS. at (board c ! r) colIndex \<noteq> Some None"
    using assms by (auto simp: at_def list_all_length)
  with assms(1) have "findRow (board c) colIndex ROWS = Inr (- 1)"
    by (intro findRow_full) auto
  then show ?thesis by (simp add: c4_makeMove_def)
qed

lemma ttt_makeMove_off_board:
  "idx < 0 \<or> int (length (board t)) \<le> idx \<Longrightarrow> ttt_makeMove t idx = t"
  by (auto simp: ttt_makeMove_def at_def)

section \<open>WordleClone: the scoring of a guess\<close>

lemma row_get_row_set: "row_get (row_set rw i v) j = (if j = i then Some v else row_get rw j)"
  by (auto simp: row_get_def row_set_def nth_append)

lemma filter_update_len:
  "i < length xs \<Longrightarrow> \<not> P (xs ! i) \<Longrightarrow>
   length (filter P (xs[i := v])) = length (filter P xs) + (if P v then 1 else 0)"
proof (induction xs arbitrary: i)
  case Nil
  then show ?case by simp
next
  case (Cons x xs)
  then show ?case by (cases i) auto
qed

lemma isMark_None: "\<not> isMark c None"
  by (simp add: isMark_def)

lemma marks_row_set:
  assumes "row_get rw i = None"
  shows "marks c (row_set rw i v) = marks c rw + (if isMark c (Some v) then 1 else 0)"
proof (cases "i < length rw")
  case True
  with assms have "rw ! i = None" by (simp add: row_get_def)
  then have "\<not> isMark c (rw ! i)" by (simp add: isMark_None)
  with True show ?thesis
    unfolding marks_def row_set_def by (simp add: filter_update_len)
next
  case False
  then show ?thesis
    unfolding marks_def row_set_def by (simp add: isMark_None)
qed

lemma count_list_update_None:
  "i < length av \<Longrightarrow> av ! i = Some d \<Longrightarrow>
   count_list (av[i := None]) (Some c) + (if d = c then 1 else 0) = count_list av (Some c)"
proof (induction av arbitrary: i)
  case Nil
  then show ?case by simp
next
  case (Cons a av)
  then show ?case by (cases i) auto
qed

lemma indexOf_Some: "indexOf xs x = Some j \<Longrightarrow> j < length xs \<and> xs ! j = x"
proof (induction xs arbitrary: j)
  case Nil
  then show ?case by simp
next
  case (Cons y ys)
  then show ?case by (auto split: if_splits)
qed

lemma count_list_map_Some: "count_list (map Some xs) (Some c) = count_list xs c"
  by (induction xs) auto

lemma pass1_inv:
  "k \<le> length G \<Longrightarrow>
   (let st = foldl (markCorrect G T) (replicate n None, map Some T) [0..<k] in
     length (snd st) = length T \<and>
     (\<forall>j. row_get (fst st) j =
        (if j < k \<and> j < length T \<and> G ! j = T ! j
         then Some \<lparr>char = G ! j, feedback = Correct\<rparr> else None)) \<and>
     (\<forall>j<length T. snd st ! j = (if j < k \<and> G ! j = T ! j then None else Some (T ! j))) \<and>
     (\<forall>c. marks c (fst st) + count_list (snd st) (Some c) = count_list T c))"
proof (induction k)
  case 0
  show ?case
    by (simp add: row_get_def marks_def isMark_None count_list_map_Some)
next
  case (Suc k)
  define st where "st = foldl (markCorrect G T) (replicate n None, map Some T) [0..<k]"
  from Suc have len: "length (snd st) = length T"
    and rows: "\<And>j. row_get (fst st) j =
        (if j < k \<and> j < length T \<and> G ! j = T ! j
         then Some \<lparr>char = G ! j, feedback = Correct\<rparr> else None)"
    and av: "\<And>j. j < length T \<Longrightarrow> snd st ! j = (if j < k \<and> G ! j = T ! j then None else Some (T ! j))"
    and cnt: "\<And>c. marks c (fst st) + count_list (snd st) (Some c) = count_list T c"
    by (simp_all add: st_def Let_def)
  have step: "foldl (markCorrect G T) (replicate n None, map Some T) [0..<Suc k] = markCorrect G T st k"
    by (simp add: st_def)
  show ?case
  proof (cases "k < length T \<and> G ! k = T ! k")
    case False
    then have "markCorrect G T st k = st"
      by (auto simp: markCorrect_def Let_def)
    with False len rows av cnt show ?thesis
      unfolding step Let_def by (auto simp: less_Suc_eq)
  next
    case True
    then have mc: "markCorrect G T st k =
        (row_set (fst st) k \<lparr>char = G ! k, feedback = Correct\<rparr>, (snd st)[k := None])"
      by (simp add: markCorrect_def Let_def)
    have rk: "row_get (fst st) k = None" by (simp add: rows)
    have avk: "snd st ! k = Some (T ! k)" using True av by simp
    have klen: "k < length (snd st)" using True len by simp
    have c1: "\<And>c. marks c (row_set (fst st) k \<lparr>char = G ! k, feedback = Correct\<rparr>)
                 + count_list ((snd st)[k := None]) (Some c) = count_list T c"
    proof -
      fix c
      have a: "marks c (row_set (fst st) k \<lparr>char = G ! k, feedback = Correct\<rparr>)
             = marks c (fst st) + (if G ! k = c then 1 else 0)"
        by (simp add: marks_row_set [OF rk] isMark_def)
      have b: "count_list ((snd st)[k := None]) (Some c) + (if T ! k = c then 1 else 0)
             = count_list (snd st) (Some c)"
        by (rule count_list_update_None [OF klen avk])
      from a b cnt [of c] True show "marks c (row_set (fst st) k \<lparr>char = G ! k, feedback = Correct\<rparr>)
                 + count_list ((snd st)[k := None]) (Some c) = count_list T c"
        by (simp split: if_splits)
    qed
    have c2: "\<And>j. row_get (row_set (fst st) k \<lparr>char = G ! k, feedback = Correct\<rparr>) j =
        (if j < Suc k \<and> j < length T \<and> G ! j = T ! j
         then Some \<lparr>char = G ! j, feedback = Correct\<rparr> else None)"
      using True by (auto simp: row_get_row_set rows less_Suc_eq)
    have c3: "\<And>j. j < length T \<Longrightarrow> ((snd st)[k := None]) ! j
          = (if j < Suc k \<and> G ! j = T ! j then None else Some (T ! j))"
      using True len av by (auto simp: nth_list_update less_Suc_eq)
    show ?thesis
      unfolding step Let_def mc using len c1 c2 c3 by simp
  qed
qed

lemma pass2_inv:
  assumes r1: "\<And>j. row_get (fst st1) j =
        (if j < length G \<and> j < length T \<and> G ! j = T ! j
         then Some \<lparr>char = G ! j, feedback = Correct\<rparr> else None)"
    and c1: "\<And>c. marks c (fst st1) + count_list (snd st1) (Some c) = count_list T c"
  shows "k \<le> length G \<Longrightarrow>
   (let st2 = foldl (markPresent G) st1 [0..<k] in
     (\<forall>j<k. \<exists>fb. row_get (fst st2) j = Some \<lparr>char = G ! j, feedback = fb\<rparr> \<and>
         (fb = Correct \<longleftrightarrow> j < length T \<and> G ! j = T ! j)) \<and>
     (\<forall>j. k \<le> j \<longrightarrow> row_get (fst st2) j = row_get (fst st1) j) \<and>
     (\<forall>c. marks c (fst st2) + count_list (snd st2) (Some c) = count_list T c))"
proof (induction k)
  case 0
  show ?case using c1 by simp
next
  case (Suc k)
  define st where "st = foldl (markPresent G) st1 [0..<k]"
  from Suc have prev: "\<And>j. j < k \<Longrightarrow> \<exists>fb. row_get (fst st) j = Some \<lparr>char = G ! j, feedback = fb\<rparr> \<and>
         (fb = Correct \<longleftrightarrow> j < length T \<and> G ! j = T ! j)"
    and rest: "\<And>j. k \<le> j \<Longrightarrow> row_get (fst st) j = row_get (fst st1) j"
    and cnt: "\<And>c. marks c (fst st) + count_list (snd st) (Some c) = count_list T c"
    by (simp_all add: st_def Let_def)
  from Suc.prems have kG: "k < length G" by simp
  have step: "foldl (markPresent G) st1 [0..<Suc k] = markPresent G st k"
    by (simp add: st_def)
  have rk: "row_get (fst st) k =
        (if k < length T \<and> G ! k = T ! k
         then Some \<lparr>char = G ! k, feedback = Correct\<rparr> else None)"
    using rest [of k] r1 [of k] kG by simp
  show ?case
  proof (cases "k < length T \<and> G ! k = T ! k")
    case True
    with rk have "row_get (fst st) k = Some \<lparr>char = G ! k, feedback = Correct\<rparr>" by simp
    moreover from this have "markPresent G st k = st"
      by (simp add: markPresent_def Let_def)
    ultimately show ?thesis
      unfolding step Let_def using True prev rest cnt
      by (auto simp: less_Suc_eq)
  next
    case False
    with rk have rkN: "row_get (fst st) k = None" by simp
    show ?thesis
    proof (cases "indexOf (snd st) (Some (G ! k))")
      case None
      then have mp: "markPresent G st k = (row_set (fst st) k \<lparr>char = G ! k, feedback = Absent\<rparr>, snd st)"
        using rkN by (simp add: markPresent_def Let_def)
      have m: "\<And>c. marks c (row_set (fst st) k \<lparr>char = G ! k, feedback = Absent\<rparr>) = marks c (fst st)"
        by (simp add: marks_row_set [OF rkN] isMark_def)
      show ?thesis
        unfolding step Let_def mp using False prev rest cnt m
        by (auto simp: less_Suc_eq row_get_row_set)
    next
      case (Some ti)
      then have mp: "markPresent G st k =
          (row_set (fst st) k \<lparr>char = G ! k, feedback = Present\<rparr>, (snd st)[ti := None])"
        using rkN by (simp add: markPresent_def Let_def)
      from indexOf_Some [OF Some] have ti: "ti < length (snd st)" "snd st ! ti = Some (G ! k)"
        by simp_all
      have m: "\<And>c. marks c (row_set (fst st) k \<lparr>char = G ! k, feedback = Present\<rparr>)
                 + count_list ((snd st)[ti := None]) (Some c) = count_list T c"
      proof -
        fix c
        have a: "marks c (row_set (fst st) k \<lparr>char = G ! k, feedback = Present\<rparr>)
               = marks c (fst st) + (if G ! k = c then 1 else 0)"
          by (simp add: marks_row_set [OF rkN] isMark_def)
        have b: "count_list ((snd st)[ti := None]) (Some c) + (if G ! k = c then 1 else 0)
               = count_list (snd st) (Some c)"
          by (rule count_list_update_None [OF ti])
        from a b cnt [of c]
        show "marks c (row_set (fst st) k \<lparr>char = G ! k, feedback = Present\<rparr>)
                 + count_list ((snd st)[ti := None]) (Some c) = count_list T c"
          by (simp split: if_splits)
      qed
      show ?thesis
        unfolding step Let_def mp using False prev rest m
        by (auto simp: less_Suc_eq row_get_row_set)
    qed
  qed
qed

lemma evaluate_rows:
  assumes "i < length (up g)"
  shows "\<exists>fb. row_get (evaluateTurkishWordleGuess up tw g) i
            = Some \<lparr>char = up g ! i, feedback = fb\<rparr> \<and>
          (fb = Correct \<longleftrightarrow> i < length (up tw) \<and> up g ! i = up tw ! i)"
proof -
  let ?G = "up g" and ?T = "up tw"
  define st1 where "st1 = foldl (markCorrect ?G ?T) (replicate (length tw) None, map Some ?T) [0..<length ?G]"
  from pass1_inv [of "length ?G" ?G ?T "length tw"]
  have r1: "\<And>j. row_get (fst st1) j =
        (if j < length ?G \<and> j < length ?T \<and> ?G ! j = ?T ! j
         then Some \<lparr>char = ?G ! j, feedback = Correct\<rparr> else None)"
    and c1: "\<And>c. marks c (fst st1) + count_list (snd st1) (Some c) = count_list ?T c"
    by (simp_all add: st1_def Let_def)
  from pass2_inv [of st1 ?G ?T "length ?G", OF r1 c1] assms
  show ?thesis
    by (simp add: evaluateTurkishWordleGuess_def Let_def st1_def)
qed

lemma evaluate_marks:
  "marks c (evaluateTurkishWordleGuess up tw g) \<le> count_list (up tw) c"
proof -
  let ?G = "up g" and ?T = "up tw"
  define st1 where "st1 = foldl (markCorrect ?G ?T) (replicate (length tw) None, map Some ?T) [0..<length ?G]"
  from pass1_inv [of "length ?G" ?G ?T "length tw"]
  have r1: "\<And>j. row_get (fst st1) j =
        (if j < length ?G \<and> j < length ?T \<and> ?G ! j = ?T ! j
         then Some \<lparr>char = ?G ! j, feedback = Correct\<rparr> else None)"
    and c1: "\<And>c. marks c (fst st1) + count_list (snd st1) (Some c) = count_list ?T c"
    by (simp_all add: st1_def Let_def)
  from pass2_inv [of st1 ?G ?T "length ?G", OF r1 c1]
  have "marks c (fst (foldl (markPresent ?G) st1 [0..<length ?G]))
        + count_list (snd (foldl (markPresent ?G) st1 [0..<length ?G])) (Some c) = count_list ?T c"
    by (simp add: Let_def)
  then show ?thesis
    by (simp add: evaluateTurkishWordleGuess_def Let_def st1_def)
qed

text \<open>
  Claim C1 (WordleClone duplicate-letter scoring). Let the target and the guess have the
  same length once both are in upper case. Then \<^verbatim>\<open>evaluateTurkishWordleGuess\<close> gives
  every position \<open>i\<close> of the guess an entry with the guessed letter, and that entry is
  \<^verbatim>\<open>correct\<close> exactly when the guessed letter equals the target letter at \<open>i\<close>. For
  every letter \<open>c\<close> (and any two words) the number of \<^verbatim>\<open>correct\<close> and
  \<^verbatim>\<open>present\<close> marks on \<open>c\<close> is at most the number of times \<open>c\<close> occurs in the
  target. For the target ALMA and the guess MAMA (both unchanged by the upper-casing) the
  marks on A number exactly the occurrences of A in ALMA.
\<close>

theorem wordle_duplicate_letter_scoring:
  "(length (up g) = length (up tw) \<longrightarrow>
      (\<forall>i<length (up g). \<exists>fb.
          row_get (evaluateTurkishWordleGuess up tw g) i = Some \<lparr>char = up g ! i, feedback = fb\<rparr> \<and>
          (fb = Correct \<longleftrightarrow> up g ! i = up tw ! i))) \<and>
   (\<forall>c. marks c (evaluateTurkishWordleGuess up tw g) \<le> count_list (up tw) c) \<and>
   (up (utf16 ''ALMA'') = utf16 ''ALMA'' \<and> up (utf16 ''MAMA'') = utf16 ''MAMA'' \<longrightarrow>
      marks (of_char CHR ''A'') (evaluateTurkishWordleGuess up (utf16 ''ALMA'') (utf16 ''MAMA''))
        = count_list (utf16 ''ALMA'') (of_char CHR ''A''))"
proof (intro conjI impI allI)
  fix i
  assume len: "length (up g) = length (up tw)" and i: "i < length (up g)"
  from evaluate_rows [of i up g tw] len i
  show "\<exists>fb. row_get (evaluateTurkishWordleGuess up tw g) i = Some \<lparr>char = up g ! i, feedback = fb\<rparr> \<and>
          (fb = Correct \<longleftrightarrow> up g ! i = up tw ! i)"
    by simp
next
  fix c
  show "marks c (evaluateTurkishWordleGuess up tw g) \<le> count_list (up tw) c"
    by (rule evaluate_marks)
next
  assume fixed: "up (utf16 ''ALMA'') = utf16 ''ALMA'' \<and> up (utf16 ''MAMA'') = utf16 ''MAMA''"
  have same: "evaluateTurkishWordleGuess up (utf16 ''ALMA'') (utf16 ''MAMA'')
            = evaluateTurkishWordleGuess (\<lambda>w. w) (utf16 ''ALMA'') (utf16 ''MAMA'')"
    using fixed by (simp add: evaluateTurkishWordleGuess_def)
  have "marks (of_char CHR ''A'') (evaluateTurkishWordleGuess (\<lambda>w. w) (utf16 ''ALMA'') (utf16 ''MAMA''))
        = count_list (utf16 ''ALMA'') (of_char CHR ''A'')"
    by code_simp
  with same show "marks (of_char CHR ''A'') (evaluateTurkishWordleGuess up (utf16 ''ALMA'') (utf16 ''MAMA''))
        = count_list (utf16 ''ALMA'') (of_char CHR ''A'')"
    by simp
qed

theorem wordle_duplicate_letter_scoring_witness:
  "length (trUpper (utf16 ''mama'')) = length (trUpper (utf16 ''ALMA'')) \<and>
   trUpper (utf16 ''ALMA'') = utf16 ''ALMA'' \<and> trUpper (utf16 ''MAMA'') = utf16 ''MAMA'' \<and>
   (\<exists>fb. row_get (evaluateTurkishWordleGuess trUpper (utf16 ''ALMA'') (utf16 ''mama'')) 1
         = Some \<lparr>char = trUpper (utf16 ''mama'') ! 1, feedback = fb\<rparr> \<and>
       (fb = Correct \<longleftrightarrow> trUpper (utf16 ''mama'') ! 1 = trUpper (utf16 ''ALMA'') ! 1)) \<and>
   marks (of_char CHR ''A'') (evaluateTurkishWordleGuess trUpper (utf16 ''ALMA'') (utf16 ''mama''))
     \<le> count_list (trUpper (utf16 ''ALMA'')) (of_char CHR ''A'') \<and>
   marks (of_char CHR ''A'') (evaluateTurkishWordleGuess trUpper (utf16 ''ALMA'') (utf16 ''MAMA''))
     = count_list (utf16 ''ALMA'') (of_char CHR ''A'')"
proof -
  have h1: "length (trUpper (utf16 ''mama'')) = length (trUpper (utf16 ''ALMA''))"
    by (simp add: trUpper_def utf16_def)
  have h2: "trUpper (utf16 ''ALMA'') = utf16 ''ALMA''" by code_simp
  have h3: "trUpper (utf16 ''MAMA'') = utf16 ''MAMA''" by code_simp
  have h4: "1 < length (trUpper (utf16 ''mama''))"
    by (simp add: trUpper_def utf16_def)
  from wordle_duplicate_letter_scoring [of trUpper "utf16 ''mama''" "utf16 ''ALMA''"] h1 h2 h3 h4
  show ?thesis by blast
qed

section \<open>Battleship: the winning shot\<close>

lemma hitShip_all_sunk:
  assumes k: "k < length shs"
    and cov: "isThisShip (shs ! k) row col"
    and last: "hits (shs ! k) + 1 = ship_size (shs ! k)"
    and others: "\<And>j. j < length shs \<Longrightarrow> j \<noteq> k \<Longrightarrow>
                  hits (shs ! j) = ship_size (shs ! j) \<and> \<not> isThisShip (shs ! j) row col"
  shows "list_all (\<lambda>sh. hits sh = ship_size sh) (map (hitShip row col) shs)"
proof -
  have "hits (hitShip row col (shs ! j)) = ship_size (hitShip row col (shs ! j))"
    if j: "j < length shs" for j
  proof (cases "j = k")
    case True
    with cov last show ?thesis by (simp add: hitShip_def)
  next
    case False
    with others [OF j] show ?thesis by (simp add: hitShip_def)
  qed
  then show ?thesis
    by (simp add: list_all_length)
qed

text \<open>
  Claim C2, amended (Battleship winning shot). In every state in phase
  \<^verbatim>\<open>'in_progress'\<close> where the shot at \<open>(row, col)\<close> hits the last cell of the defender's
  only unsunk ship, \<^verbatim>\<open>fireShot\<close> returns a state in which that ship's hits equal its
  size, every ship of the defender has hits equal to its size, \<^verbatim>\<open>phase\<close> is
  \<^verbatim>\<open>'finished'\<close> and \<^verbatim>\<open>winner\<close> is the attacker; the field \<^verbatim>\<open>status\<close> keeps the
  value it had, since \<^verbatim>\<open>fireShot\<close> does not assign it.
\<close>

theorem battleship_winning_shot:
  assumes "phase s = PhaseInProgress" and "lastCellOfLastShip s row col k"
  shows "\<exists>s'. fireShot s row col = Inr s' \<and>
           hits (ships (boardOf (otherPlayer (currentPlayer s)) s') ! k)
             = ship_size (ships (boardOf (otherPlayer (currentPlayer s)) s') ! k) \<and>
           list_all (\<lambda>sh. hits sh = ship_size sh)
             (ships (boardOf (otherPlayer (currentPlayer s)) s')) \<and>
           phase s' = Finished \<and>
           winner s' = Some (currentPlayer s) \<and>
           status s' = status s"
proof -
  define attacker where "attacker = boardOf (currentPlayer s) s"
  define defender where "defender = boardOf (otherPlayer (currentPlayer s)) s"
  from assms(2) have sh: "at2 (shots attacker) row col = Inr (Some CellEmpty)"
    and gr: "at2 (grid defender) row col = Inr (Some CellShip)"
    and k: "k < length (ships defender)"
    and cov: "isThisShip (ships defender ! k) row col"
    and last: "hits (ships defender ! k) + 1 = ship_size (ships defender ! k)"
    and others: "list_all (\<lambda>j. j = k \<or>
                   (hits (ships defender ! j) = ship_size (ships defender ! j) \<and>
                    \<not> isThisShip (ships defender ! j) row col)) [0 ..< length (ships defender)]"
    by (simp_all add: lastCellOfLastShip_def Let_def attacker_def defender_def)
  from others have others': "\<And>j. j < length (ships defender) \<Longrightarrow> j \<noteq> k \<Longrightarrow>
       hits (ships defender ! j) = ship_size (ships defender ! j) \<and>
       \<not> isThisShip (ships defender ! j) row col"
    by (auto simp: list_all_iff)
  have sunk: "list_all (\<lambda>sh. hits sh = ship_size sh) (map (hitShip row col) (ships defender))"
    by (rule hitShip_all_sunk [OF k cov last others'])
  have kth: "hits (map (hitShip row col) (ships defender) ! k)
           = ship_size (map (hitShip row col) (ships defender) ! k)"
    using k cov last by (simp add: hitShip_def)
  show ?thesis
  proof (cases "currentPlayer s")
    case P1
    with sh gr have a: "at2 (shots (p1 s)) row col = Inr (Some CellEmpty)"
      and b: "at2 (grid (p2 s)) row col = Inr (Some CellShip)"
      by (simp_all add: attacker_def defender_def boardOf_def otherPlayer_def)
    from P1 have d: "defender = p2 s" by (simp add: defender_def boardOf_def otherPlayer_def)
    from assms(1) P1 a b sunk kth show ?thesis
      by (simp add: fireShot_def Let_def boardOf_def otherPlayer_def d)
  next
    case P2
    with sh gr have a: "at2 (shots (p2 s)) row col = Inr (Some CellEmpty)"
      and b: "at2 (grid (p1 s)) row col = Inr (Some CellShip)"
      by (simp_all add: attacker_def defender_def boardOf_def otherPlayer_def)
    from P2 have d: "defender = p1 s" by (simp add: defender_def boardOf_def otherPlayer_def)
    from assms(1) P2 a b sunk kth show ?thesis
      by (simp add: fireShot_def Let_def boardOf_def otherPlayer_def d)
  qed
qed

theorem battleship_winning_shot_witness:
  "phase duelState = PhaseInProgress \<and> lastCellOfLastShip duelState 0 1 0 \<and>
   (\<exists>s'. fireShot duelState 0 1 = Inr s' \<and>
      hits (ships (p2 s') ! 0) = 2 \<and> ship_size (ships (p2 s') ! 0) = 2 \<and>
      phase s' = Finished \<and> winner s' = Some P1)"
proof -
  have ph: "phase duelState = PhaseInProgress" by (simp add: duelState_def)
  have lc: "lastCellOfLastShip duelState 0 1 0" by code_simp
  have cp: "currentPlayer duelState = P1" by (simp add: duelState_def)
  from battleship_winning_shot [OF ph lc] obtain s' where
    s': "fireShot duelState 0 1 = Inr s'"
      "hits (ships (boardOf (otherPlayer (currentPlayer duelState)) s') ! 0)
         = ship_size (ships (boardOf (otherPlayer (currentPlayer duelState)) s') ! 0)"
      "phase s' = Finished" "winner s' = Some (currentPlayer duelState)"
    by blast
  have sz: "fireShot duelState 0 1 = Inr s' \<Longrightarrow> ship_size (ships (p2 s') ! 0) = 2"
    by (auto simp: fireShot_def Let_def duelState_def destroyer_def hitShip_def
        split: sum.splits if_splits)
  from s' cp sz have "hits (ships (p2 s') ! 0) = 2" "ship_size (ships (p2 s') ! 0) = 2"
    by (simp_all add: boardOf_def otherPlayer_def)
  with s' cp ph lc show ?thesis by auto
qed

text \<open>
  Claim C2, as stated, fails in its last part. In the game played from
  \<^verbatim>\<open>INITIAL_STATE\<close>, the state \<open>beforeEnd\<close> is in progress and the shot at (4, 1) hits the
  last cell of player 2's last ship; \<^verbatim>\<open>fireShot\<close> returns the finished phase and the
  winner, and a \<^verbatim>\<open>status\<close> that is still \<^verbatim>\<open>'in_progress'\<close>.
\<close>

theorem battleship_winning_shot_status_counterexample:
  "bs_run bs_INITIAL_STATE fullGameBeforeEnd = Inr beforeEnd \<and>
   phase beforeEnd = PhaseInProgress \<and> status beforeEnd = InProgress \<and>
   lastCellOfLastShip beforeEnd 4 1 4 \<and>
   fireShot beforeEnd 4 1 = Inr gameOver \<and>
   phase gameOver = Finished \<and> winner gameOver = Some P1 \<and>
   status gameOver = InProgress \<and> \<not> terminal (status gameOver)"
proof -
  have "phase beforeEnd = PhaseInProgress \<and> status beforeEnd = InProgress \<and>
   lastCellOfLastShip beforeEnd 4 1 4 \<and>
   fireShot beforeEnd 4 1 = Inr gameOver \<and>
   phase gameOver = Finished \<and> winner gameOver = Some P1 \<and>
   status gameOver = InProgress \<and> \<not> terminal (status gameOver)"
    by code_simp
  with fullGameBeforeEnd_reaches show ?thesis by blast
qed

section \<open>Terminal absorption\<close>

text \<open>
  Claim C3, as stated, fails for the two selection helpers of Battleship: in the finished
  game \<open>gameOver\<close> (played from \<^verbatim>\<open>INITIAL_STATE\<close> and ended by the shot at (4, 1)),
  \<^verbatim>\<open>toggleOrientation\<close> and \<^verbatim>\<open>selectShip\<close> return a state different from their input.
  It also fails for \<^verbatim>\<open>checkMatch\<close>, which does not read the status: given a state
  with a terminal status and two flipped indices, it resolves the pair.
\<close>

theorem terminal_absorption_counterexample:
  "bs_run bs_INITIAL_STATE fullGameBeforeEnd = Inr beforeEnd \<and>
   fireShot beforeEnd 4 1 = Inr gameOver \<and>
   phase gameOver = Finished \<and>
   toggleOrientation gameOver \<noteq> gameOver \<and>
   selectShip gameOver (utf16 ''carrier'') \<noteq> gameOver \<and>
   terminal (status (mm_example\<lparr>status := Win\<rparr>)) \<and>
   checkMatch (mm_example\<lparr>status := Win\<rparr>) \<noteq> Inr (mm_example\<lparr>status := Win\<rparr>)"
proof -
  have "fireShot beforeEnd 4 1 = Inr gameOver \<and>
   phase gameOver = Finished \<and>
   toggleOrientation gameOver \<noteq> gameOver \<and>
   selectShip gameOver (utf16 ''carrier'') \<noteq> gameOver \<and>
   terminal (status (mm_example\<lparr>status := Win\<rparr>)) \<and>
   checkMatch (mm_example\<lparr>status := Win\<rparr>) \<noteq> Inr (mm_example\<lparr>status := Win\<rparr>)"
    by code_simp
  with fullGameBeforeEnd_reaches show ?thesis by blast
qed

text \<open>
  Claim C3, amended (terminal absorption). In a state whose status is terminal
  (\<^verbatim>\<open>'win'\<close>, \<^verbatim>\<open>'draw'\<close>, \<^verbatim>\<open>'lose'\<close>) every transition of TicTacToe, ConnectFour,
  Rock-Paper-Scissors, MemoryMatch (\<^verbatim>\<open>flipCard\<close>), NumberDuel, GeoQuiz, the word
  guesser and WordleClone returns its input, whatever the action; \<^verbatim>\<open>checkMatch\<close>, which
  does not read the status, returns its input when \<^verbatim>\<open>flippedIndices\<close> does not hold two
  entries. In a Battleship state whose phase is \<^verbatim>\<open>'finished'\<close>, \<^verbatim>\<open>placeShip\<close>,
  \<^verbatim>\<open>finishSetup\<close> and \<^verbatim>\<open>fireShot\<close> return their input, while \<^verbatim>\<open>selectShip\<close> and
  \<^verbatim>\<open>toggleOrientation\<close> change the \<^verbatim>\<open>setup\<close> field and nothing else.
\<close>

theorem terminal_absorption:
  "(terminal (status t) \<longrightarrow> ttt_makeMove t i = t) \<and>
   (terminal (status c) \<longrightarrow> c4_makeMove c colIndex = Inr c) \<and>
   (terminal (status r) \<longrightarrow> rps_makeMove r mv rnd = r) \<and>
   (terminal (status m) \<longrightarrow> flipCard m idx = Inr m) \<and>
   (terminal (status m) \<and> length (flippedIndices m) \<noteq> 2 \<longrightarrow> checkMatch m = Inr m) \<and>
   (terminal (status n) \<longrightarrow> ng_makeGuess n g = n) \<and>
   (terminal (status q) \<longrightarrow> gq_makeGuess q answer nxt = q) \<and>
   (terminal (status h) \<longrightarrow> wg_makeGuess upc h letter = h) \<and>
   (terminal (status w) \<longrightarrow>
      submitGuess up allowed w = w \<and> updateCurrentGuess up w input = w) \<and>
   (phase b = Finished \<longrightarrow>
      placeShip b row col = Inr b \<and> finishSetup b = b \<and> fireShot b row col = Inr b \<and>
      (selectShip b sid)\<lparr>bs_setup := bs_setup b\<rparr> = b \<and>
      (toggleOrientation b)\<lparr>bs_setup := bs_setup b\<rparr> = b)"
proof -
  have 1: "terminal (status t) \<longrightarrow> ttt_makeMove t i = t"
    by (simp add: terminal_iff ttt_makeMove_def)
  have 2: "terminal (status c) \<longrightarrow> c4_makeMove c colIndex = Inr c"
    by (simp add: terminal_iff c4_makeMove_def)
  have 3: "terminal (status r) \<longrightarrow> rps_makeMove r mv rnd = r"
    by (simp add: terminal_iff rps_makeMove_def)
  have 4: "terminal (status m) \<longrightarrow> flipCard m idx = Inr m"
    by (simp add: terminal_iff flipCard_def)
  have 5: "terminal (status m) \<and> length (flippedIndices m) \<noteq> 2 \<longrightarrow> checkMatch m = Inr m"
    by (auto simp: checkMatch_def split: list.splits)
  have 6: "terminal (status n) \<longrightarrow> ng_makeGuess n g = n"
    by (simp add: terminal_iff ng_makeGuess_def)
  have 7: "terminal (status q) \<longrightarrow> gq_makeGuess q answer nxt = q"
    by (simp add: terminal_iff gq_makeGuess_def)
  have 8: "terminal (status h) \<longrightarrow> wg_makeGuess upc h letter = h"
    by (simp add: terminal_iff wg_makeGuess_def)
  have 9: "terminal (status w) \<longrightarrow>
      submitGuess up allowed w = w \<and> updateCurrentGuess up w input = w"
    by (simp add: terminal_iff submitGuess_def updateCurrentGuess_def)
  have 10: "phase b = Finished \<longrightarrow>
      placeShip b row col = Inr b \<and> finishSetup b = b \<and> fireShot b row col = Inr b \<and>
      (selectShip b sid)\<lparr>bs_setup := bs_setup b\<rparr> = b \<and>
      (toggleOrientation b)\<lparr>bs_setup := bs_setup b\<rparr> = b"
    by (simp add: placeShip_def finishSetup_def fireShot_def selectShip_def toggleOrientation_def)
  from 1 2 3 4 5 6 7 8 9 10 show ?thesis by blast
qed

theorem terminal_absorption_witness:
  "terminal (status ttt_won) \<and> ttt_makeMove ttt_won 8 = ttt_won \<and>
   terminal (status (c4_INITIAL_STATE\<lparr>status := Draw\<rparr>)) \<and>
   c4_makeMove (c4_INITIAL_STATE\<lparr>status := Draw\<rparr>) 3 = Inr (c4_INITIAL_STATE\<lparr>status := Draw\<rparr>) \<and>
   terminal (status rps_won) \<and> rps_makeMove rps_won Paper Rock = rps_won \<and>
   terminal (status (mm_example\<lparr>status := Win\<rparr>)) \<and>
   flipCard (mm_example\<lparr>status := Win\<rparr>) 1 = Inr (mm_example\<lparr>status := Win\<rparr>) \<and>
   length (flippedIndices (mm_INITIAL_STATE\<lparr>status := Win\<rparr>)) \<noteq> 2 \<and>
   checkMatch (mm_INITIAL_STATE\<lparr>status := Win\<rparr>) = Inr (mm_INITIAL_STATE\<lparr>status := Win\<rparr>) \<and>
   terminal (status ng_won) \<and> ng_makeGuess ng_won (ofInt 10) = ng_won \<and>
   terminal (status (gq_INITIAL_STATE\<lparr>status := Win\<rparr>)) \<and>
   gq_makeGuess (gq_INITIAL_STATE\<lparr>status := Win\<rparr>) (utf16 ''Paris'') paris
     = gq_INITIAL_STATE\<lparr>status := Win\<rparr> \<and>
   terminal (status (wg_example\<lparr>status := Lose\<rparr>)) \<and>
   wg_makeGuess trUpper (wg_example\<lparr>status := Lose\<rparr>) (utf16 ''l'') = wg_example\<lparr>status := Lose\<rparr> \<and>
   terminal (status tw_won) \<and>
   submitGuess trUpper allowed_example tw_won = tw_won \<and>
   updateCurrentGuess trUpper tw_won (utf16 ''kalem'') = tw_won \<and>
   phase duelFinished = Finished \<and>
   placeShip duelFinished 2 2 = Inr duelFinished \<and> finishSetup duelFinished = duelFinished \<and>
   fireShot duelFinished 3 3 = Inr duelFinished \<and>
   (selectShip duelFinished (utf16 ''carrier''))\<lparr>bs_setup := bs_setup duelFinished\<rparr> = duelFinished \<and>
   (toggleOrientation duelFinished)\<lparr>bs_setup := bs_setup duelFinished\<rparr> = duelFinished"
proof -
  have t: "terminal (status ttt_won)" by code_simp
  have c: "terminal (status (c4_INITIAL_STATE\<lparr>status := Draw\<rparr>))" by (simp add: terminal_def)
  have r: "terminal (status rps_won)" by code_simp
  have m: "terminal (status (mm_example\<lparr>status := Win\<rparr>))" by (simp add: terminal_def)
  have m0: "terminal (status (mm_INITIAL_STATE\<lparr>status := Win\<rparr>))" by (simp add: terminal_def)
  have ml: "length (flippedIndices (mm_INITIAL_STATE\<lparr>status := Win\<rparr>)) \<noteq> 2"
    by (simp add: mm_INITIAL_STATE_def)
  have n: "terminal (status ng_won)" by code_simp
  have q: "terminal (status (gq_INITIAL_STATE\<lparr>status := Win\<rparr>))" by (simp add: terminal_def)
  have h: "terminal (status (wg_example\<lparr>status := Lose\<rparr>))" by (simp add: terminal_def)
  have w: "terminal (status tw_won)" by code_simp
  have b: "phase duelFinished = Finished" by code_simp
  note A = terminal_absorption [where t = ttt_won and i = 8
      and c = "c4_INITIAL_STATE\<lparr>status := Draw\<rparr>" and colIndex = 3
      and r = rps_won and mv = Paper and rnd = Rock
      and m = "mm_example\<lparr>status := Win\<rparr>" and idx = 1
      and n = ng_won and g = "ofInt 10"
      and q = "gq_INITIAL_STATE\<lparr>status := Win\<rparr>" and answer = "utf16 ''Paris''" and nxt = paris
      and h = "wg_example\<lparr>status := Lose\<rparr>" and upc = trUpper and letter = "utf16 ''l''"
      and w = tw_won and up = trUpper and allowed = allowed_example and input = "utf16 ''kalem''"
      and b = duelFinished and row = 2 and col = 2 and sid = "utf16 ''carrier''"]
  note B = terminal_absorption [where t = ttt_won and i = 8
      and c = "c4_INITIAL_STATE\<lparr>status := Draw\<rparr>" and colIndex = 3
      and r = rps_won and mv = Paper and rnd = Rock
      and m = "mm_INITIAL_STATE\<lparr>status := Win\<rparr>" and idx = 1
      and n = ng_won and g = "ofInt 10"
      and q = "gq_INITIAL_STATE\<lparr>status := Win\<rparr>" and answer = "utf16 ''Paris''" and nxt = paris
      and h = "wg_example\<lparr>status := Lose\<rparr>" and upc = trUpper and letter = "utf16 ''l''"
      and w = tw_won and up = trUpper and allowed = allowed_example and input = "utf16 ''kalem''"
      and b = duelFinished and row = 3 and col = 3 and sid = "utf16 ''carrier''"]
  from A B t c r m m0 ml n q h w b show ?thesis by blast
qed

section \<open>ConnectFour: gravity\<close>

text \<open>
  Claim C5 (ConnectFour gravity). In every in-progress state on a board of six rows: when
  the column has an empty cell, and \<open>r0\<close> is the lowest row where it is empty (no empty
  cell of the column lies below it), \<^verbatim>\<open>makeMove\<close> returns a state whose board is the
  old one with the current player's piece at row \<open>r0\<close> of the column and every other cell
  as before; when no cell of the column is empty, \<^verbatim>\<open>makeMove\<close> returns the state as it
  is, so \<^verbatim>\<open>currentPlayer\<close> does not alternate. Rows are numbered from the top, as in
  the source.
\<close>

theorem connect_four_gravity:
  assumes "status s = InProgress" and "length (board s) = ROWS"
  shows "(r0 < ROWS \<and> at (board s ! r0) col = Some None \<and>
            (\<forall>r. r0 < r \<and> r < ROWS \<longrightarrow> at (board s ! r) col \<noteq> Some None) \<longrightarrow>
            (\<exists>s'. c4_makeMove s col = Inr s' \<and>
               board s' = (board s)[r0 := (board s ! r0)[nat col := Some (currentPlayer s)]])) \<and>
         ((\<forall>r<ROWS. at (board s ! r) col \<noteq> Some None) \<longrightarrow>
            c4_makeMove s col = Inr s \<and>
            currentPlayer (projr (c4_makeMove s col)) = currentPlayer s)"
proof -
  have placed: "\<exists>s'. c4_makeMove s col = Inr s' \<and>
               board s' = (board s)[r0 := (board s ! r0)[nat col := Some (currentPlayer s)]]"
    if h: "r0 < ROWS \<and> at (board s ! r0) col = Some None \<and>
            (\<forall>r. r0 < r \<and> r < ROWS \<longrightarrow> at (board s ! r) col \<noteq> Some None)"
  proof -
    from h assms(2) have "findRow (board s) col ROWS = Inr (int r0)"
      by (intro findRow_found) auto
    from c4_makeMove_placed [OF assms this] show ?thesis
      by (simp add: set2_def)
  qed
  have full: "c4_makeMove s col = Inr s \<and>
            currentPlayer (projr (c4_makeMove s col)) = currentPlayer s"
    if h: "\<forall>r<ROWS. at (board s ! r) col \<noteq> Some None"
  proof -
    from h assms(2) have "findRow (board s) col ROWS = Inr (- 1)"
      by (intro findRow_full) auto
    with assms(1) have "c4_makeMove s col = Inr s"
      by (simp add: c4_makeMove_def)
    then show ?thesis by simp
  qed
  from placed full show ?thesis by blast
qed

theorem connect_four_gravity_witness:
  "status c4_INITIAL_STATE = InProgress \<and> length (board c4_INITIAL_STATE) = ROWS \<and>
   5 < ROWS \<and> at (board c4_INITIAL_STATE ! 5) 3 = Some None \<and>
   (\<exists>s'. c4_makeMove c4_INITIAL_STATE 3 = Inr s' \<and>
      board s' = (board c4_INITIAL_STATE)[5 := (board c4_INITIAL_STATE ! 5)[nat 3 := Some P1]]) \<and>
   status c4_fullColumn = InProgress \<and> length (board c4_fullColumn) = ROWS \<and>
   at (board c4_fullColumn ! 0) 0 = Some (Some P1) \<and>
   c4_makeMove c4_fullColumn 0 = Inr c4_fullColumn"
proof -
  have i1: "status c4_INITIAL_STATE = InProgress" by (simp add: c4_INITIAL_STATE_def)
  have i2: "length (board c4_INITIAL_STATE) = ROWS" by (simp add: c4_INITIAL_STATE_def)
  have i3: "5 < ROWS" by (simp add: ROWS_def)
  have i4: "at (board c4_INITIAL_STATE ! 5) 3 = Some None"
    by (simp add: c4_INITIAL_STATE_def ROWS_def COLS_def at_def)
  have i5: "\<forall>r. 5 < r \<and> r < ROWS \<longrightarrow> at (board c4_INITIAL_STATE ! r) 3 \<noteq> Some None"
    by (auto simp: ROWS_def)
  have i6: "currentPlayer c4_INITIAL_STATE = P1" by (simp add: c4_INITIAL_STATE_def)
  have f1: "status c4_fullColumn = InProgress" by (simp add: c4_fullColumn_def)
  have f2: "length (board c4_fullColumn) = ROWS" by (simp add: c4_fullColumn_def)
  have f3: "\<forall>r<ROWS. at (board c4_fullColumn ! r) 0 \<noteq> Some None"
    by (simp add: c4_fullColumn_def at_def)
  have f4: "at (board c4_fullColumn ! 0) 0 = Some (Some P1)"
    by (simp add: c4_fullColumn_def at_def ROWS_def)
  from connect_four_gravity [OF i1 i2, of 5 3] i3 i4 i5 i6
  have a: "\<exists>s'. c4_makeMove c4_INITIAL_STATE 3 = Inr s' \<and>
      board s' = (board c4_INITIAL_STATE)[5 := (board c4_INITIAL_STATE ! 5)[nat 3 := Some P1]]"
    by simp
  from connect_four_gravity [OF f1 f2, of 0 0] f3
  have b: "c4_makeMove c4_fullColumn 0 = Inr c4_fullColumn" by simp
  from i1 i2 i3 i4 a f1 f2 f4 b show ?thesis by simp
qed

section \<open>Turn preservation on terminal transitions\<close>

text \<open>
  Claim C6, as stated, fails for Battleship. \<^verbatim>\<open>fireShot\<close> reads only the phase and
  always hands the turn to the other player, and no transition of Battleship assigns
  \<^verbatim>\<open>status\<close>. So from a state whose \<^verbatim>\<open>status\<close> is terminal and whose phase is
  \<^verbatim>\<open>'in_progress'\<close> a shot returns a terminal status and another current player; and
  in the game played from \<^verbatim>\<open>INITIAL_STATE\<close> the shot that ends it returns the finished
  phase with the winner set, and the current player changed.
\<close>

theorem turn_preservation_counterexample:
  "phase (duelState\<lparr>status := Lose\<rparr>) = PhaseInProgress \<and>
   currentPlayer (duelState\<lparr>status := Lose\<rparr>) = P1 \<and>
   map_sum id (terminal \<circ> status) (fireShot (duelState\<lparr>status := Lose\<rparr>) 3 3) = Inr True \<and>
   map_sum id currentPlayer (fireShot (duelState\<lparr>status := Lose\<rparr>) 3 3) = Inr P2 \<and>
   bs_run bs_INITIAL_STATE fullGameBeforeEnd = Inr beforeEnd \<and>
   currentPlayer beforeEnd = P1 \<and>
   fireShot beforeEnd 4 1 = Inr gameOver \<and>
   phase gameOver = Finished \<and> winner gameOver = Some P1 \<and>
   currentPlayer gameOver = P2"
proof -
  have "phase (duelState\<lparr>status := Lose\<rparr>) = PhaseInProgress \<and>
   currentPlayer (duelState\<lparr>status := Lose\<rparr>) = P1 \<and>
   map_sum id (terminal \<circ> status) (fireShot (duelState\<lparr>status := Lose\<rparr>) 3 3) = Inr True \<and>
   map_sum id currentPlayer (fireShot (duelState\<lparr>status := Lose\<rparr>) 3 3) = Inr P2"
    by code_simp
  moreover have "currentPlayer beforeEnd = P1 \<and>
   fireShot beforeEnd 4 1 = Inr gameOver \<and>
   phase gameOver = Finished \<and> winner gameOver = Some P1 \<and>
   currentPlayer gameOver = P2"
    by code_simp
  ultimately show ?thesis using fullGameBeforeEnd_reaches by blast
qed

text \<open>
  Claim C6, amended (turn preservation). For TicTacToe, ConnectFour, MemoryMatch,
  NumberDuel, GeoQuiz, the word guesser and WordleClone: whenever a transition returns a
  state whose status is terminal, that state's \<^verbatim>\<open>currentPlayer\<close> is the input's, so
  \<^verbatim>\<open>currentPlayer\<close> changes only on a transition that returns \<^verbatim>\<open>'in_progress'\<close>.
  Battleship is apart: its transitions return the \<^verbatim>\<open>status\<close> they were given;
  \<^verbatim>\<open>placeShip\<close>, \<^verbatim>\<open>selectShip\<close> and \<^verbatim>\<open>toggleOrientation\<close> keep
  \<^verbatim>\<open>currentPlayer\<close>, and \<^verbatim>\<open>fireShot\<close> gives the turn to the other player after every
  shot at a cell not fired upon before, the shot that ends the game included.
\<close>

theorem turn_preservation:
  "(terminal (status (ttt_makeMove t i)) \<longrightarrow>
      currentPlayer (ttt_makeMove t i) = currentPlayer t) \<and>
   (c4_makeMove c colIndex = Inr c' \<and> terminal (status c') \<longrightarrow>
      currentPlayer c' = currentPlayer c) \<and>
   (flipCard m idx = Inr m' \<and> terminal (status m') \<longrightarrow> currentPlayer m' = currentPlayer m) \<and>
   (checkMatch k = Inr k' \<and> terminal (status k') \<longrightarrow> currentPlayer k' = currentPlayer k) \<and>
   (terminal (status (ng_makeGuess n g)) \<longrightarrow>
      currentPlayer (ng_makeGuess n g) = currentPlayer n) \<and>
   (terminal (status (gq_makeGuess q answer nxt)) \<longrightarrow>
      currentPlayer (gq_makeGuess q answer nxt) = currentPlayer q) \<and>
   (terminal (status (wg_makeGuess upc h letter)) \<longrightarrow>
      currentPlayer (wg_makeGuess upc h letter) = currentPlayer h) \<and>
   (terminal (status (submitGuess up allowed w)) \<longrightarrow>
      currentPlayer (submitGuess up allowed w) = currentPlayer w) \<and>
   (terminal (status (updateCurrentGuess up v input)) \<longrightarrow>
      currentPlayer (updateCurrentGuess up v input) = currentPlayer v) \<and>
   (fireShot b row col = Inr b' \<longrightarrow> status b' = status b) \<and>
   (placeShip b row col = Inr b'' \<longrightarrow>
      status b'' = status b \<and> currentPlayer b'' = currentPlayer b) \<and>
   status (finishSetup b) = status b \<and>
   status (selectShip b sid) = status b \<and>
   currentPlayer (selectShip b sid) = currentPlayer b \<and>
   status (toggleOrientation b) = status b \<and>
   currentPlayer (toggleOrientation b) = currentPlayer b \<and>
   (phase b = PhaseInProgress \<and>
    at2 (shots (boardOf (currentPlayer b) b)) row col = Inr (Some CellEmpty) \<and>
    fireShot b row col = Inr b' \<longrightarrow>
      currentPlayer b' = otherPlayer (currentPlayer b))"
proof -
  have 1: "terminal (status (ttt_makeMove t i)) \<longrightarrow>
      currentPlayer (ttt_makeMove t i) = currentPlayer t"
    by (simp add: ttt_makeMove_def Let_def terminal_def)
  have 2: "c4_makeMove c colIndex = Inr c' \<and> terminal (status c') \<longrightarrow>
      currentPlayer c' = currentPlayer c"
    by (auto simp: c4_makeMove_def Let_def terminal_def split: if_splits sum.splits)
  have 3: "flipCard m idx = Inr m' \<and> terminal (status m') \<longrightarrow> currentPlayer m' = currentPlayer m"
    by (auto simp: flipCard_def split: if_splits option.splits)
  have 4: "checkMatch k = Inr k' \<and> terminal (status k') \<longrightarrow> currentPlayer k' = currentPlayer k"
    by (auto simp: checkMatch_def Let_def split: list.splits option.splits)
  have 5: "terminal (status (ng_makeGuess n g)) \<longrightarrow>
      currentPlayer (ng_makeGuess n g) = currentPlayer n"
    by (simp add: ng_makeGuess_def Let_def terminal_def)
  have 6: "terminal (status (gq_makeGuess q answer nxt)) \<longrightarrow>
      currentPlayer (gq_makeGuess q answer nxt) = currentPlayer q"
    by (simp add: gq_makeGuess_def Let_def)
  have 7: "terminal (status (wg_makeGuess upc h letter)) \<longrightarrow>
      currentPlayer (wg_makeGuess upc h letter) = currentPlayer h"
    by (simp add: wg_makeGuess_def Let_def)
  have 8: "terminal (status (submitGuess up allowed w)) \<longrightarrow>
      currentPlayer (submitGuess up allowed w) = currentPlayer w"
    by (simp add: submitGuess_def Let_def)
  have 9: "terminal (status (updateCurrentGuess up v input)) \<longrightarrow>
      currentPlayer (updateCurrentGuess up v input) = currentPlayer v"
    by (simp add: updateCurrentGuess_def Let_def)
  have 10: "fireShot b row col = Inr b' \<longrightarrow> status b' = status b"
    using fireShot_status by blast
  have 11: "placeShip b row col = Inr b'' \<longrightarrow>
      status b'' = status b \<and> currentPlayer b'' = currentPlayer b"
    using placeShip_keeps by blast
  have 12: "status (finishSetup b) = status b"
    by (simp add: finishSetup_def)
  have 13: "status (selectShip b sid) = status b \<and>
    currentPlayer (selectShip b sid) = currentPlayer b \<and>
    status (toggleOrientation b) = status b \<and>
    currentPlayer (toggleOrientation b) = currentPlayer b"
    by (simp add: selectShip_def toggleOrientation_def)
  have 14: "phase b = PhaseInProgress \<and>
    at2 (shots (boardOf (currentPlayer b) b)) row col = Inr (Some CellEmpty) \<and>
    fireShot b row col = Inr b' \<longrightarrow>
      currentPlayer b' = otherPlayer (currentPlayer b)"
    using fireShot_turn by blast
  from 1 2 3 4 5 6 7 8 9 10 11 12 13 14 show ?thesis by blast
qed

theorem turn_preservation_witness:
  "terminal (status (ttt_makeMove ttt_beforeWin 2)) \<and>
   currentPlayer (ttt_makeMove ttt_beforeWin 2) = currentPlayer ttt_beforeWin \<and>
   c4_makeMove c4_threeInRow 3 = Inr (projr (c4_makeMove c4_threeInRow 3)) \<and>
   terminal (status (projr (c4_makeMove c4_threeInRow 3))) \<and>
   currentPlayer (projr (c4_makeMove c4_threeInRow 3)) = currentPlayer c4_threeInRow \<and>
   flipCard (mm_example\<lparr>status := Win\<rparr>) 1 = Inr (mm_example\<lparr>status := Win\<rparr>) \<and>
   terminal (status (mm_example\<lparr>status := Win\<rparr>)) \<and>
   checkMatch mm_lastPair = Inr (projr (checkMatch mm_lastPair)) \<and>
   terminal (status (projr (checkMatch mm_lastPair))) \<and>
   currentPlayer (projr (checkMatch mm_lastPair)) = currentPlayer mm_lastPair \<and>
   terminal (status (ng_makeGuess ng_example (ofInt 73))) \<and>
   currentPlayer (ng_makeGuess ng_example (ofInt 73)) = currentPlayer ng_example \<and>
   terminal (status (gq_makeGuess gq_lastRound (utf16 ''Paris'') paris)) \<and>
   currentPlayer (gq_makeGuess gq_lastRound (utf16 ''Paris'') paris) = currentPlayer gq_lastRound \<and>
   terminal (status (wg_makeGuess trUpper wg_oneLeft (utf16 ''a''))) \<and>
   currentPlayer (wg_makeGuess trUpper wg_oneLeft (utf16 ''a'')) = currentPlayer wg_oneLeft \<and>
   terminal (status (submitGuess trUpper allowed_example (tw_example (utf16 ''elmas'')))) \<and>
   currentPlayer (submitGuess trUpper allowed_example (tw_example (utf16 ''elmas'')))
     = currentPlayer (tw_example (utf16 ''elmas'')) \<and>
   terminal (status (updateCurrentGuess trUpper tw_won (utf16 ''kalem''))) \<and>
   currentPlayer (updateCurrentGuess trUpper tw_won (utf16 ''kalem'')) = currentPlayer tw_won \<and>
   phase duelState = PhaseInProgress \<and>
   at2 (shots (boardOf (currentPlayer duelState) duelState)) 0 1 = Inr (Some CellEmpty) \<and>
   fireShot duelState 0 1 = Inr duelFinished \<and>
   status duelFinished = status duelState \<and>
   currentPlayer duelFinished = otherPlayer (currentPlayer duelState) \<and>
   placeShip (selectShip bs_INITIAL_STATE (utf16 ''destroyer'')) 0 0
     = Inr (projr (placeShip (selectShip bs_INITIAL_STATE (utf16 ''destroyer'')) 0 0)) \<and>
   currentPlayer (projr (placeShip (selectShip bs_INITIAL_STATE (utf16 ''destroyer'')) 0 0))
     = currentPlayer (selectShip bs_INITIAL_STATE (utf16 ''destroyer''))"
proof -
  have t: "terminal (status (ttt_makeMove ttt_beforeWin 2))" by code_simp
  have c: "c4_makeMove c4_threeInRow 3 = Inr (projr (c4_makeMove c4_threeInRow 3))" by code_simp
  have c': "terminal (status (projr (c4_makeMove c4_threeInRow 3)))" by code_simp
  have m: "flipCard (mm_example\<lparr>status := Win\<rparr>) 1 = Inr (mm_example\<lparr>status := Win\<rparr>)"
    by (simp add: flipCard_def)
  have m': "terminal (status (mm_example\<lparr>status := Win\<rparr>))" by (simp add: terminal_def)
  have k: "checkMatch mm_lastPair = Inr (projr (checkMatch mm_lastPair))" by code_simp
  have k': "terminal (status (projr (checkMatch mm_lastPair)))" by code_simp
  have n: "terminal (status (ng_makeGuess ng_example (ofInt 73)))" by code_simp
  have q: "terminal (status (gq_makeGuess gq_lastRound (utf16 ''Paris'') paris))" by code_simp
  have h: "terminal (status (wg_makeGuess trUpper wg_oneLeft (utf16 ''a'')))" by code_simp
  have w: "terminal (status (submitGuess trUpper allowed_example (tw_example (utf16 ''elmas''))))"
    by code_simp
  have v: "terminal (status (updateCurrentGuess trUpper tw_won (utf16 ''kalem'')))" by code_simp
  have b1: "phase duelState = PhaseInProgress" by (simp add: duelState_def)
  have b2: "at2 (shots (boardOf (currentPlayer duelState) duelState)) 0 1 = Inr (Some CellEmpty)"
    by code_simp
  have b3: "fireShot duelState 0 1 = Inr duelFinished" by code_simp
  have p: "placeShip (selectShip bs_INITIAL_STATE (utf16 ''destroyer'')) 0 0
     = Inr (projr (placeShip (selectShip bs_INITIAL_STATE (utf16 ''destroyer'')) 0 0))"
    by code_simp
  note A = turn_preservation [where t = ttt_beforeWin and i = 2
      and c = c4_threeInRow and colIndex = 3 and c' = "projr (c4_makeMove c4_threeInRow 3)"
      and m = "mm_example\<lparr>status := Win\<rparr>" and idx = 1 and m' = "mm_example\<lparr>status := Win\<rparr>"
      and k = mm_lastPair and k' = "projr (checkMatch mm_lastPair)"
      and n = ng_example and g = "ofInt 73"
      and q = gq_lastRound and answer = "utf16 ''Paris''" and nxt = paris
      and h = wg_oneLeft and upc = trUpper and letter = "utf16 ''a''"
      and w = "tw_example (utf16 ''elmas'')" and up = trUpper and allowed = allowed_example
      and v = tw_won and input = "utf16 ''kalem''"
      and b = duelState and row = 0 and col = 1 and b' = duelFinished and b'' = duelState
      and sid = "utf16 ''carrier''"]
  note B = turn_preservation [where t = ttt_beforeWin and i = 2
      and c = c4_threeInRow and colIndex = 3 and c' = "projr (c4_makeMove c4_threeInRow 3)"
      and m = "mm_example\<lparr>status := Win\<rparr>" and idx = 1 and m' = "mm_example\<lparr>status := Win\<rparr>"
      and k = mm_lastPair and k' = "projr (checkMatch mm_lastPair)"
      and n = ng_example and g = "ofInt 73"
      and q = gq_lastRound and answer = "utf16 ''Paris''" and nxt = paris
      and h = wg_oneLeft and upc = trUpper and letter = "utf16 ''a''"
      and w = "tw_example (utf16 ''elmas'')" and up = trUpper and allowed = allowed_example
      and v = tw_won and input = "utf16 ''kalem''"
      and b = "selectShip bs_INITIAL_STATE (utf16 ''destroyer'')" and row = 0 and col = 0
      and b' = duelFinished
      and b'' = "projr (placeShip (selectShip bs_INITIAL_STATE (utf16 ''destroyer'')) 0 0)"
      and sid = "utf16 ''carrier''"]
  from A B t c c' m m' k k' n q h w v b1 b2 b3 p show ?thesis by blast
qed

section \<open>Idempotence of rejection\<close>

lemma placeShip_invalid:
  assumes "phase bp = SetupP1 \<or> phase bp = SetupP2"
    and "selectedShipId (bs_setup bp) = Some sid" and "sid \<noteq> []"
    and "findIndex (\<lambda>s. ship_id s = sid) (ships (setupSide bp)) = Some k"
    and "clearOldPosition (grid (setupSide bp)) (ships (setupSide bp) ! k) = Inr g"
    and "canPlaceShip g (ship_size (ships (setupSide bp) ! k)) row col (orientation (bs_setup bp))
           = Inr False"
  shows "placeShip bp row col = Inr (bp\<lparr>lastActionMessage := Some InvalidPlacement\<rparr>)"
  using assms by (auto simp: placeShip_def Let_def setupSide_def)

text \<open>
  Claim C7 (idempotence of rejection). For each transition and each action it rejects,
  applying it twice gives what applying it once gives: a move of TicTacToe to a cell that
  is not empty, a move of ConnectFour into a column with no empty cell, a shot of
  Battleship at a coordinate already fired upon, a placement of a ship that
  \<^verbatim>\<open>canPlaceShip\<close> refuses, \<^verbatim>\<open>finishSetup\<close> with a ship still to place, a submitted
  word of the wrong length or outside the table, an input too long for the guess buffer, an
  already guessed letter, and a card flipped while two are face up or that is itself face
  up or matched.
\<close>

theorem rejection_idempotent:
  "(at (board t) i \<noteq> Some None \<longrightarrow>
      ttt_makeMove (ttt_makeMove t i) i = ttt_makeMove t i) \<and>
   (length (board c) = ROWS \<and> (\<forall>r<ROWS. at (board c ! r) colIndex \<noteq> Some None) \<longrightarrow>
      twice (\<lambda>s. c4_makeMove s colIndex) c = c4_makeMove c colIndex) \<and>
   (phase bs = PhaseInProgress \<and>
    at2 (shots (boardOf (currentPlayer bs) bs)) row col = Inr v \<and> v \<noteq> Some CellEmpty \<longrightarrow>
      twice (\<lambda>s. fireShot s row col) bs = fireShot bs row col) \<and>
   ((phase bp = SetupP1 \<or> phase bp = SetupP2) \<and>
    selectedShipId (bs_setup bp) = Some sid \<and> sid \<noteq> [] \<and>
    findIndex (\<lambda>s. ship_id s = sid) (ships (setupSide bp)) = Some k \<and>
    clearOldPosition (grid (setupSide bp)) (ships (setupSide bp) ! k) = Inr g \<and>
    canPlaceShip g (ship_size (ships (setupSide bp) ! k)) prow pcol (orientation (bs_setup bp))
      = Inr False \<longrightarrow>
      twice (\<lambda>s. placeShip s prow pcol) bp = placeShip bp prow pcol) \<and>
   (phase bf = SetupP1 \<and> list_ex (\<lambda>s. \<not> placed s) (ships (p1 bf)) \<or>
    phase bf = SetupP2 \<and> list_ex (\<lambda>s. \<not> placed s) (ships (p2 bf)) \<longrightarrow>
      finishSetup (finishSetup bf) = finishSetup bf) \<and>
   (status w = InProgress \<and>
    (int (length (up (currentGuess w))) \<noteq> wordLength w \<or> up (currentGuess w) \<notin> set allowed) \<longrightarrow>
      submitGuess up allowed (submitGuess up allowed w) = submitGuess up allowed w) \<and>
   (int (length (up (filter isTurkishLetter input))) > wordLength u \<longrightarrow>
      updateCurrentGuess up (updateCurrentGuess up u input) input = updateCurrentGuess up u input) \<and>
   (upc letter \<in> set (guessedLetters h) \<longrightarrow>
      wg_makeGuess upc (wg_makeGuess upc h letter) letter = wg_makeGuess upc h letter) \<and>
   (length (flippedIndices m) \<ge> 2 \<or>
    (\<exists>cd. at (board m) idx = Some cd \<and> (isFlipped cd \<or> isMatched cd)) \<longrightarrow>
      twice (\<lambda>s. flipCard s idx) m = flipCard m idx)"
proof -
  have 1: "at (board t) i \<noteq> Some None \<longrightarrow>
      ttt_makeMove (ttt_makeMove t i) i = ttt_makeMove t i"
    by (simp add: ttt_makeMove_def)
  have 2: "length (board c) = ROWS \<and> (\<forall>r<ROWS. at (board c ! r) colIndex \<noteq> Some None) \<longrightarrow>
      twice (\<lambda>s. c4_makeMove s colIndex) c = c4_makeMove c colIndex"
  proof
    assume h: "length (board c) = ROWS \<and> (\<forall>r<ROWS. at (board c ! r) colIndex \<noteq> Some None)"
    then have "findRow (board c) colIndex ROWS = Inr (- 1)"
      by (intro findRow_full) auto
    then have "c4_makeMove c colIndex = Inr c"
      by (simp add: c4_makeMove_def)
    then show "twice (\<lambda>s. c4_makeMove s colIndex) c = c4_makeMove c colIndex"
      by (simp add: twice_def)
  qed
  have 3: "phase bs = PhaseInProgress \<and>
    at2 (shots (boardOf (currentPlayer bs) bs)) row col = Inr v \<and> v \<noteq> Some CellEmpty \<longrightarrow>
      twice (\<lambda>s. fireShot s row col) bs = fireShot bs row col"
  proof
    assume h: "phase bs = PhaseInProgress \<and>
      at2 (shots (boardOf (currentPlayer bs) bs)) row col = Inr v \<and> v \<noteq> Some CellEmpty"
    let ?r = "bs\<lparr>lastActionMessage := Some AlreadyShot\<rparr>"
    from h have a: "fireShot bs row col = Inr ?r"
      by (simp add: fireShot_already)
    from h have "phase ?r = PhaseInProgress"
      and "at2 (shots (boardOf (currentPlayer ?r) ?r)) row col = Inr v"
      by (auto simp: boardOf_def)
    with h have "fireShot ?r row col = Inr (?r\<lparr>lastActionMessage := Some AlreadyShot\<rparr>)"
      by (intro fireShot_already) auto
    with a show "twice (\<lambda>s. fireShot s row col) bs = fireShot bs row col"
      by (simp add: twice_def)
  qed
  have 4: "(phase bp = SetupP1 \<or> phase bp = SetupP2) \<and>
    selectedShipId (bs_setup bp) = Some sid \<and> sid \<noteq> [] \<and>
    findIndex (\<lambda>s. ship_id s = sid) (ships (setupSide bp)) = Some k \<and>
    clearOldPosition (grid (setupSide bp)) (ships (setupSide bp) ! k) = Inr g \<and>
    canPlaceShip g (ship_size (ships (setupSide bp) ! k)) prow pcol (orientation (bs_setup bp))
      = Inr False \<longrightarrow>
      twice (\<lambda>s. placeShip s prow pcol) bp = placeShip bp prow pcol"
  proof
    assume h: "(phase bp = SetupP1 \<or> phase bp = SetupP2) \<and>
      selectedShipId (bs_setup bp) = Some sid \<and> sid \<noteq> [] \<and>
      findIndex (\<lambda>s. ship_id s = sid) (ships (setupSide bp)) = Some k \<and>
      clearOldPosition (grid (setupSide bp)) (ships (setupSide bp) ! k) = Inr g \<and>
      canPlaceShip g (ship_size (ships (setupSide bp) ! k)) prow pcol (orientation (bs_setup bp))
        = Inr False"
    let ?r = "bp\<lparr>lastActionMessage := Some InvalidPlacement\<rparr>"
    from h have a: "placeShip bp prow pcol = Inr ?r"
      by (intro placeShip_invalid) auto
    have same: "setupSide ?r = setupSide bp" "phase ?r = phase bp" "bs_setup ?r = bs_setup bp"
      by (simp_all add: setupSide_def)
    from h have "placeShip ?r prow pcol = Inr (?r\<lparr>lastActionMessage := Some InvalidPlacement\<rparr>)"
      by (intro placeShip_invalid [where sid = sid and k = k and g = g]) (auto simp: same)
    with a show "twice (\<lambda>s. placeShip s prow pcol) bp = placeShip bp prow pcol"
      by (simp add: twice_def)
  qed
  have 5: "phase bf = SetupP1 \<and> list_ex (\<lambda>s. \<not> placed s) (ships (p1 bf)) \<or>
    phase bf = SetupP2 \<and> list_ex (\<lambda>s. \<not> placed s) (ships (p2 bf)) \<longrightarrow>
      finishSetup (finishSetup bf) = finishSetup bf"
    by (auto simp: finishSetup_def)
  have 6: "status w = InProgress \<and>
    (int (length (up (currentGuess w))) \<noteq> wordLength w \<or> up (currentGuess w) \<notin> set allowed) \<longrightarrow>
      submitGuess up allowed (submitGuess up allowed w) = submitGuess up allowed w"
    by (auto simp: submitGuess_def Let_def isValidTurkishWord_def)
  have 7: "int (length (up (filter isTurkishLetter input))) > wordLength u \<longrightarrow>
      updateCurrentGuess up (updateCurrentGuess up u input) input = updateCurrentGuess up u input"
    by (simp add: updateCurrentGuess_def Let_def)
  have 8: "upc letter \<in> set (guessedLetters h) \<longrightarrow>
      wg_makeGuess upc (wg_makeGuess upc h letter) letter = wg_makeGuess upc h letter"
    by (simp add: wg_makeGuess_def Let_def)
  have 9: "length (flippedIndices m) \<ge> 2 \<or>
    (\<exists>cd. at (board m) idx = Some cd \<and> (isFlipped cd \<or> isMatched cd)) \<longrightarrow>
      twice (\<lambda>s. flipCard s idx) m = flipCard m idx"
  proof
    assume "length (flippedIndices m) \<ge> 2 \<or>
      (\<exists>cd. at (board m) idx = Some cd \<and> (isFlipped cd \<or> isMatched cd))"
    then have "flipCard m idx = Inr m"
      by (auto simp: flipCard_def)
    then show "twice (\<lambda>s. flipCard s idx) m = flipCard m idx"
      by (simp add: twice_def)
  qed
  from 1 2 3 4 5 6 7 8 9 show ?thesis by blast
qed

theorem rejection_idempotent_witness:
  "at (board ttt_beforeWin) 0 \<noteq> Some None \<and>
   ttt_makeMove (ttt_makeMove ttt_beforeWin 0) 0 = ttt_makeMove ttt_beforeWin 0 \<and>
   length (board c4_fullColumn) = ROWS \<and>
   twice (\<lambda>s. c4_makeMove s 0) c4_fullColumn = c4_makeMove c4_fullColumn 0 \<and>
   phase duelState = PhaseInProgress \<and>
   at2 (shots (boardOf (currentPlayer duelState) duelState)) 0 0 = Inr (Some CellHit) \<and>
   twice (\<lambda>s. fireShot s 0 0) duelState = fireShot duelState 0 0 \<and>
   fireShot duelState 0 0 = Inr (duelState\<lparr>lastActionMessage := Some AlreadyShot\<rparr>) \<and>
   phase (selectShip bs_INITIAL_STATE (utf16 ''carrier'')) = SetupP1 \<and>
   canPlaceShip createEmptyGrid 4 0 4 Horizontal = Inr False \<and>
   twice (\<lambda>s. placeShip s 0 4) (selectShip bs_INITIAL_STATE (utf16 ''carrier''))
     = placeShip (selectShip bs_INITIAL_STATE (utf16 ''carrier'')) 0 4 \<and>
   phase bs_INITIAL_STATE = SetupP1 \<and> list_ex (\<lambda>s. \<not> placed s) (ships (p1 bs_INITIAL_STATE)) \<and>
   finishSetup (finishSetup bs_INITIAL_STATE) = finishSetup bs_INITIAL_STATE \<and>
   status (tw_example (utf16 ''ELMA'')) = InProgress \<and>
   submitGuess trUpper allowed_example (submitGuess trUpper allowed_example (tw_example (utf16 ''ELMA'')))
     = submitGuess trUpper allowed_example (tw_example (utf16 ''ELMA'')) \<and>
   updateCurrentGuess trUpper (updateCurrentGuess trUpper (tw_example []) (utf16 ''kalemler''))
       (utf16 ''kalemler'')
     = updateCurrentGuess trUpper (tw_example []) (utf16 ''kalemler'') \<and>
   trUpper (utf16 ''e'') \<in> set (guessedLetters wg_example) \<and>
   wg_makeGuess trUpper (wg_makeGuess trUpper wg_example (utf16 ''e'')) (utf16 ''e'')
     = wg_makeGuess trUpper wg_example (utf16 ''e'') \<and>
   length (flippedIndices mm_example) \<ge> 2 \<and>
   twice (\<lambda>s. flipCard s 1) mm_example = flipCard mm_example 1"
proof -
  have t: "at (board ttt_beforeWin) 0 \<noteq> Some None" by code_simp
  have c1: "length (board c4_fullColumn) = ROWS" by (simp add: c4_fullColumn_def)
  have c2: "\<forall>r<ROWS. at (board c4_fullColumn ! r) 0 \<noteq> Some None"
    by (simp add: c4_fullColumn_def at_def)
  have s1: "phase duelState = PhaseInProgress" by (simp add: duelState_def)
  have s2: "at2 (shots (boardOf (currentPlayer duelState) duelState)) 0 0 = Inr (Some CellHit)"
    by code_simp
  have s3: "fireShot duelState 0 0 = Inr (duelState\<lparr>lastActionMessage := Some AlreadyShot\<rparr>)"
    by code_simp
  let ?bp = "selectShip bs_INITIAL_STATE (utf16 ''carrier'')"
  have p1: "phase ?bp = SetupP1" by (simp add: selectShip_def bs_INITIAL_STATE_def)
  have p2: "selectedShipId (bs_setup ?bp) = Some (utf16 ''carrier'')" by (simp add: selectShip_def)
  have p3: "utf16 ''carrier'' \<noteq> []" by (simp add: utf16_def)
  have p4: "findIndex (\<lambda>s. ship_id s = utf16 ''carrier'') (ships (setupSide ?bp)) = Some 0"
    by code_simp
  have p5: "clearOldPosition (grid (setupSide ?bp)) (ships (setupSide ?bp) ! 0) = Inr createEmptyGrid"
    by code_simp
  have p6: "canPlaceShip createEmptyGrid (ship_size (ships (setupSide ?bp) ! 0)) 0 4
              (orientation (bs_setup ?bp)) = Inr False"
    by code_simp
  have p7: "canPlaceShip createEmptyGrid 4 0 4 Horizontal = Inr False" by code_simp
  have f1: "phase bs_INITIAL_STATE = SetupP1" by (simp add: bs_INITIAL_STATE_def)
  have f2: "list_ex (\<lambda>s. \<not> placed s) (ships (p1 bs_INITIAL_STATE))" by code_simp
  have w1: "status (tw_example (utf16 ''ELMA'')) = InProgress" by (simp add: tw_example_def)
  have w2: "int (length (trUpper (currentGuess (tw_example (utf16 ''ELMA'')))))
              \<noteq> wordLength (tw_example (utf16 ''ELMA''))"
    by (simp add: tw_example_def trUpper_def utf16_def)
  have u1: "int (length (trUpper (filter isTurkishLetter (utf16 ''kalemler''))))
              > wordLength (tw_example [])"
    by code_simp
  have h1: "trUpper (utf16 ''e'') \<in> set (guessedLetters wg_example)" by code_simp
  have m1: "length (flippedIndices mm_example) \<ge> 2" by (simp add: mm_example_def)
  note A = rejection_idempotent [where t = ttt_beforeWin and i = 0
      and c = c4_fullColumn and colIndex = 0
      and bs = duelState and row = 0 and col = 0 and v = "Some CellHit"
      and bp = ?bp and sid = "utf16 ''carrier''" and k = 0 and g = createEmptyGrid
      and prow = 0 and pcol = 4
      and bf = bs_INITIAL_STATE
      and w = "tw_example (utf16 ''ELMA'')" and up = trUpper and allowed = allowed_example
      and u = "tw_example []" and input = "utf16 ''kalemler''"
      and h = wg_example and upc = trUpper and letter = "utf16 ''e''"
      and m = mm_example and idx = 1]
  from A t c1 c2 s1 s2 s3 p1 p2 p3 p4 p5 p6 p7 f1 f2 w1 w2 u1 h1 m1 show ?thesis
    by simp
qed

section \<open>Totality of the transitions\<close>

text \<open>
  Claim C4, as stated, fails at these inputs. \<^verbatim>\<open>flipCard\<close> on the exported
  \<^verbatim>\<open>INITIAL_STATE\<close> of MemoryMatch, whose board is empty, with index 0, and on a board
  of four cards with index 4, reads a property of \<^verbatim>\<open>undefined\<close> and throws a
  \<^verbatim>\<open>TypeError\<close>. So does \<^verbatim>\<open>fireShot\<close> with row 6 or row -1 in a state of phase
  \<^verbatim>\<open>'in_progress'\<close> reached by playing from the \<^verbatim>\<open>INITIAL_STATE\<close> of Battleship, and
  \<^verbatim>\<open>canPlaceShip\<close> on the empty grid for a ship of size 2, horizontal at row 6 or
  vertical at row -1, column 0.
\<close>

theorem totality_counterexample:
  "status mm_INITIAL_STATE = InProgress \<and>
   flipCard mm_INITIAL_STATE 0 = Inl TypeError \<and>
   flipCard (mm_INITIAL_STATE\<lparr>board := board mm_example\<rparr>) 4 = Inl TypeError \<and>
   bs_run bs_INITIAL_STATE fullGameBeforeEnd = Inr beforeEnd \<and>
   phase beforeEnd = PhaseInProgress \<and>
   fireShot beforeEnd 6 0 = Inl TypeError \<and>
   fireShot beforeEnd (- 1) 0 = Inl TypeError \<and>
   canPlaceShip createEmptyGrid 2 6 0 Horizontal = Inl TypeError \<and>
   canPlaceShip createEmptyGrid 2 (- 1) 0 Vertical = Inl TypeError"
proof -
  have "status mm_INITIAL_STATE = InProgress \<and>
   flipCard mm_INITIAL_STATE 0 = Inl TypeError \<and>
   flipCard (mm_INITIAL_STATE\<lparr>board := board mm_example\<rparr>) 4 = Inl TypeError \<and>
   phase beforeEnd = PhaseInProgress \<and>
   fireShot beforeEnd 6 0 = Inl TypeError \<and>
   fireShot beforeEnd (- 1) 0 = Inl TypeError \<and>
   canPlaceShip createEmptyGrid 2 6 0 Horizontal = Inl TypeError \<and>
   canPlaceShip createEmptyGrid 2 (- 1) 0 Vertical = Inl TypeError"
    by code_simp
  with fullGameBeforeEnd_reaches show ?thesis by blast
qed

text \<open>
  Claim C4, amended (totality on the board, and where it ends). An index off the board
  means a negative one or one not below the length of the array it is used on.

  TicTacToe \<^verbatim>\<open>makeMove\<close> with a cell index off the board returns the state as it is.
  ConnectFour \<^verbatim>\<open>makeMove\<close> on a board of six rows returns a state for every column
  index, and the state as it is when the column index is negative or not below the
  length of any row.

  MemoryMatch \<^verbatim>\<open>flipCard\<close> returns a state for every index of a card on the board, and
  the state as it is when \<^verbatim>\<open>status\<close> is not \<^verbatim>\<open>'in_progress'\<close> or two indices are
  already flipped, whatever the index; in an in-progress state with fewer than two
  flipped indices and an index off the board it throws a TypeError. \<^verbatim>\<open>checkMatch\<close>
  returns a state when all flipped indices are indices of cards, and the state as it is
  when there are not exactly two of them; when there are exactly two and one of them is
  off the board it throws a TypeError.

  Battleship \<^verbatim>\<open>canPlaceShip\<close>, on a grid of six rows, returns a boolean for every row on
  the grid and every column; more precisely it returns a boolean when the ship's size is
  not positive, or, for a horizontal ship, when column plus size exceeds 6 or the row is
  on the grid, or, for a vertical ship, when row plus size exceeds 6 or the row is not
  negative; in the remaining cases (size at least 1, and either horizontal with column
  plus size at most 6 and the row off the grid, or vertical with row plus size at most 6
  and a negative row) it throws a TypeError. \<^verbatim>\<open>fireShot\<close> returns a state for every
  row on the grid and every column when the attacker's \<^verbatim>\<open>shots\<close> and the defender's
  \<^verbatim>\<open>grid\<close> have six rows, and the state as it is when the phase is not
  \<^verbatim>\<open>'in_progress'\<close>, whatever the coordinates; in phase \<^verbatim>\<open>'in_progress'\<close> with a row
  off the attacker's \<^verbatim>\<open>shots\<close> it throws a TypeError. \<^verbatim>\<open>placeShip\<close> returns a state for
  every row on the grid and every column when the grids of the side being set up are
  6 by 6 and its placed ships lie on the grid.
\<close>

theorem totality_on_the_board:
  "(length (board c) = ROWS \<longrightarrow> (\<exists>c'. c4_makeMove c colIndex = Inr c')) \<and>
   (0 \<le> idx \<and> idx < int (length (board m)) \<longrightarrow> (\<exists>m'. flipCard m idx = Inr m')) \<and>
   (list_all (\<lambda>i. 0 \<le> i \<and> i < int (length (board k))) (flippedIndices k) \<longrightarrow>
      (\<exists>k'. checkMatch k = Inr k')) \<and>
   (length g = nat GRID_SIZE \<and> 0 \<le> row \<and> row < GRID_SIZE \<longrightarrow>
      (\<exists>ok. canPlaceShip g shipSize row col ori = Inr ok)) \<and>
   (length (shots (boardOf (currentPlayer b) b)) = nat GRID_SIZE \<and>
    length (grid (boardOf (otherPlayer (currentPlayer b)) b)) = nat GRID_SIZE \<and>
    0 \<le> frow \<and> frow < GRID_SIZE \<longrightarrow>
      (\<exists>b'. fireShot b frow fcol = Inr b')) \<and>
   (wfSide (setupSide bp) \<and> 0 \<le> prow \<and> prow < GRID_SIZE \<longrightarrow>
      (\<exists>bp'. placeShip bp prow pcol = Inr bp')) \<and>
   (tidx < 0 \<or> int (length (board t)) \<le> tidx \<longrightarrow> ttt_makeMove t tidx = t) \<and>
   (length (board c) = ROWS \<and>
    (colIndex < 0 \<or> list_all (\<lambda>rw. int (length rw) \<le> colIndex) (board c)) \<longrightarrow>
      c4_makeMove c colIndex = Inr c) \<and>
   (status m = InProgress \<and> length (flippedIndices m) < 2 \<and>
    (idx < 0 \<or> int (length (board m)) \<le> idx) \<longrightarrow>
      flipCard m idx = Inl TypeError) \<and>
   (status m \<noteq> InProgress \<or> 2 \<le> length (flippedIndices m) \<longrightarrow> flipCard m idx = Inr m) \<and>
   (length (flippedIndices k) = 2 \<and>
    list_ex (\<lambda>i. i < 0 \<or> int (length (board k)) \<le> i) (flippedIndices k) \<longrightarrow>
      checkMatch k = Inl TypeError) \<and>
   (length (flippedIndices k) \<noteq> 2 \<longrightarrow> checkMatch k = Inr k) \<and>
   (length g = nat GRID_SIZE \<and> 1 \<le> shipSize \<and>
    (if ori = Horizontal then col + shipSize \<le> GRID_SIZE \<and> (row < 0 \<or> GRID_SIZE \<le> row)
     else row + shipSize \<le> GRID_SIZE \<and> row < 0) \<longrightarrow>
      canPlaceShip g shipSize row col ori = Inl TypeError) \<and>
   (length g = nat GRID_SIZE \<and>
    (shipSize \<le> 0 \<or>
     (if ori = Horizontal then GRID_SIZE < col + shipSize \<or> (0 \<le> row \<and> row < GRID_SIZE)
      else GRID_SIZE < row + shipSize \<or> 0 \<le> row)) \<longrightarrow>
      (\<exists>ok. canPlaceShip g shipSize row col ori = Inr ok)) \<and>
   (phase b = PhaseInProgress \<and>
    (frow < 0 \<or> int (length (shots (boardOf (currentPlayer b) b))) \<le> frow) \<longrightarrow>
      fireShot b frow fcol = Inl TypeError) \<and>
   (phase b \<noteq> PhaseInProgress \<longrightarrow> fireShot b frow fcol = Inr b)"
proof -
  have 1: "length (board c) = ROWS \<longrightarrow> (\<exists>c'. c4_makeMove c colIndex = Inr c')"
    using c4_makeMove_total by blast
  have 2: "0 \<le> idx \<and> idx < int (length (board m)) \<longrightarrow> (\<exists>m'. flipCard m idx = Inr m')"
    using flipCard_total by blast
  have 3: "list_all (\<lambda>i. 0 \<le> i \<and> i < int (length (board k))) (flippedIndices k) \<longrightarrow>
      (\<exists>k'. checkMatch k = Inr k')"
    using checkMatch_total by blast
  have 4: "length g = nat GRID_SIZE \<and> 0 \<le> row \<and> row < GRID_SIZE \<longrightarrow>
      (\<exists>ok. canPlaceShip g shipSize row col ori = Inr ok)"
    using canPlaceShip_total by blast
  have 5: "length (shots (boardOf (currentPlayer b) b)) = nat GRID_SIZE \<and>
    length (grid (boardOf (otherPlayer (currentPlayer b)) b)) = nat GRID_SIZE \<and>
    0 \<le> frow \<and> frow < GRID_SIZE \<longrightarrow>
      (\<exists>b'. fireShot b frow fcol = Inr b')"
    using fireShot_total by blast
  have 6: "wfSide (setupSide bp) \<and> 0 \<le> prow \<and> prow < GRID_SIZE \<longrightarrow>
      (\<exists>bp'. placeShip bp prow pcol = Inr bp')"
    using placeShip_total by blast
  have 7: "tidx < 0 \<or> int (length (board t)) \<le> tidx \<longrightarrow> ttt_makeMove t tidx = t"
    using ttt_makeMove_off_board by blast
  have 8: "length (board c) = ROWS \<and>
    (colIndex < 0 \<or> list_all (\<lambda>rw. int (length rw) \<le> colIndex) (board c)) \<longrightarrow>
      c4_makeMove c colIndex = Inr c"
    using c4_makeMove_off_board by blast
  have 9: "status m = InProgress \<and> length (flippedIndices m) < 2 \<and>
    (idx < 0 \<or> int (length (board m)) \<le> idx) \<longrightarrow>
      flipCard m idx = Inl TypeError"
    using flipCard_throws by blast
  have 10: "status m \<noteq> InProgress \<or> 2 \<le> length (flippedIndices m) \<longrightarrow> flipCard m idx = Inr m"
    using flipCard_idle by blast
  have 11: "length (flippedIndices k) = 2 \<and>
    list_ex (\<lambda>i. i < 0 \<or> int (length (board k)) \<le> i) (flippedIndices k) \<longrightarrow>
      checkMatch k = Inl TypeError"
    using checkMatch_throws by blast
  have 12: "length (flippedIndices k) \<noteq> 2 \<longrightarrow> checkMatch k = Inr k"
    by (auto simp: checkMatch_def split: list.splits)
  have 13: "length g = nat GRID_SIZE \<and> 1 \<le> shipSize \<and>
    (if ori = Horizontal then col + shipSize \<le> GRID_SIZE \<and> (row < 0 \<or> GRID_SIZE \<le> row)
     else row + shipSize \<le> GRID_SIZE \<and> row < 0) \<longrightarrow>
      canPlaceShip g shipSize row col ori = Inl TypeError"
  proof
    assume h: "length g = nat GRID_SIZE \<and> 1 \<le> shipSize \<and>
      (if ori = Horizontal then col + shipSize \<le> GRID_SIZE \<and> (row < 0 \<or> GRID_SIZE \<le> row)
       else row + shipSize \<le> GRID_SIZE \<and> row < 0)"
    then have off: "at g row = None"
      by (cases ori) (auto simp: at_def GRID_SIZE_def)
    from h have fits: "if ori = Horizontal then col + shipSize \<le> GRID_SIZE
        else row + shipSize \<le> GRID_SIZE"
      by (cases ori) auto
    from h have "1 \<le> shipSize" by simp
    from canPlaceShip_throws [OF this off fits]
    show "canPlaceShip g shipSize row col ori = Inl TypeError" .
  qed
  have 14: "length g = nat GRID_SIZE \<and>
    (shipSize \<le> 0 \<or>
     (if ori = Horizontal then GRID_SIZE < col + shipSize \<or> (0 \<le> row \<and> row < GRID_SIZE)
      else GRID_SIZE < row + shipSize \<or> 0 \<le> row)) \<longrightarrow>
      (\<exists>ok. canPlaceShip g shipSize row col ori = Inr ok)"
    using canPlaceShip_returns by blast
  have 15: "phase b = PhaseInProgress \<and>
    (frow < 0 \<or> int (length (shots (boardOf (currentPlayer b) b))) \<le> frow) \<longrightarrow>
      fireShot b frow fcol = Inl TypeError"
    using fireShot_throws_row by blast
  have 16: "phase b \<noteq> PhaseInProgress \<longrightarrow> fireShot b frow fcol = Inr b"
    using fireShot_not_in_progress by blast
  from 1 2 3 4 5 6 7 8 9 10 11 12 13 14 15 16 show ?thesis
    by (intro conjI)
qed

theorem totality_on_the_board_witness:
  "length (board c4_INITIAL_STATE) = ROWS \<and> (\<exists>c'. c4_makeMove c4_INITIAL_STATE 9 = Inr c') \<and>
   (3::int) < int (length (board (mm_INITIAL_STATE\<lparr>board := board mm_example\<rparr>))) \<and>
   (\<exists>m'. flipCard (mm_INITIAL_STATE\<lparr>board := board mm_example\<rparr>) 3 = Inr m') \<and>
   list_all (\<lambda>i. 0 \<le> i \<and> i < int (length (board mm_example))) (flippedIndices mm_example) \<and>
   (\<exists>k'. checkMatch mm_example = Inr k') \<and>
   length createEmptyGrid = nat GRID_SIZE \<and> (2::int) < GRID_SIZE \<and>
   (\<exists>ok. canPlaceShip createEmptyGrid 3 2 5 Vertical = Inr ok) \<and>
   length (shots (boardOf (currentPlayer duelState) duelState)) = nat GRID_SIZE \<and>
   length (grid (boardOf (otherPlayer (currentPlayer duelState)) duelState)) = nat GRID_SIZE \<and>
   (\<exists>b'. fireShot duelState 3 9 = Inr b') \<and>
   wfSide (setupSide (selectShip bs_INITIAL_STATE (utf16 ''carrier''))) \<and>
   (\<exists>bp'. placeShip (selectShip bs_INITIAL_STATE (utf16 ''carrier'')) 2 (- 4) = Inr bp') \<and>
   int (length (board ttt_INITIAL_STATE)) \<le> 9 \<and>
   ttt_makeMove ttt_INITIAL_STATE 9 = ttt_INITIAL_STATE \<and>
   list_all (\<lambda>rw. int (length rw) \<le> 9) (board c4_INITIAL_STATE) \<and>
   c4_makeMove c4_INITIAL_STATE 9 = Inr c4_INITIAL_STATE \<and>
   status mm_INITIAL_STATE = InProgress \<and> length (flippedIndices mm_INITIAL_STATE) < 2 \<and>
   int (length (board mm_INITIAL_STATE)) \<le> 0 \<and>
   flipCard mm_INITIAL_STATE 0 = Inl TypeError \<and>
   2 \<le> length (flippedIndices mm_example) \<and> flipCard mm_example 9 = Inr mm_example \<and>
   length (flippedIndices (mm_example\<lparr>flippedIndices := [0, 9]\<rparr>)) = 2 \<and>
   list_ex (\<lambda>i. i < 0 \<or> int (length (board (mm_example\<lparr>flippedIndices := [0, 9]\<rparr>))) \<le> i)
     (flippedIndices (mm_example\<lparr>flippedIndices := [0, 9]\<rparr>)) \<and>
   checkMatch (mm_example\<lparr>flippedIndices := [0, 9]\<rparr>) = Inl TypeError \<and>
   length (flippedIndices mm_INITIAL_STATE) \<noteq> 2 \<and>
   checkMatch mm_INITIAL_STATE = Inr mm_INITIAL_STATE \<and>
   (0::int) + 2 \<le> GRID_SIZE \<and> GRID_SIZE \<le> (6::int) \<and>
   canPlaceShip createEmptyGrid 2 6 0 Horizontal = Inl TypeError \<and>
   - 1 + 2 \<le> GRID_SIZE \<and>
   canPlaceShip createEmptyGrid 2 (- 1) 0 Vertical = Inl TypeError \<and>
   GRID_SIZE < 6 + 2 \<and>
   (\<exists>ok. canPlaceShip createEmptyGrid 2 6 0 Vertical = Inr ok) \<and>
   phase duelState = PhaseInProgress \<and>
   int (length (shots (boardOf (currentPlayer duelState) duelState))) \<le> 6 \<and>
   fireShot duelState 6 0 = Inl TypeError \<and>
   phase bs_INITIAL_STATE \<noteq> PhaseInProgress \<and>
   fireShot bs_INITIAL_STATE (- 3) 0 = Inr bs_INITIAL_STATE"
proof -
  have c: "length (board c4_INITIAL_STATE) = ROWS" by (simp add: c4_INITIAL_STATE_def)
  have c9: "list_all (\<lambda>rw. int (length rw) \<le> 9) (board c4_INITIAL_STATE)"
    by (simp add: c4_INITIAL_STATE_def COLS_def list_all_length)
  have m: "(3::int) < int (length (board (mm_INITIAL_STATE\<lparr>board := board mm_example\<rparr>)))"
    by (simp add: mm_example_def)
  have k: "list_all (\<lambda>i. 0 \<le> i \<and> i < int (length (board mm_example))) (flippedIndices mm_example)"
    by (simp add: mm_example_def)
  have g: "length createEmptyGrid = nat GRID_SIZE" by (simp add: createEmptyGrid_def)
  have r: "(2::int) < GRID_SIZE" "(3::int) < GRID_SIZE" "(0::int) + 2 \<le> GRID_SIZE"
    "GRID_SIZE \<le> (6::int)" "- 1 + 2 \<le> GRID_SIZE" "GRID_SIZE < 6 + 2"
    by (simp_all add: GRID_SIZE_def)
  have b1: "length (shots (boardOf (currentPlayer duelState) duelState)) = nat GRID_SIZE"
    by code_simp
  have b2: "length (grid (boardOf (otherPlayer (currentPlayer duelState)) duelState)) = nat GRID_SIZE"
    by code_simp
  have b3: "phase duelState = PhaseInProgress" by (simp add: duelState_def)
  have b4: "int (length (shots (boardOf (currentPlayer duelState) duelState))) \<le> 6"
    using b1 by (simp add: GRID_SIZE_def)
  have b5: "phase bs_INITIAL_STATE \<noteq> PhaseInProgress" by (simp add: bs_INITIAL_STATE_def)
  have p: "wfSide (setupSide (selectShip bs_INITIAL_STATE (utf16 ''carrier'')))"
    by code_simp
  have t: "int (length (board ttt_INITIAL_STATE)) \<le> 9" by (simp add: ttt_INITIAL_STATE_def)
  have m0: "status mm_INITIAL_STATE = InProgress" "length (flippedIndices mm_INITIAL_STATE) < 2"
    "int (length (board mm_INITIAL_STATE)) \<le> 0" "length (flippedIndices mm_INITIAL_STATE) \<noteq> 2"
    by (simp_all add: mm_INITIAL_STATE_def)
  have m2: "2 \<le> length (flippedIndices mm_example)" by (simp add: mm_example_def)
  have k9: "length (flippedIndices (mm_example\<lparr>flippedIndices := [0, 9]\<rparr>)) = 2"
    "list_ex (\<lambda>i. i < 0 \<or> int (length (board (mm_example\<lparr>flippedIndices := [0, 9]\<rparr>))) \<le> i)
       (flippedIndices (mm_example\<lparr>flippedIndices := [0, 9]\<rparr>))"
    by (simp_all add: mm_example_def)
  note A = totality_on_the_board [where c = c4_INITIAL_STATE and colIndex = 9
      and m = "mm_INITIAL_STATE\<lparr>board := board mm_example\<rparr>" and idx = 3
      and k = mm_example
      and g = createEmptyGrid and row = 2 and shipSize = 3 and col = 5 and ori = Vertical
      and b = duelState and frow = 3 and fcol = 9
      and bp = "selectShip bs_INITIAL_STATE (utf16 ''carrier'')" and prow = 2 and pcol = "- 4"
      and t = ttt_INITIAL_STATE and tidx = 9]
  note B = totality_on_the_board [where c = c4_INITIAL_STATE and colIndex = 9
      and m = mm_INITIAL_STATE and idx = 0
      and k = "mm_example\<lparr>flippedIndices := [0, 9]\<rparr>"
      and g = createEmptyGrid and row = 6 and shipSize = 2 and col = 0 and ori = Horizontal
      and b = duelState and frow = 6 and fcol = 0
      and bp = "selectShip bs_INITIAL_STATE (utf16 ''carrier'')" and prow = 2 and pcol = "- 4"
      and t = ttt_INITIAL_STATE and tidx = 9]
  note C = totality_on_the_board [where c = c4_INITIAL_STATE and colIndex = 9
      and m = mm_example and idx = 9
      and k = mm_INITIAL_STATE
      and g = createEmptyGrid and row = 6 and shipSize = 2 and col = 0 and ori = Vertical
      and b = bs_INITIAL_STATE and frow = "- 3" and fcol = 0
      and bp = "selectShip bs_INITIAL_STATE (utf16 ''carrier'')" and prow = 2 and pcol = "- 4"
      and t = ttt_INITIAL_STATE and tidx = 9]
  note D = totality_on_the_board [where c = c4_INITIAL_STATE and colIndex = 9
      and m = mm_example and idx = 9
      and k = mm_INITIAL_STATE
      and g = createEmptyGrid and row = "- 1" and shipSize = 2 and col = 0 and ori = Vertical
      and b = bs_INITIAL_STATE and frow = "- 3" and fcol = 0
      and bp = "selectShip bs_INITIAL_STATE (utf16 ''carrier'')" and prow = 2 and pcol = "- 4"
      and t = ttt_INITIAL_STATE and tidx = 9]
  from A [THEN conjunct1] c
  have w1: "\<exists>c'. c4_makeMove c4_INITIAL_STATE 9 = Inr c'" by simp
  from A [THEN conjunct2, THEN conjunct1] m
  have w2: "\<exists>m'. flipCard (mm_INITIAL_STATE\<lparr>board := board mm_example\<rparr>) 3 = Inr m'"
    by simp
  from A [THEN conjunct2, THEN conjunct2, THEN conjunct1] k
  have w3: "\<exists>k'. checkMatch mm_example = Inr k'" by simp
  from A [THEN conjunct2, THEN conjunct2, THEN conjunct2, THEN conjunct1] g r
  have w4: "\<exists>ok. canPlaceShip createEmptyGrid 3 2 5 Vertical = Inr ok" by simp
  from A [THEN conjunct2, THEN conjunct2, THEN conjunct2, THEN conjunct2, THEN conjunct1] b1 b2 r
  have w5: "\<exists>b'. fireShot duelState 3 9 = Inr b'" by simp
  from A [THEN conjunct2, THEN conjunct2, THEN conjunct2, THEN conjunct2, THEN conjunct2, THEN conjunct1] p r
  have w6:
    "\<exists>bp'. placeShip (selectShip bs_INITIAL_STATE (utf16 ''carrier'')) 2 (- 4) = Inr bp'"
    by simp
  from A [THEN conjunct2, THEN conjunct2, THEN conjunct2, THEN conjunct2, THEN conjunct2, THEN conjunct2, THEN conjunct1] t
  have w7: "ttt_makeMove ttt_INITIAL_STATE 9 = ttt_INITIAL_STATE" by simp
  from A [THEN conjunct2, THEN conjunct2, THEN conjunct2, THEN conjunct2, THEN conjunct2, THEN conjunct2, THEN conjunct2, THEN conjunct1] c c9
  have w8: "c4_makeMove c4_INITIAL_STATE 9 = Inr c4_INITIAL_STATE" by simp
  from B [THEN conjunct2, THEN conjunct2, THEN conjunct2, THEN conjunct2, THEN conjunct2, THEN conjunct2, THEN conjunct2, THEN conjunct2, THEN conjunct1] m0
  have w9: "flipCard mm_INITIAL_STATE 0 = Inl TypeError" by simp
  from C [THEN conjunct2, THEN conjunct2, THEN conjunct2, THEN conjunct2, THEN conjunct2, THEN conjunct2, THEN conjunct2, THEN conjunct2, THEN conjunct2, THEN conjunct1] m2
  have w10: "flipCard mm_example 9 = Inr mm_example" by simp
  from B [THEN conjunct2, THEN conjunct2, THEN conjunct2, THEN conjunct2, THEN conjunct2, THEN conjunct2, THEN conjunct2, THEN conjunct2, THEN conjunct2, THEN conjunct2, THEN conjunct1] k9
  have w11: "checkMatch (mm_example\<lparr>flippedIndices := [0, 9]\<rparr>) = Inl TypeError"
    by blast
  from C [THEN conjunct2, THEN conjunct2, THEN conjunct2, THEN conjunct2, THEN conjunct2, THEN conjunct2, THEN conjunct2, THEN conjunct2, THEN conjunct2, THEN conjunct2, THEN conjunct2, THEN conjunct1] m0
  have w12: "checkMatch mm_INITIAL_STATE = Inr mm_INITIAL_STATE" by simp
  from B [THEN conjunct2, THEN conjunct2, THEN conjunct2, THEN conjunct2, THEN conjunct2, THEN conjunct2, THEN conjunct2, THEN conjunct2, THEN conjunct2, THEN conjunct2, THEN conjunct2, THEN conjunct2, THEN conjunct1] g r
  have w13: "canPlaceShip createEmptyGrid 2 6 0 Horizontal = Inl TypeError" by simp
  from D [THEN conjunct2, THEN conjunct2, THEN conjunct2, THEN conjunct2, THEN conjunct2, THEN conjunct2, THEN conjunct2, THEN conjunct2, THEN conjunct2, THEN conjunct2, THEN conjunct2, THEN conjunct2, THEN conjunct1] g r
  have w14: "canPlaceShip createEmptyGrid 2 (- 1) 0 Vertical = Inl TypeError" by simp
  from C [THEN conjunct2, THEN conjunct2, THEN conjunct2, THEN conjunct2, THEN conjunct2, THEN conjunct2, THEN conjunct2, THEN conjunct2, THEN conjunct2, THEN conjunct2, THEN conjunct2, THEN conjunct2, THEN conjunct2, THEN conjunct1] g r
  have w15: "\<exists>ok. canPlaceShip createEmptyGrid 2 6 0 Vertical = Inr ok" by simp
  from B [THEN conjunct2, THEN conjunct2, THEN conjunct2, THEN conjunct2, THEN conjunct2, THEN conjunct2, THEN conjunct2, THEN conjunct2, THEN conjunct2, THEN conjunct2, THEN conjunct2, THEN conjunct2, THEN conjunct2, THEN conjunct2, THEN conjunct1] b3 b4
  have w16: "fireShot duelState 6 0 = Inl TypeError" by simp
  from C [THEN conjunct2, THEN conjunct2, THEN conjunct2, THEN conjunct2, THEN conjunct2, THEN conjunct2, THEN conjunct2, THEN conjunct2, THEN conjunct2, THEN conjunct2, THEN conjunct2, THEN conjunct2, THEN conjunct2, THEN conjunct2, THEN conjunct2] b5
  have w17: "fireShot bs_INITIAL_STATE (- 3) 0 = Inr bs_INITIAL_STATE" by simp
  from c w1 m w2 k w3 g r(1) w4 b1 b2 w5 p w6 t w7 c9 w8 m0(1,2,3) w9 m2 w10 k9 w11 m0(4) w12
    r(3,4) w13 r(5) w14 r(6) w15 b3 b4 w16 b5 w17
  show ?thesis by (intro conjI)
qed

section \<open>WordleClone: a rejected submission\<close>

text \<open>
  Claim C8, as stated, fails: \<^verbatim>\<open>submitGuess\<close> tests the guess after
  \<^verbatim>\<open>toLocaleUpperCase('tr-TR')\<close>, not \<^verbatim>\<open>currentGuess\<close> itself. In the in-progress state
  whose \<^verbatim>\<open>currentGuess\<close> is \<^verbatim>\<open>'elmas'\<close>, with ELMAS in the table of allowed words,
  \<^verbatim>\<open>currentGuess\<close> is not a member of the table, yet \<^verbatim>\<open>submitGuess\<close> accepts it: there
  is no error message, \<^verbatim>\<open>guesses\<close> has a new row, \<^verbatim>\<open>currentAttemptIndex\<close> goes from 0
  to 1 and the game is won.
\<close>

theorem wordle_rejected_submission_counterexample:
  "status (tw_example (utf16 ''elmas'')) = InProgress \<and>
   currentGuess (tw_example (utf16 ''elmas'')) \<notin> set allowed_example \<and>
   errorMessage (submitGuess trUpper allowed_example (tw_example (utf16 ''elmas''))) = None \<and>
   guesses (tw_example (utf16 ''elmas'')) = [] \<and>
   length (guesses (submitGuess trUpper allowed_example (tw_example (utf16 ''elmas'')))) = 1 \<and>
   currentAttemptIndex (tw_example (utf16 ''elmas'')) = 0 \<and>
   currentAttemptIndex (submitGuess trUpper allowed_example (tw_example (utf16 ''elmas''))) = 1 \<and>
   status (submitGuess trUpper allowed_example (tw_example (utf16 ''elmas''))) = Win \<and>
   winner (submitGuess trUpper allowed_example (tw_example (utf16 ''elmas''))) = Some P1"
  by code_simp

text \<open>
  Claim C8, amended (WordleClone rejected submission). In every in-progress state, let the
  guess be \<^verbatim>\<open>currentGuess\<close> after \<^verbatim>\<open>toLocaleUpperCase('tr-TR')\<close>. If the guess has a
  length other than \<^verbatim>\<open>wordLength\<close> or is not in the table of allowed words,
  \<^verbatim>\<open>submitGuess\<close> returns the input state with only \<^verbatim>\<open>errorMessage\<close> set (to the
  message for a short word when the length differs, else to the message for an invalid
  word): the message is not null, and \<^verbatim>\<open>guesses\<close>, \<^verbatim>\<open>currentAttemptIndex\<close>,
  \<^verbatim>\<open>status\<close>, \<^verbatim>\<open>winner\<close> and \<^verbatim>\<open>targetWord\<close> are those of the input, so no attempt is
  used. This holds in particular when \<^verbatim>\<open>currentGuess\<close> is left unchanged by the
  upper-casing and itself has another length or is not in the table. If the guess has
  the length \<^verbatim>\<open>wordLength\<close> and is in the table, \<^verbatim>\<open>submitGuess\<close> accepts it, whatever
  the case of \<^verbatim>\<open>currentGuess\<close>: the row of its evaluation is appended to \<^verbatim>\<open>guesses\<close>,
  \<^verbatim>\<open>errorMessage\<close> is null and \<^verbatim>\<open>currentGuess\<close> is emptied.
\<close>

theorem wordle_rejected_submission:
  assumes "status s = InProgress"
  shows "(int (length (up (currentGuess s))) \<noteq> wordLength s \<or> up (currentGuess s) \<notin> set allowed \<longrightarrow>
            submitGuess up allowed s =
              s\<lparr>errorMessage := Some (if int (length (up (currentGuess s))) \<noteq> wordLength s
                                      then msgTooShort else msgInvalidWord)\<rparr> \<and>
            errorMessage (submitGuess up allowed s) \<noteq> None \<and>
            guesses (submitGuess up allowed s) = guesses s \<and>
            currentAttemptIndex (submitGuess up allowed s) = currentAttemptIndex s \<and>
            status (submitGuess up allowed s) = status s \<and>
            winner (submitGuess up allowed s) = winner s \<and>
            targetWord (submitGuess up allowed s) = targetWord s) \<and>
         (up (currentGuess s) = currentGuess s \<and>
            (int (length (currentGuess s)) \<noteq> wordLength s \<or> currentGuess s \<notin> set allowed) \<longrightarrow>
            errorMessage (submitGuess up allowed s) \<noteq> None \<and>
            guesses (submitGuess up allowed s) = guesses s \<and>
            currentAttemptIndex (submitGuess up allowed s) = currentAttemptIndex s \<and>
            status (submitGuess up allowed s) = status s \<and>
            winner (submitGuess up allowed s) = winner s \<and>
            targetWord (submitGuess up allowed s) = targetWord s) \<and>
         (int (length (up (currentGuess s))) = wordLength s \<and> up (currentGuess s) \<in> set allowed \<longrightarrow>
            guesses (submitGuess up allowed s) =
              guesses s @ [evaluateTurkishWordleGuess up (targetWord s) (up (currentGuess s))] \<and>
            errorMessage (submitGuess up allowed s) = None \<and>
            currentGuess (submitGuess up allowed s) = [])"
proof -
  have rej: "submitGuess up allowed s =
      s\<lparr>errorMessage := Some (if int (length (up (currentGuess s))) \<noteq> wordLength s
                              then msgTooShort else msgInvalidWord)\<rparr>"
    if "int (length (up (currentGuess s))) \<noteq> wordLength s \<or> up (currentGuess s) \<notin> set allowed"
  proof (cases "int (length (up (currentGuess s))) \<noteq> wordLength s")
    case True
    with assms show ?thesis
      by (simp add: submitGuess_def Let_def)
  next
    case False
    with that have "up (currentGuess s) \<notin> set allowed" by simp
    with False assms show ?thesis
      by (simp add: submitGuess_def Let_def isValidTurkishWord_def)
  qed
  have fields: "errorMessage (submitGuess up allowed s) \<noteq> None \<and>
      guesses (submitGuess up allowed s) = guesses s \<and>
      currentAttemptIndex (submitGuess up allowed s) = currentAttemptIndex s \<and>
      status (submitGuess up allowed s) = status s \<and>
      winner (submitGuess up allowed s) = winner s \<and>
      targetWord (submitGuess up allowed s) = targetWord s"
    if "int (length (up (currentGuess s))) \<noteq> wordLength s \<or> up (currentGuess s) \<notin> set allowed"
    by (simp add: rej [OF that])
  have lit: "int (length (up (currentGuess s))) \<noteq> wordLength s \<or> up (currentGuess s) \<notin> set allowed"
    if "up (currentGuess s) = currentGuess s \<and>
        (int (length (currentGuess s)) \<noteq> wordLength s \<or> currentGuess s \<notin> set allowed)"
    using that by simp
  have acc: "guesses (submitGuess up allowed s) =
        guesses s @ [evaluateTurkishWordleGuess up (targetWord s) (up (currentGuess s))] \<and>
      errorMessage (submitGuess up allowed s) = None \<and>
      currentGuess (submitGuess up allowed s) = []"
    if "int (length (up (currentGuess s))) = wordLength s \<and> up (currentGuess s) \<in> set allowed"
    using that assms by (simp add: submitGuess_def Let_def isValidTurkishWord_def)
  from rej fields lit acc show ?thesis by blast
qed

theorem wordle_rejected_submission_witness:
  "status (tw_example (utf16 ''ELMA'')) = InProgress \<and>
   trUpper (currentGuess (tw_example (utf16 ''ELMA''))) = currentGuess (tw_example (utf16 ''ELMA'')) \<and>
   int (length (currentGuess (tw_example (utf16 ''ELMA'')))) \<noteq> wordLength (tw_example (utf16 ''ELMA'')) \<and>
   submitGuess trUpper allowed_example (tw_example (utf16 ''ELMA'')) =
     (tw_example (utf16 ''ELMA''))\<lparr>errorMessage := Some msgTooShort\<rparr> \<and>
   errorMessage (submitGuess trUpper allowed_example (tw_example (utf16 ''ELMA''))) \<noteq> None \<and>
   guesses (submitGuess trUpper allowed_example (tw_example (utf16 ''ELMA''))) = [] \<and>
   currentAttemptIndex (submitGuess trUpper allowed_example (tw_example (utf16 ''ELMA''))) = 0 \<and>
   status (submitGuess trUpper allowed_example (tw_example (utf16 ''ELMA''))) = InProgress \<and>
   winner (submitGuess trUpper allowed_example (tw_example (utf16 ''ELMA''))) = None \<and>
   status (tw_example (utf16 ''elmas'')) = InProgress \<and>
   int (length (trUpper (currentGuess (tw_example (utf16 ''elmas''))))) =
     wordLength (tw_example (utf16 ''elmas'')) \<and>
   trUpper (currentGuess (tw_example (utf16 ''elmas''))) \<in> set allowed_example \<and>
   length (guesses (submitGuess trUpper allowed_example (tw_example (utf16 ''elmas'')))) = 1 \<and>
   errorMessage (submitGuess trUpper allowed_example (tw_example (utf16 ''elmas''))) = None"
proof -
  have st: "status (tw_example (utf16 ''ELMA'')) = InProgress"
    by (simp add: tw_example_def)
  have up: "trUpper (currentGuess (tw_example (utf16 ''ELMA''))) = currentGuess (tw_example (utf16 ''ELMA''))"
    by code_simp
  have len: "int (length (currentGuess (tw_example (utf16 ''ELMA'')))) \<noteq> wordLength (tw_example (utf16 ''ELMA''))"
    by (simp add: tw_example_def utf16_def)
  have init: "guesses (tw_example (utf16 ''ELMA'')) = []"
    "currentAttemptIndex (tw_example (utf16 ''ELMA'')) = 0"
    "winner (tw_example (utf16 ''ELMA'')) = None"
    by (simp_all add: tw_example_def)
  note a = wordle_rejected_submission [of "tw_example (utf16 ''ELMA'')" trUpper allowed_example, OF st]
  from a up len have r1: "submitGuess trUpper allowed_example (tw_example (utf16 ''ELMA'')) =
      (tw_example (utf16 ''ELMA''))\<lparr>errorMessage := Some msgTooShort\<rparr>"
    by auto
  from a up len have r2:
    "errorMessage (submitGuess trUpper allowed_example (tw_example (utf16 ''ELMA''))) \<noteq> None"
    "guesses (submitGuess trUpper allowed_example (tw_example (utf16 ''ELMA''))) =
       guesses (tw_example (utf16 ''ELMA''))"
    "currentAttemptIndex (submitGuess trUpper allowed_example (tw_example (utf16 ''ELMA''))) =
       currentAttemptIndex (tw_example (utf16 ''ELMA''))"
    "status (submitGuess trUpper allowed_example (tw_example (utf16 ''ELMA''))) =
       status (tw_example (utf16 ''ELMA''))"
    "winner (submitGuess trUpper allowed_example (tw_example (utf16 ''ELMA''))) =
       winner (tw_example (utf16 ''ELMA''))"
    by blast+
  have st2: "status (tw_example (utf16 ''elmas'')) = InProgress"
    by (simp add: tw_example_def)
  have len2: "int (length (trUpper (currentGuess (tw_example (utf16 ''elmas''))))) =
     wordLength (tw_example (utf16 ''elmas''))"
    by code_simp
  have mem2: "trUpper (currentGuess (tw_example (utf16 ''elmas''))) \<in> set allowed_example"
    by code_simp
  note b = wordle_rejected_submission [of "tw_example (utf16 ''elmas'')" trUpper allowed_example, OF st2]
  from b len2 mem2 have r3:
    "guesses (submitGuess trUpper allowed_example (tw_example (utf16 ''elmas''))) =
       guesses (tw_example (utf16 ''elmas'')) @
         [evaluateTurkishWordleGuess trUpper (targetWord (tw_example (utf16 ''elmas'')))
            (trUpper (currentGuess (tw_example (utf16 ''elmas''))))]"
    "errorMessage (submitGuess trUpper allowed_example (tw_example (utf16 ''elmas''))) = None"
    by blast+
  have "guesses (tw_example (utf16 ''elmas'')) = []"
    by (simp add: tw_example_def)
  with r3(1) have r4:
    "length (guesses (submitGuess trUpper allowed_example (tw_example (utf16 ''elmas'')))) = 1"
    by simp
  from st up len r1 r2 init st2 len2 mem2 r4 r3(2) show ?thesis by simp
qed

section \<open>MemoryMatch: the resolution of a pair\<close>




section \<open>NumberDuel: the direction of the feedback\<close>




end
